theory Spec2Isabelle
  imports Complex_Main
begin

section \<open>Log entries, strings and numeric helpers\<close>

text \<open>
  A log entry is a Python dict that the analyzers only ever read through \<open>get(key, default)\<close>.
  The record holds, for every key, the value that read returns: a missing string key is the
  empty string, a missing numeric key is 0.  Floating-point numbers are modelled as reals;
  where the code can produce NaN (0/0 in numpy, in the bee colony) the value NaN is part of
  the model.
\<close>

record log_entry =
  timestamp :: string
  source_ip :: string
  destination_ip :: string
  protocol :: string
  destination_port :: int
  event_type :: string
  status :: string
  location :: string
  process_name :: string
  filename :: string
  username :: string
  bytes_sent :: int
  bytes_received :: int

definition empty_log :: log_entry where
  "empty_log = \<lparr>timestamp = [], source_ip = [], destination_ip = [], protocol = [],
     destination_port = 0, event_type = [], status = [], location = [], process_name = [],
     filename = [], username = [], bytes_sent = 0, bytes_received = 0\<rparr>"

text \<open>The high-risk entry of the specification: only the four named keys are present.\<close>

definition high_risk_log :: log_entry where
  "high_risk_log = empty_log\<lparr>location := ''North Korea'', destination_port := 445,
     process_name := ''mimikatz'', status := ''failed''\<rparr>"

datatype py_error = TypeError | UnboundLocalError | ValueError

text \<open>\<open>str.lower\<close> on ASCII letters.\<close>

definition lower_char :: "char \<Rightarrow> char" where
  "lower_char c =
     (case map_of (zip ''ABCDEFGHIJKLMNOPQRSTUVWXYZ'' ''abcdefghijklmnopqrstuvwxyz'') c of
        Some d \<Rightarrow> d | None \<Rightarrow> c)"

definition lower :: "string \<Rightarrow> string" where
  "lower s = map lower_char s"

text \<open>\<open>startswith s p\<close> is \<open>s.startswith(p)\<close>; \<open>contains sub s\<close> is \<open>sub in s\<close>.\<close>

fun startswith :: "string \<Rightarrow> string \<Rightarrow> bool" where
  "startswith s [] = True"
| "startswith [] (c # p) = False"
| "startswith (x # s) (c # p) = (x = c \<and> startswith s p)"

fun contains :: "string \<Rightarrow> string \<Rightarrow> bool" where
  "contains sub [] = (sub = [])"
| "contains sub (c # s) = (startswith (c # s) sub \<or> contains sub s)"

definition endswith :: "string \<Rightarrow> string \<Rightarrow> bool" where
  "endswith s p = startswith (rev s) (rev p)"

text \<open>numpy reductions on a non-empty vector; callers check emptiness as the source does.\<close>

definition dot :: "real list \<Rightarrow> real list \<Rightarrow> real" where
  "dot xs ys = sum_list (map2 (*) xs ys)"

definition np_max :: "real list \<Rightarrow> real" where
  "np_max xs = Max (set xs)"

definition np_mean :: "real list \<Rightarrow> real" where
  "np_mean xs = sum_list xs / real (length xs)"

definition np_var :: "real list \<Rightarrow> real" where
  "np_var xs = np_mean (map (\<lambda>x. (x - np_mean xs)\<^sup>2) xs)"

definition np_std :: "real list \<Rightarrow> real" where
  "np_std xs = sqrt (np_var xs)"

definition np_clip :: "real \<Rightarrow> real \<Rightarrow> real list \<Rightarrow> real list" where
  "np_clip lo hi xs = map (\<lambda>x. min hi (max lo x)) xs"

definition np_norm :: "real list \<Rightarrow> real" where
  "np_norm xs = sqrt (sum_list (map (\<lambda>x. x\<^sup>2) xs))"

text \<open>\<open>np.argmax\<close>: the first index of the maximum.\<close>

fun np_argmax :: "real list \<Rightarrow> nat" where
  "np_argmax [] = 0"
| "np_argmax [x] = 0"
| "np_argmax (x # y # ys) =
     (let j = np_argmax (y # ys) in if (y # ys) ! j > x then Suc j else 0)"

text \<open>\<open>np.where(scores > t)[0]\<close>: the indices above the threshold, ascending.\<close>

definition np_where_gt :: "real list \<Rightarrow> real \<Rightarrow> nat list" where
  "np_where_gt scores t = filter (\<lambda>i. scores ! i > t) [0..<length scores]"

text \<open>\<open>xs.sort(key=f, reverse=True)\<close>: stable, descending.\<close>

definition sort_desc :: "('a \<Rightarrow> real) \<Rightarrow> 'a list \<Rightarrow> 'a list" where
  "sort_desc f xs = sort_key (\<lambda>x. - f x) xs"

text \<open>The normalisation shared by all weight-vector strategies: the raw scores are divided
  by their maximum unless that maximum is not positive.\<close>

definition normalize_by_max :: "real list \<Rightarrow> real list" where
  "normalize_by_max scores =
     (let max_score = np_max scores in
      if max_score > 0 then map (\<lambda>s. s / max_score) scores else scores)"

text \<open>
  The loop \<open>for iteration in range(n): body; if stop: break\<close>, started at \<open>iteration\<close>: the
  stopping test is evaluated at the end of each pass, on the state that pass produced.
\<close>

function for_range_break ::
    "nat \<Rightarrow> (nat \<Rightarrow> 's \<Rightarrow> 's) \<Rightarrow> (nat \<Rightarrow> 's \<Rightarrow> bool) \<Rightarrow> nat \<Rightarrow> 's \<Rightarrow> 's" where
  "for_range_break n body stop iteration s =
     (if iteration < n then
        (if stop iteration (body iteration s) then body iteration s
         else for_range_break n body stop (iteration + 1) (body iteration s))
      else s)"
  by pat_completeness auto
termination
  by (relation "measure (\<lambda>(n, body, stop, iteration, s). n - iteration)") auto

declare for_range_break.simps [simp del]

text \<open>The early-stopping test of the particle swarm and the firefly strategy:
  \<open>iteration > 10 and abs(path[-1] - path[-10]) < 0.001\<close>.\<close>

definition converged :: "nat \<Rightarrow> real list \<Rightarrow> bool" where
  "converged iteration path =
     (iteration > 10 \<and> \<bar>last path - path ! (length path - 10)\<bar> < 0.001)"

section \<open>Random generators\<close>

text \<open>
  The code draws from two generators, Python's \<open>random\<close> module and \<open>numpy.random\<close>.
  Each is modelled as the infinite stream of the uniform values in [0,1) it will return;
  a draw takes the head of the stream.
\<close>

record gens =
  py_stream :: "nat \<Rightarrow> real"
  np_stream :: "nat \<Rightarrow> real"

definition gens_ok :: "gens \<Rightarrow> bool" where
  "gens_ok g = ((\<forall>n. 0 \<le> py_stream g n \<and> py_stream g n < 1) \<and>
                (\<forall>n. 0 \<le> np_stream g n \<and> np_stream g n < 1))"

text \<open>
  A stream of Python draws is fair for a colony of \<open>n\<close> bees when, from every position on,
  it holds \<open>n\<close> values in a row below 1/n, and a value of at least 1/n.
\<close>

definition py_fair :: "nat \<Rightarrow> gens \<Rightarrow> bool" where
  "py_fair n g =
     (\<forall>k. (\<exists>m\<ge>k. \<forall>j<n. py_stream g (m + j) < 1 / real n)
         \<and> (\<exists>m\<ge>k. 1 / real n \<le> py_stream g m))"

definition const_gens :: "real \<Rightarrow> real \<Rightarrow> gens" where
  "const_gens a b = \<lparr>py_stream = (\<lambda>_. a), np_stream = (\<lambda>_. b)\<rparr>"

definition py_random :: "gens \<Rightarrow> real \<times> gens" where
  "py_random g = (py_stream g 0, g\<lparr>py_stream := (\<lambda>n. py_stream g (Suc n))\<rparr>)"

definition py_uniform :: "real \<Rightarrow> real \<Rightarrow> gens \<Rightarrow> real \<times> gens" where
  "py_uniform a b g = (let (u, g') = py_random g in (a + (b - a) * u, g'))"

definition py_randrange :: "nat \<Rightarrow> gens \<Rightarrow> nat \<times> gens" where
  "py_randrange n g = (let (u, g') = py_random g in (nat \<lfloor>u * real n\<rfloor>, g'))"

definition np_random :: "gens \<Rightarrow> real \<times> gens" where
  "np_random g = (np_stream g 0, g\<lparr>np_stream := (\<lambda>n. np_stream g (Suc n))\<rparr>)"

fun np_rand :: "nat \<Rightarrow> gens \<Rightarrow> real list \<times> gens" where
  "np_rand 0 g = ([], g)"
| "np_rand (Suc k) g =
     (let (u, g1) = np_random g; (us, g2) = np_rand k g1 in (u # us, g2))"

definition np_uniform :: "real \<Rightarrow> real \<Rightarrow> nat \<Rightarrow> gens \<Rightarrow> real list \<times> gens" where
  "np_uniform lo hi k g =
     (let (us, g') = np_rand k g in (map (\<lambda>u. lo + (hi - lo) * u) us, g'))"

text \<open>A matrix of \<open>rows\<close> by \<open>cols\<close> uniform draws, filled row by row.\<close>

fun np_uniform_matrix :: "real \<Rightarrow> real \<Rightarrow> nat \<Rightarrow> nat \<Rightarrow> gens \<Rightarrow> real list list \<times> gens" where
  "np_uniform_matrix lo hi 0 cols g = ([], g)"
| "np_uniform_matrix lo hi (Suc rows) cols g =
     (let (r, g1) = np_uniform lo hi cols g;
          (rs, g2) = np_uniform_matrix lo hi rows cols g1
      in (r # rs, g2))"

text \<open>
  A computation that may raise returns \<open>Inl\<close> of the error; one that may also loop forever
  returns \<open>None\<close> when it does not return.
\<close>

definition bindD :: "('e + 'a) option \<Rightarrow> ('a \<Rightarrow> ('e + 'b) option) \<Rightarrow> ('e + 'b) option" where
  "bindD m f = (case m of None \<Rightarrow> None | Some (Inl e) \<Rightarrow> Some (Inl e) | Some (Inr x) \<Rightarrow> f x)"

section \<open>Bee colony (abc\_test.py)\<close>

record abc_params =
  abc_colony_size :: nat
  abc_max_iterations :: nat
  abc_limit :: int

definition abc_default :: abc_params where
  "abc_default = \<lparr>abc_colony_size = 20, abc_max_iterations = 50, abc_limit = 10\<rparr>"

definition abc_location_risk_high :: "string list" where
  "abc_location_risk_high = [''North Korea'', ''Russia'', ''Iran'', ''China'', ''Syria'']"

definition abc_location_risk_medium :: "string list" where
  "abc_location_risk_medium = [''Ukraine'', ''Belarus'', ''Iraq'', ''Pakistan'', ''Nigeria'']"

definition abc_port_risk_high :: "int list" where
  "abc_port_risk_high = [22, 23, 3389, 445, 135, 139, 8080, 1433, 3306]"

definition abc_port_risk_medium :: "int list" where
  "abc_port_risk_medium = [21, 8443, 5900, 5901, 6667]"

definition abc_protocol_risk_high :: "string list" where
  "abc_protocol_risk_high = [''SMB'', ''Telnet'', ''RDP'', ''SSH'']"

definition abc_protocol_risk_medium :: "string list" where
  "abc_protocol_risk_medium = [''FTP'', ''IRC'']"

definition abc_process_risk_high :: "string list" where
  "abc_process_risk_high = [''ssh_brute'', ''mal_downloader'', ''worm.exe'', ''mimikatz'', ''pwdump'']"

definition abc_process_risk_medium :: "string list" where
  "abc_process_risk_medium = [''scan'', ''crack'', ''exploit'', ''admin'']"

definition abc_event_risk_high :: "string list" where
  "abc_event_risk_high = [''lateral_movement'', ''data_exfiltration'', ''privilege_escalation'']"

definition abc_event_risk_medium :: "string list" where
  "abc_event_risk_medium = [''port_scan'', ''brute_force'']"

text \<open>One row of \<open>_extract_features\<close>: the eight slots of a log entry.\<close>

definition abc_feature_row :: "log_entry \<Rightarrow> real list" where
  "abc_feature_row entry =
    (let process = lower (process_name entry);
         event = lower (event_type entry);
         fname = lower (filename entry);
         uname = lower (username entry);
         f0 = (if location entry \<in> set abc_location_risk_high then 1
               else if location entry \<in> set abc_location_risk_medium then 0.5 else 0);
         f1 = (if destination_port entry \<in> set abc_port_risk_high then 1
               else if destination_port entry \<in> set abc_port_risk_medium then 0.5 else 0);
         f2 = (if protocol entry \<in> set abc_protocol_risk_high then 1
               else if protocol entry \<in> set abc_protocol_risk_medium then 0.5 else 0);
         f3 = (if list_ex (\<lambda>risk. contains risk process) abc_process_risk_high then 1
               else if list_ex (\<lambda>risk. contains risk process) abc_process_risk_medium then 0.5
               else 0);
         f4 = (if event \<in> set abc_event_risk_high then 1
               else if event \<in> set abc_event_risk_medium then 0.5 else 0);
         f5 = (if lower (status entry) = ''failed'' then 1 else 0);
         f6 = (if bytes_received entry > 0 then
                 (let ratio = real_of_int (bytes_sent entry) / real_of_int (bytes_received entry)
                  in if ratio > 5 then 1 else if ratio > 1 then 0.5 else 0)
               else if bytes_sent entry > 10000 then 1 else 0);
         f7 = (if fname \<noteq> [] \<and> list_ex (\<lambda>pattern. contains pattern fname)
                     [''exploit'', ''malware'', ''hack'', ''backdoor''] then 1
               else if uname = ''root'' \<or> uname = ''admin'' \<or> uname = ''administrator''
               then 0.7 else 0)
     in [f0, f1, f2, f3, f4, f5, f6, f7])"

definition abc_extract_features :: "log_entry list \<Rightarrow> real list list" where
  "abc_extract_features logs = map abc_feature_row logs"

text \<open>
  A float of the bee colony is finite or NaN; \<open>x > y\<close> is false as soon as one side is NaN.
  \<open>finite_value\<close> reads a float where the code has just tested that it is finite.
\<close>

datatype np_float = Finite real | NaN

fun float_gt :: "np_float \<Rightarrow> np_float \<Rightarrow> bool" where
  "float_gt (Finite x) (Finite y) = (x > y)"
| "float_gt x y = False"

fun finite_value :: "np_float \<Rightarrow> real" where
  "finite_value (Finite x) = x"
| "finite_value NaN = 0"

text \<open>\<open>sum(values)\<close> is NaN as soon as one value is; \<open>np.argmax(values)\<close> is the position
  of the first NaN if there is one, else of the first maximum.\<close>

definition float_sum :: "np_float list \<Rightarrow> np_float" where
  "float_sum values =
     (if NaN \<in> set values then NaN else Finite (sum_list (map finite_value values)))"

definition float_argmax :: "np_float list \<Rightarrow> nat" where
  "float_argmax values =
     (if NaN \<in> set values then length (takeWhile (\<lambda>v. v \<noteq> NaN) values)
      else np_argmax (map finite_value values))"

text \<open>
  A weight vector is a numpy array of eight floats.  The only arrays with a non-finite
  component that the code builds hold NaN in every component: \<open>solution /= solution.sum()\<close>
  divides by 0 only when every component is 0 (none is negative), which makes every
  component 0/0, and dividing by a sum that is NaN makes every component NaN.  numpy only
  warns; no exception is raised.
\<close>

datatype np_array = Array "real list" | NaN_array

fun array_len :: "np_array \<Rightarrow> nat" where
  "array_len (Array xs) = length xs"
| "array_len NaN_array = 8"

text \<open>The statement \<open>solution /= solution.sum()\<close>: it has no guard.\<close>

fun divide_by_sum :: "np_array \<Rightarrow> np_array" where
  "divide_by_sum (Array xs) =
     (if sum_list xs = 0 then NaN_array else Array (map (\<lambda>x. x / sum_list xs) xs))"
| "divide_by_sum NaN_array = NaN_array"

text \<open>\<open>_generate_random_solution\<close>: eight uniform weights divided by their sum.\<close>

definition abc_generate_random_solution :: "gens \<Rightarrow> np_array \<times> gens" where
  "abc_generate_random_solution g =
     (let (solution, g') = np_uniform 0 1 8 g in (divide_by_sum (Array solution), g'))"

fun abc_initialize_food_sources :: "nat \<Rightarrow> gens \<Rightarrow> np_array list \<times> gens" where
  "abc_initialize_food_sources 0 g = ([], g)"
| "abc_initialize_food_sources (Suc k) g =
     (let (s, g1) = abc_generate_random_solution g;
          (ss, g2) = abc_initialize_food_sources k g1
      in (s # ss, g2))"

text \<open>The redraw loop \<open>while other_index == index\<close> of \<open>_produce_new_solution\<close>.\<close>

partial_function (option) abc_redraw_other :: "nat \<Rightarrow> nat \<Rightarrow> nat \<Rightarrow> gens \<Rightarrow> (nat \<times> gens) option" where
  "abc_redraw_other n index other_index g =
     (if other_index = index
      then (let (other', g') = py_randrange n g in abc_redraw_other n index other' g')
      else Some (other_index, g))"

text \<open>
  \<open>_produce_new_solution\<close>.  The moved component is clamped by \<open>max(0.0, min(1.0, x))\<close>;
  Python's \<open>min(1.0, x)\<close> is 1.0 when \<open>x\<close> is NaN, so a finite candidate moved against a NaN
  source gets 1.0 in that slot, while a NaN candidate keeps NaN in its other slots.
\<close>

definition abc_produce_new_solution ::
    "np_array list \<Rightarrow> nat \<Rightarrow> gens \<Rightarrow> (np_array \<times> gens) option" where
  "abc_produce_new_solution food_sources index g =
     (let solution = food_sources ! index;
          (other0, g1) = py_randrange (length food_sources) g in
      case abc_redraw_other (length food_sources) index other0 g1 of
        None \<Rightarrow> None
      | Some (other_index, g2) \<Rightarrow>
          (let (dimension, g3) = py_randrange (array_len solution) g2;
               (phi, g4) = py_uniform (- 1) 1 g3;
               solution1 =
                 (case solution of
                    NaN_array \<Rightarrow> NaN_array
                  | Array xs \<Rightarrow>
                      (case food_sources ! other_index of
                         NaN_array \<Rightarrow> Array (xs[dimension := 1])
                       | Array ys \<Rightarrow>
                           Array (xs[dimension :=
                             max 0 (min 1 (xs ! dimension
                                            + phi * (xs ! dimension - ys ! dimension)))])))
           in Some (divide_by_sum solution1, g4)))"

text \<open>\<open>_calculate_fitness\<close>: 0.0 for at most one log entry; for more entries a NaN
  candidate makes the variance and the mean NaN, and with them the fitness.\<close>

definition abc_calculate_fitness :: "np_array \<Rightarrow> real list list \<Rightarrow> np_float" where
  "abc_calculate_fitness solution feature_vectors =
     (if length feature_vectors \<le> 1 then Finite 0
      else
        (case solution of
           NaN_array \<Rightarrow> NaN
         | Array weights \<Rightarrow>
            (let anomaly_scores = map (\<lambda>row. sum_list (map2 (*) row weights)) feature_vectors;
                 variance = np_var anomaly_scores;
                 avg_score = np_mean anomaly_scores;
                 skewness = (if np_std anomaly_scores > 0
                             then np_mean (map (\<lambda>s. ((s - avg_score) / np_std anomaly_scores) ^ 3)
                                     anomaly_scores)
                             else 0)
             in Finite (variance * 2 + avg_score * 0.5 + max 0 skewness * 1))))"

record abc_state =
  abc_food_sources :: "np_array list"
  abc_trials :: "nat list"
  abc_best_solution :: "np_array option"
  abc_best_fitness :: np_float
  abc_rng :: gens

text \<open>The body shared by the employed and the onlooker phase: produce a neighbour of food
  source \<open>i\<close> and keep it when its fitness is higher, else count a trial.  It returns unless
  the redraw loop runs forever.\<close>

definition abc_visit :: "real list list \<Rightarrow> nat \<Rightarrow> abc_state \<Rightarrow> abc_state option" where
  "abc_visit feature_vectors i st =
     (case abc_produce_new_solution (abc_food_sources st) i (abc_rng st) of
        None \<Rightarrow> None
      | Some (new_solution, g) \<Rightarrow>
          (let new_fitness = abc_calculate_fitness new_solution feature_vectors;
               current_fitness = abc_calculate_fitness (abc_food_sources st ! i) feature_vectors
           in if float_gt new_fitness current_fitness
              then Some (st\<lparr>abc_food_sources := (abc_food_sources st)[i := new_solution],
                            abc_trials := (abc_trials st)[i := 0], abc_rng := g\<rparr>)
              else Some (st\<lparr>abc_trials := (abc_trials st)[i := abc_trials st ! i + 1],
                            abc_rng := g\<rparr>)))"

fun abc_employed_phase :: "real list list \<Rightarrow> nat list \<Rightarrow> abc_state \<Rightarrow> abc_state option" where
  "abc_employed_phase feature_vectors [] st = Some st"
| "abc_employed_phase feature_vectors (i # is) st =
     (case abc_visit feature_vectors i st of
        None \<Rightarrow> None
      | Some st' \<Rightarrow> abc_employed_phase feature_vectors is st')"

text \<open>The onlooker loop \<open>while count < len(food_sources)\<close>.\<close>

partial_function (option) abc_onlooker_phase ::
    "real list list \<Rightarrow> real list \<Rightarrow> nat \<Rightarrow> nat \<Rightarrow> abc_state \<Rightarrow> abc_state option" where
  "abc_onlooker_phase feature_vectors probabilities i count st =
     (if count < length (abc_food_sources st) then
        (let (r, g) = py_random (abc_rng st) in
         if r < probabilities ! i then
           (case abc_visit feature_vectors i (st\<lparr>abc_rng := g\<rparr>) of
              None \<Rightarrow> None
            | Some st' \<Rightarrow>
                abc_onlooker_phase feature_vectors probabilities
                  ((i + 1) mod length (abc_food_sources st')) (count + 1) st')
         else abc_onlooker_phase feature_vectors probabilities
                ((i + 1) mod length (abc_food_sources st)) count (st\<lparr>abc_rng := g\<rparr>))
      else Some st)"

fun abc_scout_phase :: "abc_params \<Rightarrow> nat list \<Rightarrow> abc_state \<Rightarrow> abc_state" where
  "abc_scout_phase p [] st = st"
| "abc_scout_phase p (i # is) st =
     (if int (abc_trials st ! i) > abc_limit p then
        (let (s, g) = abc_generate_random_solution (abc_rng st)
         in abc_scout_phase p is
              (st\<lparr>abc_food_sources := (abc_food_sources st)[i := s],
                  abc_trials := (abc_trials st)[i := 0], abc_rng := g\<rparr>))
      else abc_scout_phase p is st)"

text \<open>One pass of the body of \<open>for iteration in range(self.max_iterations)\<close>; \<open>np.argmax\<close> of
  no fitness values raises \<open>ValueError\<close>.\<close>

definition abc_iteration ::
    "abc_params \<Rightarrow> real list list \<Rightarrow> abc_state \<Rightarrow> (py_error + abc_state) option" where
  "abc_iteration p feature_vectors st =
     (case abc_employed_phase feature_vectors [0..<length (abc_food_sources st)] st of
        None \<Rightarrow> None
      | Some st1 \<Rightarrow>
         (let fitness_values = map (\<lambda>source. abc_calculate_fitness source feature_vectors)
                                 (abc_food_sources st1);
              sum_fitness = float_sum fitness_values;
              probabilities = map (\<lambda>fitness. if float_gt sum_fitness (Finite 0)
                                     then finite_value fitness / finite_value sum_fitness
                                     else 1 / real (length fitness_values)) fitness_values
          in case abc_onlooker_phase feature_vectors probabilities 0 0 st1 of
               None \<Rightarrow> None
             | Some st2 \<Rightarrow>
                 (let st3 = abc_scout_phase p [0..<length (abc_trials st2)] st2 in
                  if fitness_values = [] then Some (Inl ValueError)
                  else
                    (let current_best_idx = float_argmax fitness_values;
                         current_best_fitness = fitness_values ! current_best_idx
                     in if abc_best_solution st3 = None
                           \<or> float_gt current_best_fitness (abc_best_fitness st3)
                        then Some (Inr (st3\<lparr>abc_best_solution :=
                                               Some (abc_food_sources st3 ! current_best_idx),
                                            abc_best_fitness := current_best_fitness\<rparr>))
                        else Some (Inr st3)))))"

text \<open>The main loop has no exit other than the end of the range: \<open>k\<close> passes of the body.\<close>

fun abc_main_loop ::
    "abc_params \<Rightarrow> real list list \<Rightarrow> nat \<Rightarrow> abc_state \<Rightarrow> (py_error + abc_state) option" where
  "abc_main_loop p feature_vectors 0 st = Some (Inr st)"
| "abc_main_loop p feature_vectors (Suc k) st =
     bindD (abc_main_loop p feature_vectors k st) (abc_iteration p feature_vectors)"

datatype abc_reason =
    Suspicious_location string
  | High_risk_port int
  | Risky_protocol string
  | Suspicious_process string
  | Failed_operation

record abc_anomaly =
  abc_log_index :: nat
  abc_score :: real
  abc_reasons :: "abc_reason list"

definition abc_reasons_for :: "log_entry \<Rightarrow> abc_reason list" where
  "abc_reasons_for entry =
     (if location entry \<in> set abc_location_risk_high then [Suspicious_location (location entry)] else [])
     @ (if destination_port entry \<in> set abc_port_risk_high then [High_risk_port (destination_port entry)] else [])
     @ (if protocol entry \<in> set abc_protocol_risk_high then [Risky_protocol (protocol entry)] else [])
     @ (if list_ex (\<lambda>risk. contains risk (lower (process_name entry))) abc_process_risk_high
        then [Suspicious_process (process_name entry)] else [])
     @ (if lower (status entry) = ''failed'' then [Failed_operation] else [])"

text \<open>\<open>_evaluate_best_solution\<close>; the pl_fields of a detected anomaly that only echo the log
  entry (timestamp and addresses) are left out.  With a NaN solution every score is NaN, no
  index passes \<open>scores > threshold\<close>, the overall score is NaN and \<open>min(1.0, NaN)\<close> is 1.0.\<close>

definition abc_evaluate_best_solution ::
    "np_array \<Rightarrow> log_entry list \<Rightarrow> real list list \<Rightarrow> real \<times> abc_anomaly list" where
  "abc_evaluate_best_solution solution logs feature_vectors =
     (case solution of
        NaN_array \<Rightarrow> (if feature_vectors = [] then (0, []) else (1, []))
      | Array weights \<Rightarrow>
         (let raw = map (\<lambda>row. sum_list (map2 (*) row weights)) feature_vectors;
              max_score = (if raw \<noteq> [] then np_max raw else 1);
              anomaly_scores = (if max_score > 0 then map (\<lambda>s. s / max_score) raw else raw);
              anomaly_indices = np_where_gt anomaly_scores 0.6;
              detected = map (\<lambda>idx. \<lparr>abc_log_index = idx, abc_score = anomaly_scores ! idx,
                                      abc_reasons = abc_reasons_for (logs ! idx)\<rparr>) anomaly_indices;
              anomaly_percentage = (if logs \<noteq> [] then real (length anomaly_indices) / real (length logs) else 0);
              avg_anomaly_score = (if length anomaly_indices > 0
                                   then np_mean (map (\<lambda>i. anomaly_scores ! i) anomaly_indices) else 0);
              max_anomaly_score = (if anomaly_scores \<noteq> [] then np_max anomaly_scores else 0);
              overall_score = anomaly_percentage * 0.3 + avg_anomaly_score * 0.4 + max_anomaly_score * 0.3
          in (min 1 overall_score, sort_desc abc_score detected)))"

record abc_result =
  abc_anomaly_score :: real
  abc_detected_anomalies :: "abc_anomaly list"
  abc_confidence :: np_float

text \<open>The search part of \<open>analyze\<close>: the state before the main loop, and the main loop.\<close>

definition abc_initial_state :: "abc_params \<Rightarrow> gens \<Rightarrow> abc_state" where
  "abc_initial_state p g =
     (let (food_sources, g1) = abc_initialize_food_sources (abc_colony_size p) g
      in \<lparr>abc_food_sources = food_sources,
          abc_trials = replicate (length food_sources) 0,
          abc_best_solution = None, abc_best_fitness = Finite 0, abc_rng = g1\<rparr>)"

definition abc_optimize :: "abc_params \<Rightarrow> real list list \<Rightarrow> gens \<Rightarrow> (py_error + abc_state) option" where
  "abc_optimize p feature_vectors g =
     abc_main_loop p feature_vectors (abc_max_iterations p) (abc_initial_state p g)"

text \<open>\<open>ABCLogAnalyzer.analyze\<close>.  \<open>best_solution\<close> is still \<open>None\<close> when the loop body never
  ran, and \<open>feature_vectors * None\<close> raises \<open>TypeError\<close>.\<close>

definition abc_analyze :: "abc_params \<Rightarrow> log_entry list \<Rightarrow> gens \<Rightarrow> (py_error + abc_result) option" where
  "abc_analyze p logs g =
     (if logs = [] then
        Some (Inr \<lparr>abc_anomaly_score = 0, abc_detected_anomalies = [],
                   abc_confidence = Finite 0\<rparr>)
      else
        bindD (abc_optimize p (abc_extract_features logs) g)
          (\<lambda>st. case abc_best_solution st of
                   None \<Rightarrow> Some (Inl TypeError)
                 | Some best \<Rightarrow>
                     Some (Inr \<lparr>abc_anomaly_score =
                                  fst (abc_evaluate_best_solution best logs (abc_extract_features logs)),
                                abc_detected_anomalies =
                                  snd (abc_evaluate_best_solution best logs (abc_extract_features logs)),
                                abc_confidence = abc_best_fitness st\<rparr>)))"

section \<open>Particle swarm (pso\_test.py)\<close>

record pso_params =
  pso_n_particles :: nat
  pso_max_iterations :: nat
  pso_w_init :: real
  pso_w_final :: real
  pso_c1 :: real
  pso_c2 :: real

definition pso_default :: pso_params where
  "pso_default = \<lparr>pso_n_particles = 30, pso_max_iterations = 100, pso_w_init = 0.9,
     pso_w_final = 0.4, pso_c1 = 2, pso_c2 = 2\<rparr>"

definition pso_dimensions :: nat where
  "pso_dimensions = 15"

definition pso_high_risk_locations :: "string list" where
  "pso_high_risk_locations = [''North Korea'', ''Russia'', ''Iran'', ''China'', ''Syria'',
     ''Ukraine'', ''Belarus'', ''Iraq'', ''Venezuela'']"

definition pso_ports_very_high :: "int list" where
  "pso_ports_very_high = [445, 135, 139, 4444, 1433]"

definition pso_ports_high :: "int list" where
  "pso_ports_high = [22, 23, 3389, 21]"

definition pso_ports_medium :: "int list" where
  "pso_ports_medium = [25, 53, 5900, 8080, 8443]"

definition pso_suspicious_protocols :: "string list" where
  "pso_suspicious_protocols = [''SMB'', ''Telnet'', ''RDP'', ''FTP'', ''IRC'']"

definition pso_malicious_processes :: "string list" where
  "pso_malicious_processes = [''mimikatz'', ''pwdump'', ''wceaux'', ''lsass'', ''psexec'',
     ''winexe'', ''wmiexec'', ''xmrig'', ''nmap'', ''sqlmap'', ''hydra'', ''medusa'']"

definition pso_suspicious_files :: "string list" where
  "pso_suspicious_files = [''exe'', ''dll'', ''ps1'', ''bat'', ''sh'', ''py'', ''pl'',
     ''exploit'', ''backdoor'', ''trojan'', ''keylog'', ''crack'', ''hack'', ''malware'', ''ransom'']"

definition pso_attack_events :: "string list" where
  "pso_attack_events = [''lateral_movement'', ''data_exfiltration'', ''privilege_escalation'',
     ''brute_force'']"

definition pso_feature_vector :: "log_entry \<Rightarrow> real list" where
  "pso_feature_vector entry =
    (let src_ip = source_ip entry;
         dst_ip = destination_ip entry;
         port = destination_port entry;
         process = lower (process_name entry);
         fname = lower (filename entry);
         stat = lower (status entry);
         f0 = (if location entry \<in> set pso_high_risk_locations then 1 else 0);
         f1 = (if src_ip \<noteq> [] \<and> \<not> (startswith src_ip ''192.168.'' \<or> startswith src_ip ''10.'')
               then 1 else 0);
         f2 = (if dst_ip \<noteq> [] \<and> \<not> (startswith dst_ip ''192.168.'' \<or> startswith dst_ip ''10.'')
               then 0.7 else 0);
         f3 = (if port \<in> set pso_ports_very_high then 1 else 0);
         f4 = (if port \<notin> set pso_ports_very_high \<and> port \<in> set pso_ports_high then 0.8 else 0);
         f5 = (if port \<notin> set pso_ports_very_high \<and> port \<notin> set pso_ports_high
                  \<and> port \<in> set pso_ports_medium then 0.5 else 0);
         f6 = (if protocol entry \<in> set pso_suspicious_protocols then 0.9 else 0);
         f7 = (if list_ex (\<lambda>malicious. contains malicious process) pso_malicious_processes
               then 1 else 0);
         f8 = (if fname \<noteq> [] \<and> list_ex (\<lambda>susp. contains susp fname) pso_suspicious_files
               then 0.8 else 0);
         f9 = (if event_type entry \<in> set pso_attack_events then 1 else 0);
         f10 = (if stat = ''failed'' then 0.7 else 0);
         f11 = (if event_type entry = ''login'' \<and> stat = ''failed'' then 0.9 else 0);
         f12 = (if bytes_sent entry > 1000000 then 0.8 else 0);
         f13 = (if bytes_received entry > 5000000 then 0.6 else 0);
         f14 = (if bytes_received entry > 0
                   \<and> real_of_int (bytes_sent entry) / real_of_int (bytes_received entry) > 10
                then 0.7 else 0)
     in [f0, f1, f2, f3, f4, f5, f6, f7, f8, f9, f10, f11, f12, f13, f14])"

text \<open>\<open>_extract_features\<close> keeps the entries with a positive feature sum and returns, next to
  the matrix, the original position of every kept entry.\<close>

definition pso_extract_features :: "log_entry list \<Rightarrow> real list list \<times> nat list" where
  "pso_extract_features logs =
     (let kept = filter (\<lambda>i. sum_list (pso_feature_vector (logs ! i)) > 0) [0..<length logs]
      in (map (\<lambda>i. pso_feature_vector (logs ! i)) kept, kept))"

text \<open>The fraction of scores satisfying a test, \<open>np.mean\<close> of a boolean vector.\<close>

definition fraction :: "(real \<Rightarrow> bool) \<Rightarrow> real list \<Rightarrow> real" where
  "fraction P xs = real (length (filter P xs)) / real (length xs)"

definition skewness_of :: "real list \<Rightarrow> real" where
  "skewness_of scores =
     (if length scores > 2 then
        (let std = np_std scores in
         if std > 0 then np_mean (map (\<lambda>s. ((s - np_mean scores) / std) ^ 3) scores) else 0)
      else 0)"

definition pso_evaluate_fitness :: "real list \<Rightarrow> real list list \<Rightarrow> real" where
  "pso_evaluate_fitness position features =
     (if features = [] then 0
      else
        (let risk_scores = normalize_by_max (map (\<lambda>row. dot row position) features);
             variance = np_var risk_scores;
             skewness = skewness_of risk_scores;
             high_risk_ratio = fraction (\<lambda>s. s > 0.7) risk_scores;
             medium_risk_ratio = fraction (\<lambda>s. s > 0.4 \<and> s \<le> 0.7) risk_scores;
             threshold_quality = (1 - min (high_risk_ratio * 10) 1) * 0.6 + medium_risk_ratio * 0.4;
             feature_utilization = np_std position * (- 1) + 0.5;
             key_feature_alignment = np_mean (map (\<lambda>i. position ! i) [0, 3, 7, 9])
         in variance * 2 + max 0 skewness * 1 + threshold_quality * 3
              + feature_utilization * 1 + key_feature_alignment * 2))"

text \<open>\<open>_calculate_risk_scores\<close>; \<open>np.max\<close> of an empty vector raises \<open>ValueError\<close>.\<close>

definition pso_calculate_risk_scores :: "real list \<Rightarrow> real list list \<Rightarrow> py_error + real list" where
  "pso_calculate_risk_scores position features =
     (if features = [] then Inl ValueError
      else Inr (normalize_by_max (map (\<lambda>row. dot row position) features)))"

record pso_state =
  pso_positions :: "real list list"
  pso_velocities :: "real list list"
  pso_personal_best_positions :: "real list list"
  pso_personal_best_scores :: "real list"
  pso_global_best_position :: "real list"
  pso_global_best_score :: real
  pso_optimization_path :: "real list"
  pso_rng :: gens

text \<open>The update of particle \<open>i\<close> under inertia weight \<open>w\<close>.\<close>

definition pso_update_particle ::
    "pso_params \<Rightarrow> real list list \<Rightarrow> real \<Rightarrow> nat \<Rightarrow> pso_state \<Rightarrow> pso_state" where
  "pso_update_particle p features w i st =
     (let (rs, g) = np_rand 2 (pso_rng st);
          r1 = rs ! 0; r2 = rs ! 1;
          pos = pso_positions st ! i;
          cognitive_velocity = map2 (\<lambda>b x. pso_c1 p * r1 * (b - x))
                                 (pso_personal_best_positions st ! i) pos;
          social_velocity = map2 (\<lambda>b x. pso_c2 p * r2 * (b - x)) (pso_global_best_position st) pos;
          vel = np_clip (- 0.5) 0.5
                  (map2 (+) (map2 (+) (map (\<lambda>v. w * v) (pso_velocities st ! i)) cognitive_velocity)
                     social_velocity);
          pos' = np_clip 0 1 (map2 (+) pos vel);
          current_score = pso_evaluate_fitness pos' features;
          st1 = st\<lparr>pso_velocities := (pso_velocities st)[i := vel],
                   pso_positions := (pso_positions st)[i := pos'], pso_rng := g\<rparr>
      in if current_score > pso_personal_best_scores st1 ! i then
           (let st2 = st1\<lparr>pso_personal_best_scores := (pso_personal_best_scores st1)[i := current_score],
                          pso_personal_best_positions := (pso_personal_best_positions st1)[i := pos']\<rparr>
            in if current_score > pso_global_best_score st2
               then st2\<lparr>pso_global_best_score := current_score, pso_global_best_position := pos'\<rparr>
               else st2)
         else st1)"

text \<open>One pass of the loop body up to and including \<open>optimization_path.append\<close>.\<close>

definition pso_iteration :: "pso_params \<Rightarrow> real list list \<Rightarrow> nat \<Rightarrow> pso_state \<Rightarrow> pso_state" where
  "pso_iteration p features iteration st =
     (let w = pso_w_init p - (pso_w_init p - pso_w_final p)
                * (real iteration / real (pso_max_iterations p));
          st1 = fold (pso_update_particle p features w) [0..<pso_n_particles p] st
      in st1\<lparr>pso_optimization_path := pso_optimization_path st1 @ [pso_global_best_score st1]\<rparr>)"

text \<open>The main loop: passes of the body until the range ends or the path has converged.\<close>

definition pso_main_loop :: "pso_params \<Rightarrow> real list list \<Rightarrow> nat \<Rightarrow> pso_state \<Rightarrow> pso_state" where
  "pso_main_loop p features iteration st =
     for_range_break (pso_max_iterations p) (pso_iteration p features)
       (\<lambda>iteration st'. converged iteration (pso_optimization_path st')) iteration st"

definition pso_factor_descriptions :: "string list" where
  "pso_factor_descriptions = [''High-risk location'', ''External source IP'',
     ''External destination IP'', ''Very high-risk port'', ''High-risk port'',
     ''Medium-risk port'', ''Suspicious protocol'', ''Malicious process'', ''Suspicious file'',
     ''Attack event type'', ''Failed status'', ''Failed login attempt'',
     ''Large outbound data transfer'', ''Large inbound data transfer'',
     ''Unusual data transfer ratio'']"

definition pso_get_factor_scores :: "real list \<Rightarrow> real list \<Rightarrow> (nat \<times> real) list" where
  "pso_get_factor_scores position feature_vector =
     sort_desc snd (map (\<lambda>i. (i, position ! i * feature_vector ! i)) [0..<pso_dimensions])"

record factor =
  factor_name :: string
  contribution :: real

text \<open>\<open>_get_contributing_factors\<close>, without the formatted \<open>detail\<close> string of each factor.\<close>

definition pso_get_contributing_factors :: "(nat \<times> real) list \<Rightarrow> factor list" where
  "pso_get_contributing_factors factor_scores =
     take 5 (map (\<lambda>(idx, score). \<lparr>factor_name = pso_factor_descriptions ! idx, contribution = score\<rparr>)
               (filter (\<lambda>(idx, score). score > 0.01) factor_scores))"

record pso_finding =
  pso_log_index :: nat
  pso_finding_score :: real
  pso_finding_event_type :: string
  pso_contributing_factors :: "factor list"

definition pso_calculate_overall_risk :: "real list \<Rightarrow> pso_finding list \<Rightarrow> real" where
  "pso_calculate_overall_risk risk_scores findings =
     (if risk_scores = [] then 0
      else
        (let max_risk = np_max risk_scores;
             high_risk_percentage = fraction (\<lambda>s. s > 0.7) risk_scores;
             attack_events = filter (\<lambda>f. pso_finding_event_type f \<in> set pso_attack_events) findings;
             factor0 = (if length attack_events > 0 then 0.3 else 0);
             attack_pattern_factor = (if length findings \<ge> 3 then factor0 + 0.2 else factor0);
             overall_risk = max_risk * 0.4 + min 1 (high_risk_percentage * 3) * 0.3
                              + attack_pattern_factor * 0.3
         in min 1 overall_risk))"

record pso_result =
  pso_risk_score :: real
  pso_findings :: "pso_finding list"
  pso_result_path :: "real list"

definition pso_empty_result :: pso_result where
  "pso_empty_result = \<lparr>pso_risk_score = 0, pso_findings = [], pso_result_path = []\<rparr>"

text \<open>The part of \<open>analyze\<close> after the main loop, from the best position found.\<close>

definition pso_report ::
    "log_entry list \<Rightarrow> real list list \<Rightarrow> nat list \<Rightarrow> real list \<Rightarrow> real list \<Rightarrow> py_error + pso_result" where
  "pso_report logs features log_mapping global_best_position optimization_path =
     (case pso_calculate_risk_scores global_best_position features of
        Inl e \<Rightarrow> Inl e
      | Inr risk_scores \<Rightarrow>
          (let high_risk_indices = np_where_gt risk_scores 0.6;
               findings = map (\<lambda>idx.
                   let orig_idx = log_mapping ! idx; entry = logs ! orig_idx in
                   \<lparr>pso_log_index = orig_idx, pso_finding_score = risk_scores ! idx,
                    pso_finding_event_type = event_type entry,
                    pso_contributing_factors = pso_get_contributing_factors
                       (pso_get_factor_scores global_best_position (features ! idx))\<rparr>)
                 high_risk_indices;
               findings' = sort_desc pso_finding_score findings
           in Inr \<lparr>pso_risk_score = pso_calculate_overall_risk risk_scores findings',
                   pso_findings = findings', pso_result_path = optimization_path\<rparr>))"

text \<open>The search part of \<open>analyze\<close>: the initial swarm and the main loop.\<close>

definition pso_optimize :: "pso_params \<Rightarrow> real list list \<Rightarrow> gens \<Rightarrow> py_error + pso_state" where
  "pso_optimize p features g =
     (let (positions, g1) = np_uniform_matrix 0 1 (pso_n_particles p) pso_dimensions g;
          (velocities, g2) = np_uniform_matrix (- 0.1) 0.1 (pso_n_particles p) pso_dimensions g1;
          personal_best_scores = map (\<lambda>pos. pso_evaluate_fitness pos features) positions
      in if personal_best_scores = [] then Inl ValueError
         else
           (let global_best_idx = np_argmax personal_best_scores
            in Inr (pso_main_loop p features 0
                 \<lparr>pso_positions = positions, pso_velocities = velocities,
                  pso_personal_best_positions = positions,
                  pso_personal_best_scores = personal_best_scores,
                  pso_global_best_position = positions ! global_best_idx,
                  pso_global_best_score = personal_best_scores ! global_best_idx,
                  pso_optimization_path = [personal_best_scores ! global_best_idx],
                  pso_rng = g2\<rparr>)))"

text \<open>\<open>PSOLogAnalyzer.analyze\<close>; the \<open>security_trends\<close> table, which needs the calendar and
  feeds nothing else, is left out of the result.\<close>

definition pso_analyze :: "pso_params \<Rightarrow> log_entry list \<Rightarrow> gens \<Rightarrow> py_error + pso_result" where
  "pso_analyze p logs g =
     (if logs = [] then Inr pso_empty_result
      else if length (fst (pso_extract_features logs)) = 0 then Inr pso_empty_result
      else
        (case pso_optimize p (fst (pso_extract_features logs)) g of
           Inl e \<Rightarrow> Inl e
         | Inr st \<Rightarrow>
             pso_report logs (fst (pso_extract_features logs)) (snd (pso_extract_features logs))
               (pso_global_best_position st) (pso_optimization_path st)))"

section \<open>Calendar\<close>

text \<open>
  \<open>datetime.fromisoformat\<close> and \<open>datetime.now\<close> belong to the Python library.  They are
  parameters of the model: \<open>fromisoformat\<close> returns \<open>None\<close> where the library raises
  \<open>ValueError\<close>, and \<open>now k\<close> is the clock reading while entry \<open>k\<close> is preprocessed.  A
  datetime is its position on the time line in seconds, its hour of the day, and whether it
  carries a UTC offset (is aware) or not (is naive).
\<close>

record datetime =
  dt_seconds :: real
  dt_hour :: nat
  dt_aware :: bool

record calendar =
  fromisoformat :: "string \<Rightarrow> datetime option"
  now :: "nat \<Rightarrow> datetime"

text \<open>\<open>if timestamp.endswith('Z'): timestamp = timestamp[:-1] + '+00:00'\<close>\<close>

definition iso_fix :: "string \<Rightarrow> string" where
  "iso_fix ts = (if endswith ts ''Z'' then butlast ts @ ''+00:00'' else ts)"

section \<open>Firefly (firefly\_test.py)\<close>

record firefly_params =
  ff_n_fireflies :: nat
  ff_max_iterations :: nat
  ff_alpha :: real
  ff_alpha_decay :: real
  ff_beta0 :: real
  ff_gamma :: real

definition firefly_default :: firefly_params where
  "firefly_default = \<lparr>ff_n_fireflies = 25, ff_max_iterations = 50, ff_alpha = 0.5,
     ff_alpha_decay = 0.97, ff_beta0 = 1, ff_gamma = 0.5\<rparr>"

definition ff_dimensions :: nat where
  "ff_dimensions = 16"

definition ff_high_risk_locations :: "string list" where
  "ff_high_risk_locations = [''North Korea'', ''Russia'', ''Iran'', ''China'', ''Syria'',
     ''Ukraine'', ''Belarus'', ''Iraq'', ''Venezuela'']"

definition ff_ports_critical :: "int list" where
  "ff_ports_critical = [445, 135, 139, 1433, 1434]"

definition ff_ports_high :: "int list" where
  "ff_ports_high = [22, 23, 3389, 5900, 137, 138]"

definition ff_ports_medium :: "int list" where
  "ff_ports_medium = [21, 25, 110, 8080, 8443]"

definition ff_suspicious_protocols :: "string list" where
  "ff_suspicious_protocols = [''SMB'', ''Telnet'', ''RDP'', ''FTP'', ''IRC'']"

definition ff_malicious_processes :: "string list" where
  "ff_malicious_processes = [''mimikatz'', ''pwdump'', ''psexec'', ''lazagne'', ''netcat'',
     ''wce'', ''procdump'', ''wmiexec'', ''cain'', ''hydra'']"

definition ff_suspicious_files :: "string list" where
  "ff_suspicious_files = [''.exe'', ''.dll'', ''.bat'', ''.ps1'', ''.vbs'', ''.js'',
     ''exploit'', ''hack'', ''crack'', ''trojan'', ''backdoor'', ''keylog'', ''ransom'',
     ''crypt'', ''worm'', ''rat'']"

definition ff_events_critical :: "string list" where
  "ff_events_critical = [''data_exfiltration'', ''lateral_movement'', ''privilege_escalation'']"

definition ff_events_high :: "string list" where
  "ff_events_high = [''brute_force'', ''file_download'', ''port_scan'']"

definition ff_events_medium :: "string list" where
  "ff_events_medium = [''login'', ''access'', ''network_scan'']"

definition ff_suspicious_hours :: "nat list" where
  "ff_suspicious_hours = [0, 1, 2, 3, 4, 22, 23]"

definition ff_private :: "string \<Rightarrow> bool" where
  "ff_private ip = (startswith ip ''10.'' \<or> startswith ip ''172.16.'' \<or> startswith ip ''192.168.'')"

definition ff_feature_vector :: "calendar \<Rightarrow> log_entry \<Rightarrow> real list" where
  "ff_feature_vector cal entry =
    (let port = destination_port entry;
         process = lower (process_name entry);
         fname = lower (filename entry);
         event = event_type entry;
         src_ip = source_ip entry;
         dst_ip = destination_ip entry;
         f0 = (if location entry \<in> set ff_high_risk_locations then 1 else 0);
         f1 = (if timestamp entry \<noteq> [] then
                 (case fromisoformat cal (iso_fix (timestamp entry)) of
                    None \<Rightarrow> 0
                  | Some dt \<Rightarrow> if dt_hour dt \<in> set ff_suspicious_hours then 1 else 0)
               else 0);
         f2 = (if protocol entry \<in> set ff_suspicious_protocols then 1 else 0);
         f3 = (if port \<in> set ff_ports_critical then 1 else 0);
         f4 = (if port \<notin> set ff_ports_critical \<and> port \<in> set ff_ports_high then 1 else 0);
         f5 = (if port \<notin> set ff_ports_critical \<and> port \<notin> set ff_ports_high
                  \<and> port \<in> set ff_ports_medium then 1 else 0);
         f6 = (if list_ex (\<lambda>mal_proc. contains mal_proc process) ff_malicious_processes
               then 1 else 0);
         f7 = (if list_ex (\<lambda>susp_file. contains susp_file fname) ff_suspicious_files
               then 1 else 0);
         f8 = (if event \<in> set ff_events_critical then 1 else 0);
         f9 = (if event \<notin> set ff_events_critical \<and> event \<in> set ff_events_high then 1 else 0);
         f10 = (if event \<notin> set ff_events_critical \<and> event \<notin> set ff_events_high
                   \<and> event \<in> set ff_events_medium then 1 else 0);
         f11 = (if lower (status entry) = ''failed'' then 1 else 0);
         f12 = (if (src_ip \<noteq> [] \<and> \<not> ff_private src_ip) \<or> (dst_ip \<noteq> [] \<and> \<not> ff_private dst_ip)
                then 1 else 0);
         f13 = (if bytes_sent entry > 1000000 \<or> bytes_received entry > 5000000
                   \<or> (bytes_received entry > 0
                       \<and> real_of_int (bytes_sent entry) / real_of_int (bytes_received entry) > 10)
                then 1 else 0);
         f14 = (if lower (username entry)
                     \<in> set [''admin'', ''administrator'', ''root'', ''system'', ''superuser'']
                then 1 else 0);
         f15 = (if event = ''login'' \<and> lower (status entry) = ''failed'' then 1 else 0)
     in [f0, f1, f2, f3, f4, f5, f6, f7, f8, f9, f10, f11, f12, f13, f14, f15])"

definition ff_extract_features :: "calendar \<Rightarrow> log_entry list \<Rightarrow> real list list \<times> nat list" where
  "ff_extract_features cal logs =
     (let kept = filter (\<lambda>i. sum_list (ff_feature_vector cal (logs ! i)) > 0) [0..<length logs]
      in (map (\<lambda>i. ff_feature_vector cal (logs ! i)) kept, kept))"

definition ff_evaluate_fitness :: "real list \<Rightarrow> real list list \<Rightarrow> real" where
  "ff_evaluate_fitness position features =
     (if features = [] then 0
      else
        (let scores = normalize_by_max (map (\<lambda>row. dot row position) features);
             variance = np_var scores;
             skewness = skewness_of scores;
             high_ratio = real (length (filter (\<lambda>s. s > 0.7) scores)) / real (length scores);
             ratio_quality =
               (if high_ratio > 0 \<and> high_ratio \<le> 0.15 then 1 - \<bar>0.07 - high_ratio\<bar> / 0.07
                else if high_ratio > 0.15 then max 0 (1 - (high_ratio - 0.15) * 5)
                else 0);
             critical_weight_sum = sum_list (map (\<lambda>i. position ! i) [0, 3, 6, 8, 11, 15]);
             total_weight_sum = sum_list position;
             feature_alignment =
               (if total_weight_sum > 0 then critical_weight_sum / total_weight_sum else 0)
         in variance * 2 + max 0 skewness * 1.5 + ratio_quality * 3 + feature_alignment * 2.5))"

definition ff_calculate_alert_scores :: "real list \<Rightarrow> real list list \<Rightarrow> py_error + real list" where
  "ff_calculate_alert_scores position features =
     (if features = [] then Inl ValueError
      else Inr (normalize_by_max (map (\<lambda>row. dot row position) features)))"

record ff_state =
  ff_fireflies :: "real list list"
  ff_brightness :: "real list"
  ff_best_position :: "real list"
  ff_best_fitness :: real
  ff_convergence :: "real list"
  ff_cur_alpha :: real
  ff_rng :: gens

text \<open>The inner statement of the double loop: firefly \<open>j\<close> is pulled towards the brighter
  firefly \<open>i\<close>, both read at their positions before this iteration's moves.\<close>

definition ff_move ::
    "firefly_params \<Rightarrow> real \<Rightarrow> real list list \<Rightarrow> nat \<times> nat \<Rightarrow> real list list \<times> gens
       \<Rightarrow> real list list \<times> gens" where
  "ff_move p alpha fireflies ij acc =
     (let (i, j) = ij; (new_fireflies, g) = acc;
          diff = map2 (-) (fireflies ! i) (fireflies ! j);
          distance = np_norm diff;
          beta = ff_beta0 p * exp (- ff_gamma p * distance\<^sup>2);
          (rs, g') = np_rand ff_dimensions g;
          step = map2 (+) (map (\<lambda>d. beta * d) diff) (map (\<lambda>r. alpha * (r - 0.5)) rs)
      in (new_fireflies[j := map2 (+) (new_fireflies ! j) step], g'))"

definition ff_pairs :: "nat \<Rightarrow> (nat \<times> nat) list" where
  "ff_pairs n = concat (map (\<lambda>i. map (\<lambda>j. (i, j)) [i + 1..<n]) [0..<n])"

text \<open>One pass of the loop body up to and including the decay of \<open>alpha\<close>.  \<open>np.argsort\<close> is
  taken to keep equally bright fireflies in their order.\<close>

definition ff_iteration :: "firefly_params \<Rightarrow> real list list \<Rightarrow> ff_state \<Rightarrow> ff_state" where
  "ff_iteration p features st =
     (let sorted_indices = sort_key (\<lambda>i. - (ff_brightness st ! i)) [0..<length (ff_brightness st)];
          fireflies = map (\<lambda>i. ff_fireflies st ! i) sorted_indices;
          (moved, g) = fold (ff_move p (ff_cur_alpha st) fireflies) (ff_pairs (ff_n_fireflies p))
                         (fireflies, ff_rng st);
          new_fireflies = map (np_clip 0 1) moved;
          new_brightness = map (\<lambda>pos. ff_evaluate_fitness pos features) new_fireflies;
          current_best_idx = np_argmax new_brightness;
          improved = (new_brightness ! current_best_idx > ff_best_fitness st);
          best_position = (if improved then new_fireflies ! current_best_idx else ff_best_position st);
          best_fitness = (if improved then new_brightness ! current_best_idx else ff_best_fitness st)
      in \<lparr>ff_fireflies = new_fireflies, ff_brightness = new_brightness,
          ff_best_position = best_position, ff_best_fitness = best_fitness,
          ff_convergence = ff_convergence st @ [best_fitness],
          ff_cur_alpha = ff_cur_alpha st * ff_alpha_decay p, ff_rng = g\<rparr>)"

text \<open>The main loop: passes of the body until the range ends or the trace has converged.\<close>

definition ff_main_loop :: "firefly_params \<Rightarrow> real list list \<Rightarrow> nat \<Rightarrow> ff_state \<Rightarrow> ff_state" where
  "ff_main_loop p features iteration st =
     for_range_break (ff_max_iterations p) (\<lambda>iteration. ff_iteration p features)
       (\<lambda>iteration st'. converged iteration (ff_convergence st')) iteration st"

definition ff_factor_descriptions :: "string list" where
  "ff_factor_descriptions = [''High-risk location'', ''Suspicious time (non-business hours)'',
     ''Suspicious protocol'', ''Critical port'', ''High-risk port'', ''Medium-risk port'',
     ''Malicious process detected'', ''Suspicious filename'', ''Critical security event'',
     ''High-risk security event'', ''Medium-risk security event'', ''Failed operation'',
     ''External IP communication'', ''Unusual data transfer'', ''Privileged username'',
     ''Failed authentication'']"

definition ff_get_factor_contributions :: "real list \<Rightarrow> real list \<Rightarrow> (nat \<times> real) list" where
  "ff_get_factor_contributions position feature_vector =
     sort_desc snd (map (\<lambda>i. (i, position ! i * feature_vector ! i))
                      (filter (\<lambda>i. feature_vector ! i > 0) [0..<length position]))"

definition ff_describe_alert_factors :: "(nat \<times> real) list \<Rightarrow> factor list" where
  "ff_describe_alert_factors factor_scores =
     take 5 (map (\<lambda>(idx, score). \<lparr>factor_name = ff_factor_descriptions ! idx, contribution = score\<rparr>)
               (filter (\<lambda>(idx, score). score > 0.01) factor_scores))"

record ff_event =
  ff_log_index :: nat
  ff_alert_score :: real
  ff_contributing_factors :: "factor list"

text \<open>A detected pattern; the descriptive pl_fields of each pattern (addresses, byte totals,
  description text) are left out.\<close>

record pattern =
  pattern_type :: string
  severity :: real
  pattern_count :: nat
  pattern_log_indices :: "nat list"

text \<open>The keys of \<open>ip_groups\<close> in insertion order.\<close>

definition first_occurrences :: "'a list \<Rightarrow> 'a list" where
  "first_occurrences xs = rev (remdups (rev xs))"

definition ff_detect_brute_force :: "log_entry list \<Rightarrow> nat list \<Rightarrow> pattern option" where
  "ff_detect_brute_force logs critical_indices =
     (let failed_logins = filter (\<lambda>i. event_type (logs ! i) = ''login''
                                       \<and> lower (status (logs ! i)) = ''failed'') critical_indices;
          grouped = filter (\<lambda>i. source_ip (logs ! i) \<noteq> []) failed_logins;
          ips = first_occurrences (map (\<lambda>i. source_ip (logs ! i)) grouped);
          events_of = (\<lambda>ip. filter (\<lambda>i. source_ip (logs ! i) = ip) grouped)
      in case find (\<lambda>ip. length (events_of ip) \<ge> 3) ips of
           None \<Rightarrow> None
         | Some ip \<Rightarrow> Some \<lparr>pattern_type = ''brute_force'', severity = 0.8,
                            pattern_count = length (events_of ip),
                            pattern_log_indices = events_of ip\<rparr>)"

definition ff_detect_by :: "string \<Rightarrow> real \<Rightarrow> (log_entry \<Rightarrow> bool) \<Rightarrow> log_entry list \<Rightarrow> nat list
    \<Rightarrow> pattern option" where
  "ff_detect_by name sev test logs critical_indices =
     (let hits = filter (\<lambda>i. test (logs ! i)) critical_indices in
      if hits \<noteq> [] then Some \<lparr>pattern_type = name, severity = sev,
                               pattern_count = length hits, pattern_log_indices = hits\<rparr>
      else None)"

definition ff_detect_data_exfiltration :: "log_entry list \<Rightarrow> nat list \<Rightarrow> pattern option" where
  "ff_detect_data_exfiltration =
     ff_detect_by ''data_exfiltration'' 0.85 (\<lambda>entry. bytes_sent entry > 1000000)"

definition ff_detect_lateral_movement :: "log_entry list \<Rightarrow> nat list \<Rightarrow> pattern option" where
  "ff_detect_lateral_movement =
     ff_detect_by ''lateral_movement'' 0.9 (\<lambda>entry. event_type entry = ''lateral_movement'')"

definition ff_detect_scanning :: "log_entry list \<Rightarrow> nat list \<Rightarrow> pattern option" where
  "ff_detect_scanning =
     ff_detect_by ''scanning'' 0.75 (\<lambda>entry. event_type entry = ''port_scan'')"

definition ff_detect_privilege_escalation :: "log_entry list \<Rightarrow> nat list \<Rightarrow> pattern option" where
  "ff_detect_privilege_escalation =
     ff_detect_by ''privilege_escalation'' 0.9 (\<lambda>entry. event_type entry = ''privilege_escalation'')"

definition ff_identify_suspicious_patterns :: "log_entry list \<Rightarrow> ff_event list \<Rightarrow> pattern list" where
  "ff_identify_suspicious_patterns logs critical_events =
     (if length critical_events < 2 then []
      else
        (let critical_indices = map ff_log_index critical_events in
         List.map_filter (\<lambda>detect. detect logs critical_indices)
           [ff_detect_brute_force, ff_detect_data_exfiltration, ff_detect_lateral_movement,
            ff_detect_scanning, ff_detect_privilege_escalation]))"

definition ff_calculate_overall_alert :: "real list \<Rightarrow> ff_event list \<Rightarrow> pattern list \<Rightarrow> real" where
  "ff_calculate_overall_alert alert_scores critical_events suspicious_patterns =
     (if length alert_scores = 0 then 0
      else
        (let max_score = np_max alert_scores;
             critical_percentage = real (length critical_events) / real (length alert_scores);
             critical_factor = min 1 (critical_percentage * 5);
             pattern_severity = (if suspicious_patterns \<noteq> []
                                 then np_max (map severity suspicious_patterns) else 0)
         in min 1 (max_score * 0.35 + critical_factor * 0.25 + pattern_severity * 0.4)))"

record ff_result =
  ff_result_alert_score :: real
  ff_critical_events :: "ff_event list"
  ff_suspicious_patterns :: "pattern list"
  ff_optimization_convergence :: "real list"

definition ff_empty_result :: ff_result where
  "ff_empty_result = \<lparr>ff_result_alert_score = 0, ff_critical_events = [],
     ff_suspicious_patterns = [], ff_optimization_convergence = []\<rparr>"

text \<open>The part of \<open>analyze\<close> after the main loop, from the best position found.\<close>

definition ff_report ::
    "log_entry list \<Rightarrow> real list list \<Rightarrow> nat list \<Rightarrow> real list \<Rightarrow> real list \<Rightarrow> py_error + ff_result" where
  "ff_report logs features log_mapping best_position convergence =
     (case ff_calculate_alert_scores best_position features of
        Inl e \<Rightarrow> Inl e
      | Inr alert_scores \<Rightarrow>
          (let critical_indices = np_where_gt alert_scores 0.65;
               critical_events = sort_desc ff_alert_score
                 (map (\<lambda>idx. \<lparr>ff_log_index = log_mapping ! idx, ff_alert_score = alert_scores ! idx,
                              ff_contributing_factors = ff_describe_alert_factors
                                (ff_get_factor_contributions best_position (features ! idx))\<rparr>)
                    critical_indices);
               suspicious_patterns = ff_identify_suspicious_patterns logs critical_events
           in Inr \<lparr>ff_result_alert_score =
                     ff_calculate_overall_alert alert_scores critical_events suspicious_patterns,
                   ff_critical_events = critical_events,
                   ff_suspicious_patterns = suspicious_patterns,
                   ff_optimization_convergence = convergence\<rparr>))"

text \<open>The search part of \<open>analyze\<close>: the initial population and the main loop.\<close>

definition ff_optimize :: "firefly_params \<Rightarrow> real list list \<Rightarrow> gens \<Rightarrow> py_error + ff_state" where
  "ff_optimize p features g =
     (let (fireflies, g1) = np_uniform_matrix 0 1 (ff_n_fireflies p) ff_dimensions g;
          brightness = map (\<lambda>pos. ff_evaluate_fitness pos features) fireflies
      in if brightness = [] then Inl ValueError
         else
           (let best_idx = np_argmax brightness
            in Inr (ff_main_loop p features 0
                 \<lparr>ff_fireflies = fireflies, ff_brightness = brightness,
                  ff_best_position = fireflies ! best_idx,
                  ff_best_fitness = brightness ! best_idx,
                  ff_convergence = [brightness ! best_idx],
                  ff_cur_alpha = ff_alpha p, ff_rng = g1\<rparr>)))"

definition ff_analyze ::
    "firefly_params \<Rightarrow> calendar \<Rightarrow> log_entry list \<Rightarrow> gens \<Rightarrow> py_error + ff_result" where
  "ff_analyze p cal logs g =
     (if logs = [] then Inr ff_empty_result
      else if length (fst (ff_extract_features cal logs)) = 0 then Inr ff_empty_result
      else
        (case ff_optimize p (fst (ff_extract_features cal logs)) g of
           Inl e \<Rightarrow> Inl e
         | Inr st \<Rightarrow>
             ff_report logs (fst (ff_extract_features cal logs)) (snd (ff_extract_features cal logs))
               (ff_best_position st) (ff_convergence st)))"

section \<open>Fish school (fss\_test.py)\<close>

record fss_params =
  fss_school_size :: nat
  fss_iterations :: nat
  fss_step_ind_init :: real
  fss_step_ind_final :: real
  fss_step_vol_init :: real
  fss_step_vol_final :: real
  fss_step_col :: real
  fss_weight_scale :: real

definition fss_default :: fss_params where
  "fss_default = \<lparr>fss_school_size = 30, fss_iterations = 50, fss_step_ind_init = 0.1,
     fss_step_ind_final = 0.001, fss_step_vol_init = 0.1, fss_step_vol_final = 0.01,
     fss_step_col = 0.1, fss_weight_scale = 10\<rparr>"

definition fss_dimensions :: nat where
  "fss_dimensions = 12"

definition fss_high_risk_locations :: "string list" where
  "fss_high_risk_locations = [''North Korea'', ''Russia'', ''Iran'', ''China'', ''Syria'']"

definition fss_medium_risk_locations :: "string list" where
  "fss_medium_risk_locations = [''Ukraine'', ''Belarus'', ''Vietnam'', ''Nigeria'', ''Brazil'']"

definition fss_high_risk_ports :: "int list" where
  "fss_high_risk_ports = [22, 23, 445, 3389, 135, 139, 1433, 4444]"

definition fss_high_risk_protocols :: "string list" where
  "fss_high_risk_protocols = [''SMB'', ''Telnet'', ''RDP'', ''SSH'', ''FTP'']"

definition fss_suspicious_processes :: "string list" where
  "fss_suspicious_processes = [''ssh_brute'', ''mal_downloader'', ''worm.exe'', ''exploit'',
     ''mimikatz'', ''pwdump'', ''scan'', ''crack'']"

definition fss_suspicious_file_patterns :: "string list" where
  "fss_suspicious_file_patterns = [''exploit'', ''toolkit'', ''malware'', ''hack'', ''crack'',
     ''trojan'', ''worm'', ''virus'', ''ransom'', ''backdoor'']"

definition fss_sensitive_actions :: "string list" where
  "fss_sensitive_actions = [''lateral_movement'', ''data_exfiltration'', ''privilege_escalation'']"

definition fss_feature_vector :: "log_entry \<Rightarrow> real list" where
  "fss_feature_vector entry =
    (let process = lower (process_name entry);
         fname = lower (filename entry);
         src_ip = source_ip entry;
         dst_ip = destination_ip entry;
         f0 = (if location entry \<in> set fss_high_risk_locations then 1 else 0);
         f1 = (if location entry \<notin> set fss_high_risk_locations
                  \<and> location entry \<in> set fss_medium_risk_locations then 1 else 0);
         f2 = (if destination_port entry \<in> set fss_high_risk_ports then 1 else 0);
         f3 = (if protocol entry \<in> set fss_high_risk_protocols then 1 else 0);
         f4 = (if list_ex (\<lambda>susp. contains susp process) fss_suspicious_processes then 1 else 0);
         f5 = (if list_ex (\<lambda>pattern. contains pattern fname) fss_suspicious_file_patterns
               then 1 else 0);
         f6 = (if lower (status entry) = ''failed'' then 1 else 0);
         f7 = (if bytes_sent entry > 100000 \<or> bytes_received entry > 1000000 then 1 else 0);
         f8 = (if event_type entry = ''login'' \<and> lower (status entry) = ''failed'' then 1 else 0);
         f9 = 0;
         f10 = (if event_type entry \<in> set fss_sensitive_actions then 1 else 0);
         f11 = (if (startswith src_ip ''192.168.'' \<and> \<not> startswith dst_ip ''192.168.'')
                   \<or> (startswith src_ip ''10.'' \<and> \<not> startswith dst_ip ''10.'') then 1 else 0)
     in [f0, f1, f2, f3, f4, f5, f6, f7, f8, f9, f10, f11])"

text \<open>\<open>_extract_features\<close> skips an entry that has neither a source address nor an event
  type, and keeps the original position of every other entry.\<close>

definition fss_extract_features :: "log_entry list \<Rightarrow> real list list \<times> nat list" where
  "fss_extract_features logs =
     (let kept = filter (\<lambda>i. \<not> (source_ip (logs ! i) = [] \<and> event_type (logs ! i) = []))
                   [0..<length logs]
      in (map (\<lambda>i. fss_feature_vector (logs ! i)) kept, kept))"

definition fss_evaluate_fitness :: "real list \<Rightarrow> real list list \<Rightarrow> real" where
  "fss_evaluate_fitness position features =
     (if features = [] then 0
      else
        (let anomaly_scores = normalize_by_max (map (\<lambda>row. dot row position) features);
             variance = np_var anomaly_scores;
             skew = skewness_of anomaly_scores;
             critical_weight_sum = sum_list (map (\<lambda>i. position ! i) [0, 2, 3, 4, 10]);
             weight_balance = (if sum_list position > 0
                               then critical_weight_sum / sum_list position else 0);
             excess_ratio = fraction (\<lambda>s. s > 0.7) anomaly_scores;
             excess_penalty = 1 - min 1 (excess_ratio * 5)
         in variance * 1 + max 0 skew * 0.5 + weight_balance * 0.8 + excess_penalty * 0.7))"

definition fss_calculate_anomaly_scores :: "real list \<Rightarrow> real list list \<Rightarrow> py_error + real list" where
  "fss_calculate_anomaly_scores position features =
     (if features = [] then Inl ValueError
      else Inr (normalize_by_max (map (\<lambda>row. dot row position) features)))"

text \<open>The local variables of \<open>analyze\<close> that live across iterations.  \<open>fitness_values\<close> is
  bound for the first time inside the loop body, so it is \<open>None\<close> before the first pass.\<close>

record fss_state =
  fss_positions :: "real list list"
  fss_new_positions :: "real list list"
  fss_weights :: "real list"
  fss_best_position :: "real list option"
  fss_best_fitness :: real
  fss_fitness_values :: "real list option"
  fss_rng :: gens

definition unit_or_self :: "real list \<Rightarrow> real list" where
  "unit_or_self direction =
     (if np_norm direction > 0 then map (\<lambda>d. d / np_norm direction) direction else direction)"

text \<open>Individual movement of fish \<open>i\<close>; \<open>fv\<close> is the vector \<open>fitness_values\<close> being filled.\<close>

definition fss_individual ::
    "real list list \<Rightarrow> real \<Rightarrow> nat \<Rightarrow> fss_state \<times> real list \<Rightarrow> fss_state \<times> real list" where
  "fss_individual features step_ind i acc =
     (let (st, fv) = acc;
          (direction0, g) = np_uniform (- 1) 1 fss_dimensions (fss_rng st);
          direction = unit_or_self direction0;
          test_position = np_clip 0 1 (map2 (+) (fss_positions st ! i)
                                          (map (\<lambda>d. d * step_ind) direction));
          current_fitness = fss_evaluate_fitness (fss_positions st ! i) features;
          new_fitness = fss_evaluate_fitness test_position features;
          new_positions = (if new_fitness > current_fitness
                           then (fss_new_positions st)[i := test_position] else fss_new_positions st);
          fitness_i = (if new_fitness > current_fitness then new_fitness else current_fitness);
          st1 = st\<lparr>fss_new_positions := new_positions, fss_rng := g\<rparr>
      in (if fitness_i > fss_best_fitness st1
          then st1\<lparr>fss_best_fitness := fitness_i, fss_best_position := Some (new_positions ! i)\<rparr>
          else st1,
          fv[i := fitness_i]))"

definition weighted_rows_sum :: "real list list \<Rightarrow> real list \<Rightarrow> real list" where
  "weighted_rows_sum rows ws =
     map (\<lambda>k. sum_list (map2 (\<lambda>row w. row ! k * w) rows ws)) [0..<fss_dimensions]"

definition fss_volitive :: "real \<Rightarrow> real list \<Rightarrow> bool \<Rightarrow> real list \<Rightarrow> real list" where
  "fss_volitive step_vol barycenter expanding position =
     (let direction = (if expanding then map2 (-) position barycenter
                       else map2 (-) barycenter position)
      in if np_norm direction > 0
         then map2 (+) position (map (\<lambda>d. d / np_norm direction * step_vol) direction)
         else position)"

text \<open>One pass of the loop body.\<close>

definition fss_iteration :: "fss_params \<Rightarrow> real list list \<Rightarrow> nat \<Rightarrow> fss_state \<Rightarrow> fss_state" where
  "fss_iteration p features iteration st =
     (let n = fss_school_size p;
          progress = real iteration / real (fss_iterations p);
          step_ind = fss_step_ind_init p - progress * (fss_step_ind_init p - fss_step_ind_final p);
          step_vol = fss_step_vol_init p - progress * (fss_step_vol_init p - fss_step_vol_final p);
          (st1, fitness_values) =
             fold (fss_individual features step_ind) [0..<n]
               (st\<lparr>fss_new_positions := fss_positions st\<rparr>, replicate n 0);
          new_positions = fss_new_positions st1;
          positions = new_positions;
          weight_deltas = map (\<lambda>i. fitness_values ! i - fss_evaluate_fitness (positions ! i) features)
                            [0..<n];
          weights = np_clip 1 (fss_weight_scale p) (map2 (+) (fss_weights st1) weight_deltas);
          total_weight = sum_list weights;
          barycenter = (if total_weight > 0
                        then map (\<lambda>x. x / total_weight) (weighted_rows_sum positions weights)
                        else map (\<lambda>k. np_mean (map (\<lambda>row. row ! k) positions)) [0..<fss_dimensions]);
          col_direction = (if sum_list weight_deltas > 0
                           then map (\<lambda>x. x / sum_list weight_deltas)
                                  (weighted_rows_sum (map2 (map2 (-)) new_positions positions)
                                     weight_deltas)
                           else replicate fss_dimensions 0);
          positions1 = (if np_norm col_direction > 0
                        then map (\<lambda>row. np_clip 0 1
                                    (map2 (+) row (map (\<lambda>d. d / np_norm col_direction * fss_step_col p)
                                                     col_direction))) positions
                        else positions);
          prev_total_weight = total_weight - sum_list weight_deltas;
          positions2 = map (fss_volitive step_vol barycenter (total_weight > prev_total_weight))
                         positions1
      in st1\<lparr>fss_positions := map (np_clip 0 1) positions2, fss_weights := weights,
             fss_fitness_values := Some fitness_values\<rparr>)"

text \<open>The main loop has no exit other than the end of the range.\<close>

fun fss_main_loop :: "fss_params \<Rightarrow> real list list \<Rightarrow> nat \<Rightarrow> fss_state \<Rightarrow> fss_state" where
  "fss_main_loop p features 0 st = st"
| "fss_main_loop p features (Suc k) st =
     fss_iteration p features k (fss_main_loop p features k st)"

datatype fss_reason =
    Fss_high_risk_location string
  | Fss_high_risk_port int
  | Fss_suspicious_protocol string
  | Fss_suspicious_process string
  | Fss_suspicious_filename string
  | Fss_failed_operation
  | Fss_large_outbound_transfer int
  | Fss_large_inbound_transfer int
  | Fss_sensitive_action string

definition fss_determine_anomaly_reasons :: "log_entry \<Rightarrow> real list \<Rightarrow> fss_reason list" where
  "fss_determine_anomaly_reasons entry position =
     (if position ! 0 > 0.5 \<and> location entry \<in> set fss_high_risk_locations
      then [Fss_high_risk_location (location entry)] else [])
     @ (if position ! 2 > 0.5 \<and> destination_port entry \<in> set fss_high_risk_ports
        then [Fss_high_risk_port (destination_port entry)] else [])
     @ (if position ! 3 > 0.5 \<and> protocol entry \<in> set fss_high_risk_protocols
        then [Fss_suspicious_protocol (protocol entry)] else [])
     @ (if position ! 4 > 0.5
           \<and> list_ex (\<lambda>susp. contains susp (lower (process_name entry))) fss_suspicious_processes
        then [Fss_suspicious_process (process_name entry)] else [])
     @ (if position ! 5 > 0.5
           \<and> list_ex (\<lambda>pattern. contains pattern (lower (filename entry))) fss_suspicious_file_patterns
        then [Fss_suspicious_filename (filename entry)] else [])
     @ (if position ! 6 > 0.5 \<and> lower (status entry) = ''failed'' then [Fss_failed_operation] else [])
     @ (if position ! 7 > 0.5 \<and> bytes_sent entry > 100000
        then [Fss_large_outbound_transfer (bytes_sent entry)] else [])
     @ (if position ! 7 > 0.5 \<and> bytes_received entry > 1000000
        then [Fss_large_inbound_transfer (bytes_received entry)] else [])
     @ (if position ! 10 > 0.5 \<and> event_type entry \<in> set fss_sensitive_actions
        then [Fss_sensitive_action (event_type entry)] else [])"

record fss_event =
  fss_log_index :: nat
  fss_score :: real
  fss_reasons :: "fss_reason list"

record fss_result =
  fss_anomaly_score :: real
  fss_priority_events :: "fss_event list"
  fss_feature_importance :: "real list"

definition fss_empty_result :: fss_result where
  "fss_empty_result = \<lparr>fss_anomaly_score = 0, fss_priority_events = [],
     fss_feature_importance = []\<rparr>"

text \<open>The part of \<open>analyze\<close> after the fallback for a missing best position.  The feature
  importance table is the best position itself, slot by slot; the \<open>risk_factors\<close> table of
  example entries is left out.\<close>

definition fss_report ::
    "log_entry list \<Rightarrow> real list list \<Rightarrow> nat list \<Rightarrow> real list \<Rightarrow> real \<Rightarrow> py_error + fss_result" where
  "fss_report logs features log_indices best_position best_fitness =
     (case fss_calculate_anomaly_scores best_position features of
        Inl e \<Rightarrow> Inl e
      | Inr anomaly_scores \<Rightarrow>
          (let priority_indices = np_where_gt anomaly_scores 0.6;
               priority_events = sort_desc fss_score
                 (map (\<lambda>idx. \<lparr>fss_log_index = log_indices ! idx, fss_score = anomaly_scores ! idx,
                              fss_reasons = fss_determine_anomaly_reasons
                                              (logs ! (log_indices ! idx)) best_position\<rparr>)
                    priority_indices);
               max_anomaly = (if anomaly_scores \<noteq> [] then np_max anomaly_scores else 0);
               perc_anomalous = (if logs \<noteq> [] then real (length priority_indices) / real (length logs)
                                 else 0);
               overall_anomaly_score = 0.5 * max_anomaly + 0.3 * perc_anomalous + 0.2 * best_fitness
           in Inr \<lparr>fss_anomaly_score = min 1 overall_anomaly_score,
                   fss_priority_events = priority_events,
                   fss_feature_importance = best_position\<rparr>))"

text \<open>The search part of \<open>analyze\<close>: the initial school and the main loop.\<close>

definition fss_initial_state :: "fss_params \<Rightarrow> gens \<Rightarrow> fss_state" where
  "fss_initial_state p g =
     (let (positions, g1) = np_uniform_matrix 0 1 (fss_school_size p) fss_dimensions g
      in \<lparr>fss_positions = positions, fss_new_positions = positions,
          fss_weights = replicate (fss_school_size p) (fss_weight_scale p / 2),
          fss_best_position = None, fss_best_fitness = 0,
          fss_fitness_values = None, fss_rng = g1\<rparr>)"

definition fss_optimize :: "fss_params \<Rightarrow> real list list \<Rightarrow> gens \<Rightarrow> fss_state" where
  "fss_optimize p features g = fss_main_loop p features (fss_iterations p) (fss_initial_state p g)"

text \<open>\<open>FSSLogAnalyzer.analyze\<close>.  When no fish ever beat the initial \<open>best_fitness = 0\<close> the
  code falls back on \<open>fitness_values\<close>; reading it before the loop body ever ran raises
  \<open>UnboundLocalError\<close>.\<close>

definition fss_analyze :: "fss_params \<Rightarrow> log_entry list \<Rightarrow> gens \<Rightarrow> py_error + fss_result" where
  "fss_analyze p logs g =
     (if logs = [] then Inr fss_empty_result
      else if fst (fss_extract_features logs) = [] then Inr fss_empty_result
      else
        (let features = fst (fss_extract_features logs);
             log_indices = snd (fss_extract_features logs);
             st = fss_optimize p features g
         in case fss_best_position st of
              Some best_position \<Rightarrow>
                fss_report logs features log_indices best_position (fss_best_fitness st)
            | None \<Rightarrow>
                (case fss_fitness_values st of
                   None \<Rightarrow> Inl UnboundLocalError
                 | Some fitness_values \<Rightarrow>
                     if fitness_values = [] then Inl ValueError
                     else fss_report logs features log_indices
                            (fss_positions st ! np_argmax fitness_values)
                            (fitness_values ! np_argmax fitness_values))))"

section \<open>Ant colony (aco\_test.py)\<close>

record aco_params =
  aco_num_ants :: nat
  aco_iterations :: nat
  aco_alpha :: real
  aco_beta :: real
  aco_evaporation :: real
  aco_q0 :: real

definition aco_default :: aco_params where
  "aco_default = \<lparr>aco_num_ants = 20, aco_iterations = 50, aco_alpha = 1, aco_beta = 2,
     aco_evaporation = 0.1, aco_q0 = 0.9\<rparr>"

text \<open>The risk tables are dicts; a table is the list of its items in insertion order.  The
  port table is keyed by the decimal text of the port in the source and by the port number
  here.\<close>

definition aco_risk_location :: "(string \<times> real) list" where
  "aco_risk_location = [(''North Korea'', 1), (''Russia'', 0.9), (''Iran'', 0.9), (''China'', 0.8),
     (''Syria'', 0.8), (''Ukraine'', 0.7), (''Belarus'', 0.7), (''Iraq'', 0.6), (''Pakistan'', 0.6)]"

definition aco_risk_protocol :: "(string \<times> real) list" where
  "aco_risk_protocol = [(''SMB'', 0.9), (''Telnet'', 0.9), (''RDP'', 0.8), (''SSH'', 0.7),
     (''FTP'', 0.6), (''HTTP'', 0.5), (''HTTPS'', 0.4)]"

definition aco_risk_port :: "(int \<times> real) list" where
  "aco_risk_port = [(445, 0.9), (23, 0.9), (3389, 0.8), (22, 0.7), (21, 0.6), (1433, 0.8),
     (3306, 0.7), (4444, 1), (5900, 0.7), (135, 0.7), (139, 0.7)]"

definition aco_risk_event_type :: "(string \<times> real) list" where
  "aco_risk_event_type = [(''lateral_movement'', 1), (''data_exfiltration'', 0.9),
     (''privilege_escalation'', 0.9), (''file_download'', 0.8), (''port_scan'', 0.7),
     (''login'', 0.6)]"

definition aco_risk_process :: "(string \<times> real) list" where
  "aco_risk_process = [(''ssh_brute'', 0.9), (''mal_downloader'', 0.9), (''worm.exe'', 1),
     (''mimikatz'', 1), (''pwdump'', 0.9), (''scan'', 0.7), (''crack'', 0.8), (''exploit'', 0.8)]"

definition aco_suspicious_file_patterns :: "string list" where
  "aco_suspicious_file_patterns = [''exe'', ''bat'', ''ps1'', ''sh'', ''py'', ''pl'', ''js'',
     ''exploit'', ''tool'', ''malware'', ''hack'', ''crack'', ''trojan'', ''worm'', ''virus'',
     ''ransom'', ''backdoor'']"

text \<open>\<open>table[key]\<close> when \<open>key in table\<close>, else nothing is added.\<close>

definition risk_of :: "('k \<times> real) list \<Rightarrow> 'k \<Rightarrow> real" where
  "risk_of table key = (case map_of table key of Some r \<Rightarrow> r | None \<Rightarrow> 0)"

text \<open>A preprocessed entry: its position in the input, its fields (the timestamp with a
  trailing Z rewritten) and its parsed time.\<close>

record processed_log =
  original_index :: nat
  pl_fields :: log_entry
  pl_datetime :: datetime

definition aco_preprocess_one :: "calendar \<Rightarrow> nat \<Rightarrow> log_entry \<Rightarrow> processed_log" where
  "aco_preprocess_one cal k entry =
     (let ts = iso_fix (timestamp entry) in
      \<lparr>original_index = k, pl_fields = entry\<lparr>timestamp := ts\<rparr>,
       pl_datetime = (case fromisoformat cal ts of Some dt \<Rightarrow> dt
                      | None \<Rightarrow> (now cal k)\<lparr>dt_aware := False\<rparr>)\<rparr>)"

text \<open>
  \<open>_preprocess_logs\<close>: every entry is kept, then the list is sorted by time (the sort is
  stable).  The reading of \<open>datetime.now()\<close> is naive.  Python refuses to order an aware
  and a naive datetime, and a sort of a list holding both has to compare such a pair: it
  raises \<open>TypeError\<close>.
\<close>

definition aco_preprocess_logs :: "calendar \<Rightarrow> log_entry list \<Rightarrow> py_error + processed_log list" where
  "aco_preprocess_logs cal logs =
     (let processed = map (\<lambda>k. aco_preprocess_one cal k (logs ! k)) [0..<length logs] in
      if list_ex (\<lambda>pl. dt_aware (pl_datetime pl)) processed
         \<and> list_ex (\<lambda>pl. \<not> dt_aware (pl_datetime pl)) processed
      then Inl TypeError
      else Inr (sort_key (\<lambda>pl. dt_seconds (pl_datetime pl)) processed))"

definition aco_node_score :: "log_entry \<Rightarrow> real" where
  "aco_node_score entry =
     risk_of aco_risk_location (location entry)
     + risk_of aco_risk_protocol (protocol entry)
     + risk_of aco_risk_port (destination_port entry)
     + risk_of aco_risk_event_type (event_type entry)
     + (case find (\<lambda>(risk_process, risk_score). contains risk_process (lower (process_name entry)))
               aco_risk_process of
          Some (risk_process, risk_score) \<Rightarrow> risk_score | None \<Rightarrow> 0)
     + (if lower (status entry) = ''failed'' then 0.5 else 0)
     + (if lower (filename entry) \<noteq> []
           \<and> list_ex (\<lambda>pattern. contains pattern (lower (filename entry))) aco_suspicious_file_patterns
        then 0.7 else 0)"

definition aco_calculate_node_attractiveness :: "processed_log list \<Rightarrow> real list" where
  "aco_calculate_node_attractiveness logs =
     map (\<lambda>pl. min 1 (aco_node_score (pl_fields pl) / 5)) logs"

text \<open>\<open>np.random.choice(items, p=probs)\<close>: the cumulative totals are divided by their last
  value and the draw selects the first position whose cumulative value exceeds it.\<close>

fun cumsum_from :: "real \<Rightarrow> real list \<Rightarrow> real list" where
  "cumsum_from acc [] = []"
| "cumsum_from acc (x # xs) = (acc + x) # cumsum_from (acc + x) xs"

definition np_choice :: "'a list \<Rightarrow> real list \<Rightarrow> gens \<Rightarrow> 'a \<times> gens" where
  "np_choice items probs g =
     (let (u, g') = np_random g;
          totals = cumsum_from 0 probs;
          cdf = map (\<lambda>c. c / last totals) totals
      in (items ! length (takeWhile (\<lambda>c. c \<le> u) cdf), g'))"

definition aco_select_starting_node :: "real list \<Rightarrow> gens \<Rightarrow> nat \<times> gens" where
  "aco_select_starting_node attractiveness g =
     (if sum_list attractiveness = 0 then py_randrange (length attractiveness) g
      else np_choice [0..<length attractiveness]
             (map (\<lambda>a. a / sum_list attractiveness) attractiveness) g)"

text \<open>\<open>x ** y\<close> on floats for a base and an exponent that are not negative.\<close>

definition float_pow :: "real \<Rightarrow> real \<Rightarrow> real" where
  "float_pow x y = (if y = 0 then 1 else if x = 0 then 0 else x powr y)"

text \<open>\<open>_select_next_node\<close>; the set \<open>visited\<close> always holds exactly the nodes of \<open>path\<close>.\<close>

definition aco_select_next_node ::
    "aco_params \<Rightarrow> nat \<Rightarrow> nat list \<Rightarrow> (nat \<Rightarrow> nat \<Rightarrow> real) \<Rightarrow> real list \<Rightarrow> gens \<Rightarrow> nat option \<times> gens" where
  "aco_select_next_node p current visited pheromones attractiveness g =
     (let unvisited = filter (\<lambda>i. i \<notin> set visited) [0..<length attractiveness] in
      if unvisited = [] then (None, g)
      else
        (let raw = map (\<lambda>node. float_pow (pheromones current node) (aco_alpha p)
                                 * float_pow (attractiveness ! node) (aco_beta p)) unvisited;
             probabilities = (if sum_list raw > 0 then map (\<lambda>x. x / sum_list raw) raw
                              else replicate (length raw) (1 / real (length raw)));
             (r, g1) = py_random g
         in if r < aco_q0 p then (Some (unvisited ! np_argmax probabilities), g1)
            else (let (node, g2) = np_choice unvisited probabilities g1 in (Some node, g2))))"

definition aco_event_sequence :: "((string \<times> string) \<times> real) list" where
  "aco_event_sequence = [((''login'', ''file_download''), 0.4),
     ((''file_download'', ''lateral_movement''), 0.5), ((''login'', ''lateral_movement''), 0.3),
     ((''port_scan'', ''login''), 0.3), ((''port_scan'', ''lateral_movement''), 0.3)]"

definition aco_calculate_proximity :: "processed_log \<Rightarrow> processed_log \<Rightarrow> real" where
  "aco_calculate_proximity log1 log2 =
     (let e1 = pl_fields log1; e2 = pl_fields log2;
          time_diff = dt_seconds (pl_datetime log2) - dt_seconds (pl_datetime log1);
          proximity =
            (if source_ip e1 \<noteq> [] \<and> source_ip e1 = source_ip e2 then 0.3 else 0)
            + (if destination_ip e1 \<noteq> [] \<and> destination_ip e1 = destination_ip e2 then 0.3 else 0)
            + (if protocol e1 \<noteq> [] \<and> protocol e1 = protocol e2 then 0.1 else 0)
            + (if location e1 \<noteq> [] \<and> location e1 = location e2 then 0.2 else 0)
            + (if 0 \<le> time_diff \<and> time_diff \<le> 300 then 0.3
               else if 300 < time_diff \<and> time_diff \<le> 1800 then 0.1 else 0)
            + risk_of aco_event_sequence (event_type e1, event_type e2)
            + (if destination_ip e1 \<noteq> [] \<and> destination_ip e1 = source_ip e2 then 0.5 else 0)
      in min 1 proximity)"

text \<open>The path-building loop \<open>while len(path) < min(n_logs, 10)\<close> of one ant.\<close>

function aco_build_path ::
    "aco_params \<Rightarrow> processed_log list \<Rightarrow> (nat \<Rightarrow> nat \<Rightarrow> real) \<Rightarrow> real list \<Rightarrow> nat \<Rightarrow> nat list \<Rightarrow> real
       \<Rightarrow> gens \<Rightarrow> nat list \<times> real \<times> gens" where
  "aco_build_path p logs pheromones attractiveness current path path_score g =
     (if length path < min (length logs) 10 then
        (case aco_select_next_node p current path pheromones attractiveness g of
           (None, g') \<Rightarrow> (path, path_score, g')
         | (Some next_node, g') \<Rightarrow>
             aco_build_path p logs pheromones attractiveness next_node (path @ [next_node])
               (path_score + attractiveness ! next_node
                               * aco_calculate_proximity (logs ! current) (logs ! next_node)) g')
      else (path, path_score, g))"
  by pat_completeness auto
termination
  by (relation "measure (\<lambda>(p, logs, ph, attr, current, path, score, g).
                           min (length logs) 10 - length path)") auto

record aco_state =
  aco_pheromones :: "nat \<Rightarrow> nat \<Rightarrow> real"
  aco_best_path :: "nat list"
  aco_best_score :: real
  aco_rng :: gens

text \<open>One ant: appended to \<open>all_paths\<close> and \<open>all_scores\<close>.\<close>

definition aco_ant ::
    "aco_params \<Rightarrow> processed_log list \<Rightarrow> (nat \<Rightarrow> nat \<Rightarrow> real) \<Rightarrow> real list \<Rightarrow> nat
       \<Rightarrow> (nat list \<times> real) list \<times> gens \<Rightarrow> (nat list \<times> real) list \<times> gens" where
  "aco_ant p logs pheromones attractiveness ant acc =
     (let (done, g) = acc;
          (start, g1) = aco_select_starting_node attractiveness g;
          (path, path_score, g2) =
             aco_build_path p logs pheromones attractiveness start [start]
               (attractiveness ! start) g1
      in (done @ [(path, if path \<noteq> [] then path_score / real (length path) else 0)], g2))"

text \<open>The deposit of one ant on the edges of its path, in both directions.\<close>

fun aco_deposit :: "real \<Rightarrow> nat list \<Rightarrow> (nat \<Rightarrow> nat \<Rightarrow> real) \<Rightarrow> (nat \<Rightarrow> nat \<Rightarrow> real)" where
  "aco_deposit score (a # b # rest) ph =
     aco_deposit score (b # rest)
       (let ph1 = ph(a := (ph a)(b := ph a b + score))
        in ph1(b := (ph1 b)(a := ph1 b a + score)))"
| "aco_deposit score path ph = ph"

text \<open>One pass of the loop body; \<open>np.argmax\<close> of no scores raises \<open>ValueError\<close>.\<close>

definition aco_iteration ::
    "aco_params \<Rightarrow> processed_log list \<Rightarrow> real list \<Rightarrow> aco_state \<Rightarrow> py_error + aco_state" where
  "aco_iteration p logs attractiveness st =
     (let (ants, g) = fold (aco_ant p logs (aco_pheromones st) attractiveness)
                        [0..<aco_num_ants p] ([], aco_rng st);
          all_paths = map fst ants; all_scores = map snd ants
      in if all_scores = [] then Inl ValueError
         else
           (let best_ant = np_argmax all_scores;
                better = (all_scores ! best_ant > aco_best_score st);
                evaporated = (\<lambda>i j. aco_pheromones st i j * (1 - aco_evaporation p))
            in Inr \<lparr>aco_pheromones = fold (\<lambda>(path, score). aco_deposit score path) ants evaporated,
                    aco_best_path = (if better then all_paths ! best_ant else aco_best_path st),
                    aco_best_score = (if better then all_scores ! best_ant else aco_best_score st),
                    aco_rng = g\<rparr>))"

text \<open>The main loop has no exit other than the end of the range.\<close>

fun aco_main_loop ::
    "aco_params \<Rightarrow> processed_log list \<Rightarrow> real list \<Rightarrow> nat \<Rightarrow> aco_state \<Rightarrow> py_error + aco_state" where
  "aco_main_loop p logs attractiveness 0 st = Inr st"
| "aco_main_loop p logs attractiveness (Suc k) st =
     (case aco_main_loop p logs attractiveness k st of
        Inl e \<Rightarrow> Inl e
      | Inr st' \<Rightarrow> aco_iteration p logs attractiveness st')"

record aco_cluster =
  cl_log_indices :: "nat list"
  cl_risk_score :: real
  cl_source_ip :: string
  cl_size :: nat

definition aco_cluster_risk :: "processed_log list \<Rightarrow> nat list \<Rightarrow> real" where
  "aco_cluster_risk logs cluster =
     min 1 (sum_list (map (\<lambda>idx.
               (if lower (status (pl_fields (logs ! idx))) = ''failed'' then 0.3 else 0)
               + risk_of aco_risk_location (location (pl_fields (logs ! idx)))
               + risk_of aco_risk_event_type (event_type (pl_fields (logs ! idx)))) cluster)
            / real (length cluster))"

text \<open>The outer loop of \<open>_extract_clusters\<close> over the nodes still to inspect.\<close>

fun aco_collect_clusters ::
    "(nat \<Rightarrow> nat \<Rightarrow> real) \<Rightarrow> processed_log list \<Rightarrow> real \<Rightarrow> nat list \<Rightarrow> nat list \<Rightarrow> aco_cluster list" where
  "aco_collect_clusters pheromones logs threshold [] visited = []"
| "aco_collect_clusters pheromones logs threshold (i # rest) visited =
     (if i \<in> set visited then aco_collect_clusters pheromones logs threshold rest visited
      else
        (let members = filter (\<lambda>j. j \<noteq> i \<and> j \<notin> set (i # visited) \<and> pheromones i j > threshold)
                         [0..<length logs];
             cluster = i # members;
             found = (if length cluster > 1
                      then [\<lparr>cl_log_indices = cluster, cl_risk_score = aco_cluster_risk logs cluster,
                              cl_source_ip = source_ip (pl_fields (logs ! hd cluster)),
                              cl_size = length cluster\<rparr>]
                      else [])
         in found @ aco_collect_clusters pheromones logs threshold rest (visited @ cluster)))"

definition aco_extract_clusters ::
    "(nat \<Rightarrow> nat \<Rightarrow> real) \<Rightarrow> processed_log list \<Rightarrow> real \<Rightarrow> aco_cluster list" where
  "aco_extract_clusters pheromones logs threshold =
     sort_desc cl_risk_score (aco_collect_clusters pheromones logs threshold [0..<length logs] [])"

record aco_pattern =
  ap_pattern_name :: string
  ap_severity :: real
  ap_cluster_id :: nat
  ap_log_indices :: "nat list"

definition aco_pattern_of :: "processed_log list \<Rightarrow> aco_cluster \<Rightarrow> (string \<times> real) option" where
  "aco_pattern_of logs cluster =
     (let cluster_logs = map (\<lambda>i. pl_fields (logs ! i)) (cl_log_indices cluster);
          has_failed_login = list_ex (\<lambda>e. event_type e = ''login'' \<and> status e = ''failed'') cluster_logs;
          has_download = list_ex (\<lambda>e. event_type e = ''file_download'') cluster_logs;
          has_lateral = list_ex (\<lambda>e. event_type e = ''lateral_movement'') cluster_logs;
          suspicious_process =
            list_ex (\<lambda>e. list_ex (\<lambda>risk_proc. contains risk_proc (lower (process_name e)))
                            (map fst aco_risk_process))
              (filter (\<lambda>e. process_name e \<noteq> []) cluster_logs)
      in if has_failed_login \<and> has_download \<and> has_lateral then Some (''Complete Attack Chain'', 0.9)
         else if has_download \<and> has_lateral then Some (''Malware Spread'', 0.7)
         else if has_failed_login \<and> suspicious_process then Some (''Brute Force Attempt'', 0.6)
         else if has_lateral then Some (''Lateral Movement'', 0.7)
         else if has_download \<and> suspicious_process then Some (''Malware Download'', 0.6)
         else None)"

definition aco_identify_attack_patterns :: "aco_cluster list \<Rightarrow> processed_log list \<Rightarrow> aco_pattern list" where
  "aco_identify_attack_patterns clusters logs =
     sort_desc ap_severity
       (List.map_filter (\<lambda>cluster.
            case aco_pattern_of logs cluster of
              None \<Rightarrow> None
            | Some (name, sev) \<Rightarrow>
                Some \<lparr>ap_pattern_name = name, ap_severity = sev,
                      ap_cluster_id = length (takeWhile (\<lambda>c. c \<noteq> cluster) clusters),
                      ap_log_indices = cl_log_indices cluster\<rparr>) clusters)"

record aco_suspicious =
  sl_index :: nat
  sl_attractiveness :: real
  sl_source_ip :: string
  sl_location :: string

text \<open>
  \<open>np.argsort\<close> returns the indices of a vector in ascending order of their values; numpy
  does not say in which order it returns indices of equal values.  It is a parameter of the
  model, \<open>is_argsort\<close> says what numpy promises, and \<open>stable_argsort\<close> is the instance that
  keeps equal values in their order.
\<close>

definition is_argsort :: "(real list \<Rightarrow> nat list) \<Rightarrow> bool" where
  "is_argsort argsort =
     (\<forall>xs. distinct (argsort xs) \<and> set (argsort xs) = {0..<length xs}
           \<and> sorted (map (\<lambda>i. xs ! i) (argsort xs)))"

definition stable_argsort :: "real list \<Rightarrow> nat list" where
  "stable_argsort xs = sort_key (\<lambda>i. xs ! i) [0..<length xs]"

text \<open>\<open>_extract_suspicious_logs\<close>: the five most attractive nodes, most attractive first, that
  exceed 0.3.\<close>

definition aco_extract_suspicious_logs ::
    "(real list \<Rightarrow> nat list) \<Rightarrow> real list \<Rightarrow> processed_log list \<Rightarrow> aco_suspicious list" where
  "aco_extract_suspicious_logs argsort attractiveness logs =
     (let indices = take 5 (rev (argsort attractiveness))
      in map (\<lambda>idx. \<lparr>sl_index = idx, sl_attractiveness = attractiveness ! idx,
                      sl_source_ip = source_ip (pl_fields (logs ! idx)),
                      sl_location = location (pl_fields (logs ! idx))\<rparr>)
           (filter (\<lambda>idx. attractiveness ! idx > 0.3) indices))"

definition aco_calculate_threat_score ::
    "aco_cluster list \<Rightarrow> aco_pattern list \<Rightarrow> aco_suspicious list \<Rightarrow> real" where
  "aco_calculate_threat_score clusters attack_patterns suspicious_logs =
     min 1 ((if clusters \<noteq> [] then np_max (map cl_risk_score clusters) * 0.4 else 0)
            + (if attack_patterns \<noteq> [] then np_max (map ap_severity attack_patterns) * 0.4 else 0)
            + (if suspicious_logs \<noteq> [] then np_max (map sl_attractiveness suspicious_logs) * 0.2
               else 0))"

record aco_result =
  aco_threat_score :: real
  aco_clusters :: "aco_cluster list"
  aco_attack_patterns :: "aco_pattern list"
  aco_most_suspicious_logs :: "aco_suspicious list"

definition aco_initial_state :: "gens \<Rightarrow> aco_state" where
  "aco_initial_state g = \<lparr>aco_pheromones = (\<lambda>i j. 0.1), aco_best_path = [], aco_best_score = 0,
     aco_rng = g\<rparr>"

definition aco_analyze ::
    "aco_params \<Rightarrow> calendar \<Rightarrow> (real list \<Rightarrow> nat list) \<Rightarrow> log_entry list \<Rightarrow> gens
       \<Rightarrow> py_error + aco_result" where
  "aco_analyze p cal argsort logs g =
     (if logs = [] then
        Inr \<lparr>aco_threat_score = 0, aco_clusters = [], aco_attack_patterns = [],
             aco_most_suspicious_logs = []\<rparr>
      else
        (case aco_preprocess_logs cal logs of
           Inl e \<Rightarrow> Inl e
         | Inr processed_logs \<Rightarrow>
            (let node_attractiveness = aco_calculate_node_attractiveness processed_logs
             in case aco_main_loop p processed_logs node_attractiveness (aco_iterations p)
                       (aco_initial_state g) of
                  Inl e \<Rightarrow> Inl e
                | Inr st \<Rightarrow>
                    (let clusters = aco_extract_clusters (aco_pheromones st) processed_logs 0.5;
                         attack_patterns = aco_identify_attack_patterns clusters processed_logs;
                         suspicious_logs = aco_extract_suspicious_logs argsort node_attractiveness
                                             processed_logs
                     in Inr \<lparr>aco_threat_score =
                               aco_calculate_threat_score clusters attack_patterns suspicious_logs,
                             aco_clusters = clusters, aco_attack_patterns = attack_patterns,
                             aco_most_suspicious_logs = suspicious_logs\<rparr>))))"

section \<open>Inputs used in the evaluations below\<close>

definition witness_gens :: gens where
  "witness_gens = \<lparr>py_stream = (\<lambda>n. if n = 0 \<or> n = 7 then 1 / 2 else 0),
                   np_stream = (\<lambda>_. 1 / 2)\<rparr>"

text \<open>A stream of Python draws that is fair for twenty bees (twenty draws of 0, then 0.5,
  and so on), one that lets two bees finish their employed phase and then only draws 0.99,
  and the colony of two bees.\<close>

definition fair_gens :: gens where
  "fair_gens = \<lparr>py_stream = (\<lambda>k. if k mod 21 = 20 then 1 / 2 else 0),
                np_stream = (\<lambda>_. 1 / 2)\<rparr>"

definition stubborn_gens :: gens where
  "stubborn_gens = \<lparr>py_stream = (\<lambda>k. if k = 3 then 0 else 99 / 100),
                    np_stream = (\<lambda>_. 1 / 2)\<rparr>"

definition two_bees :: abc_params where
  "two_bees = abc_default\<lparr>abc_colony_size := 2\<rparr>"

definition no_calendar :: calendar where
  "no_calendar = \<lparr>fromisoformat = (\<lambda>_. None),
                  now = (\<lambda>k. \<lparr>dt_seconds = real k, dt_hour = 12, dt_aware = False\<rparr>)\<rparr>"

text \<open>The high-risk entry as the ant colony preprocesses it under \<open>no_calendar\<close>.\<close>

definition high_risk_processed :: "processed_log list" where
  "high_risk_processed =
     [\<lparr>original_index = 0, pl_fields = high_risk_log,
       pl_datetime = \<lparr>dt_seconds = 0, dt_hour = 12, dt_aware = False\<rparr>\<rparr>]"

text \<open>Two entries listed out of chronological order, the high-risk one first, and a calendar
  that reads their timestamps.\<close>

definition late_high_risk :: log_entry where
  "late_high_risk = high_risk_log\<lparr>timestamp := ''2024-01-02T00:00:00''\<rparr>"

definition early_benign :: log_entry where
  "early_benign = empty_log\<lparr>timestamp := ''2024-01-01T00:00:00''\<rparr>"

definition two_day_calendar :: calendar where
  "two_day_calendar =
     \<lparr>fromisoformat = (\<lambda>s. if s = ''2024-01-01T00:00:00''
                            then Some \<lparr>dt_seconds = 0, dt_hour = 0, dt_aware = False\<rparr>
                            else if s = ''2024-01-02T00:00:00''
                            then Some \<lparr>dt_seconds = 86400, dt_hour = 0, dt_aware = False\<rparr>
                            else None),
      now = (\<lambda>k. \<lparr>dt_seconds = 172800 + real k, dt_hour = 0, dt_aware = False\<rparr>)\<rparr>"

text \<open>A failed login from an internal address, an entry with six risk signals, and the
  firefly strategy reduced to its initial population of one.\<close>

definition failed_login :: log_entry where
  "failed_login = empty_log\<lparr>source_ip := ''10.0.0.5'', event_type := ''login'',
     status := ''failed''\<rparr>"

definition exfiltration_entry :: log_entry where
  "exfiltration_entry = high_risk_log\<lparr>protocol := ''SMB'', event_type := ''data_exfiltration''\<rparr>"

definition one_firefly :: firefly_params where
  "one_firefly = firefly_default\<lparr>ff_n_fireflies := 1, ff_max_iterations := 0\<rparr>"

section \<open>Generators that repeat one value\<close>

lemma np_random_const [simp]: "np_random (const_gens a b) = (b, const_gens a b)"
  by (simp add: np_random_def const_gens_def)

lemma py_random_const [simp]: "py_random (const_gens a b) = (a, const_gens a b)"
  by (simp add: py_random_def const_gens_def)

lemma np_rand_const [simp]: "np_rand k (const_gens a b) = (replicate k b, const_gens a b)"
  by (induction k) simp_all

lemma np_uniform_const [simp]:
  "np_uniform lo hi k (const_gens a b) = (replicate k (lo + (hi - lo) * b), const_gens a b)"
  by (simp add: np_uniform_def)

lemma np_uniform_matrix_const [simp]:
  "np_uniform_matrix lo hi r c (const_gens a b) =
     (replicate r (replicate c (lo + (hi - lo) * b)), const_gens a b)"
  by (induction r) simp_all

lemma abc_generate_const:
  "b \<noteq> 0 \<Longrightarrow>
     abc_generate_random_solution (const_gens a b) = (Array (replicate 8 (1 / 8)), const_gens a b)"
  by (simp add: abc_generate_random_solution_def sum_list_replicate)

lemma abc_initialize_const:
  "b \<noteq> 0 \<Longrightarrow> abc_initialize_food_sources k (const_gens a b) =
      (replicate k (Array (replicate 8 (1 / 8))), const_gens a b)"
  by (induction k) (simp_all add: abc_generate_const)

section \<open>The feature rows of the high-risk entry\<close>

lemma abc_row_high_risk: "abc_feature_row high_risk_log = [1, 1, 0, 1, 0, 1, 0, 0]"
  by (simp add: abc_feature_row_def high_risk_log_def empty_log_def lower_def lower_char_def
      abc_location_risk_high_def abc_port_risk_high_def abc_protocol_risk_high_def
      abc_protocol_risk_medium_def abc_process_risk_high_def abc_event_risk_high_def
      abc_event_risk_medium_def Let_def)

lemma pso_row_high_risk:
  "pso_feature_vector high_risk_log = [1, 0, 0, 1, 0, 0, 0, 1, 0, 0, 0.7, 0, 0, 0, 0]"
  by (simp add: pso_feature_vector_def high_risk_log_def empty_log_def lower_def lower_char_def
      pso_high_risk_locations_def pso_ports_very_high_def pso_suspicious_protocols_def
      pso_malicious_processes_def pso_attack_events_def Let_def)

lemma ff_row_high_risk:
  "ff_feature_vector cal high_risk_log = [1, 0, 0, 1, 0, 0, 1, 0, 0, 0, 0, 1, 0, 0, 0, 0]"
  by (simp add: ff_feature_vector_def high_risk_log_def empty_log_def lower_def lower_char_def
      ff_high_risk_locations_def ff_ports_critical_def ff_suspicious_protocols_def
      ff_malicious_processes_def ff_suspicious_files_def ff_events_critical_def
      ff_events_high_def ff_events_medium_def Let_def)

lemma aco_score_high_risk: "aco_node_score high_risk_log = 3.4"
  by (simp add: aco_node_score_def high_risk_log_def empty_log_def lower_def lower_char_def
      risk_of_def aco_risk_location_def aco_risk_protocol_def aco_risk_port_def
      aco_risk_event_type_def aco_risk_process_def)

lemma fss_skips_high_risk: "fss_extract_features [high_risk_log] = ([], [])"
  by (simp add: fss_extract_features_def high_risk_log_def empty_log_def)

section \<open>Lemmas shared by the evaluations\<close>

lemma np_random_np_const: "np_stream g = (\<lambda>_. b) \<Longrightarrow> np_random g = (b, g)"
  by (cases g) (simp add: np_random_def)

lemma np_rand_np_const: "np_stream g = (\<lambda>_. b) \<Longrightarrow> np_rand k g = (replicate k b, g)"
  by (induction k) (simp_all add: np_random_np_const)

lemma np_uniform_matrix_np_const:
  "np_stream g = (\<lambda>_. b) \<Longrightarrow>
     np_uniform_matrix lo hi r c g = (replicate r (replicate c (lo + (hi - lo) * b)), g)"
  by (induction r) (simp_all add: np_uniform_def np_rand_np_const)

lemma witness_gens_np [simp]: "np_stream witness_gens = (\<lambda>_. 1 / 2)"
  by (simp add: witness_gens_def)

lemma witness_gens_py [simp]:
  "py_stream witness_gens = (\<lambda>n. if n = 0 \<or> n = 7 then 1 / 2 else 0)"
  by (simp add: witness_gens_def)

lemma aco_ant_length:
  "length (fst (aco_ant p logs ph attr ant acc)) = Suc (length (fst acc))"
  by (simp add: aco_ant_def split: prod.splits)

lemma aco_ants_length:
  "length (fst (fold (aco_ant p logs ph attr) xs acc)) = length (fst acc) + length xs"
  by (induction xs arbitrary: acc) (simp_all add: aco_ant_length)

lemma aco_iteration_returns:
  assumes "aco_num_ants p > 0"
  shows "\<exists>st'. aco_iteration p logs attr st = Inr st'"
proof -
  have "length (fst (fold (aco_ant p logs (aco_pheromones st) attr) [0..<aco_num_ants p]
                   ([], aco_rng st))) = aco_num_ants p"
    by (simp add: aco_ants_length)
  with assms have "fst (fold (aco_ant p logs (aco_pheromones st) attr) [0..<aco_num_ants p]
                   ([], aco_rng st)) \<noteq> []"
    by auto
  then show ?thesis
    by (cases "fold (aco_ant p logs (aco_pheromones st) attr) [0..<aco_num_ants p] ([], aco_rng st)")
       (simp add: aco_iteration_def Let_def)
qed

lemma aco_main_loop_returns:
  assumes "aco_num_ants p > 0"
  shows "\<exists>st'. aco_main_loop p logs attr k st = Inr st'"
proof (induction k)
  case 0 show ?case by simp
next
  case (Suc k)
  then obtain st1 where "aco_main_loop p logs attr k st = Inr st1" by blast
  then show ?case using aco_iteration_returns [OF assms] by simp
qed

lemma normalize_single: "d > 0 \<Longrightarrow> normalize_by_max [d] = [1]"
  by (simp add: normalize_by_max_def np_max_def)

lemma where_single: "np_where_gt [1] t = (if t < 1 then [0] else [])"
  by (simp add: np_where_gt_def)

lemma sort_desc_single [simp]: "sort_desc f [x] = [x]"
  by (simp add: sort_desc_def)

lemma set_sort_desc [simp]: "set (sort_desc f xs) = set xs"
  by (simp add: sort_desc_def)

lemma iso_fix_empty [simp]: "iso_fix [] = []"
  by (simp add: iso_fix_def endswith_def)

lemma pso_one_particle_run:
  "pso_optimize (pso_default\<lparr>pso_n_particles := 1, pso_max_iterations := 0\<rparr>) features witness_gens
   = Inr \<lparr>pso_positions = [replicate 15 (1 / 2)], pso_velocities = [replicate 15 0],
          pso_personal_best_positions = [replicate 15 (1 / 2)],
          pso_personal_best_scores = [pso_evaluate_fitness (replicate 15 (1 / 2)) features],
          pso_global_best_position = replicate 15 (1 / 2),
          pso_global_best_score = pso_evaluate_fitness (replicate 15 (1 / 2)) features,
          pso_optimization_path = [pso_evaluate_fitness (replicate 15 (1 / 2)) features],
          pso_rng = witness_gens\<rparr>"
  by (simp add: pso_optimize_def np_uniform_matrix_np_const[where b="1 / 2"] pso_dimensions_def
      pso_default_def Let_def pso_main_loop_def for_range_break.simps del: np_uniform_matrix.simps)

lemma ff_one_firefly_run:
  "ff_optimize (firefly_default\<lparr>ff_n_fireflies := 1, ff_max_iterations := 0\<rparr>) features witness_gens
   = Inr \<lparr>ff_fireflies = [replicate 16 (1 / 2)],
          ff_brightness = [ff_evaluate_fitness (replicate 16 (1 / 2)) features],
          ff_best_position = replicate 16 (1 / 2),
          ff_best_fitness = ff_evaluate_fitness (replicate 16 (1 / 2)) features,
          ff_convergence = [ff_evaluate_fitness (replicate 16 (1 / 2)) features],
          ff_cur_alpha = 1 / 2, ff_rng = witness_gens\<rparr>"
  by (simp add: ff_optimize_def np_uniform_matrix_np_const[where b="1 / 2"] ff_dimensions_def
      firefly_default_def Let_def ff_main_loop_def for_range_break.simps
      del: np_uniform_matrix.simps)


lemma aco_high_risk_score: "aco_node_score (high_risk_log\<lparr>timestamp := ts\<rparr>) = 3.4"
  by (simp add: aco_node_score_def high_risk_log_def empty_log_def lower_def lower_char_def
      risk_of_def aco_risk_location_def aco_risk_protocol_def aco_risk_port_def
      aco_risk_event_type_def aco_risk_process_def)

lemma aco_high_risk_attractiveness:
  "aco_calculate_node_attractiveness high_risk_processed = [17 / 25]"
  using aco_high_risk_score [of "timestamp high_risk_log"]
  by (simp add: aco_calculate_node_attractiveness_def high_risk_processed_def)


section \<open>Termination of the bee colony\<close>

lemma py_fair_cong: "py_stream g' = py_stream g \<Longrightarrow> py_fair n g' = py_fair n g"
  by (simp add: py_fair_def)

lemma py_fair_shift:
  assumes "py_fair n g" and "py_stream g' = (\<lambda>j. py_stream g (j + d))"
  shows "py_fair n g'"
  unfolding py_fair_def
proof (intro allI conjI)
  fix k
  from assms(1) obtain m where m: "m \<ge> k + d" "\<forall>j<n. py_stream g (m + j) < 1 / real n"
    unfolding py_fair_def by blast
  have "m - d \<ge> k \<and> (\<forall>j<n. py_stream g' (m - d + j) < 1 / real n)"
    using m by (simp add: assms(2) add.commute add.left_commute)
  then show "\<exists>m\<ge>k. \<forall>j<n. py_stream g' (m + j) < 1 / real n"
    by blast
  from assms(1) obtain m' where m': "m' \<ge> k + d" "1 / real n \<le> py_stream g m'"
    unfolding py_fair_def by blast
  have "m' - d \<ge> k \<and> 1 / real n \<le> py_stream g' (m' - d)"
    using m' by (simp add: assms(2))
  then show "\<exists>m\<ge>k. 1 / real n \<le> py_stream g' m"
    by blast
qed

lemma py_fair_py_random: "py_fair n g \<Longrightarrow> py_fair n (snd (py_random g))"
  by (rule py_fair_shift [where d = 1]) (simp_all add: py_random_def)

lemma py_fair_py_randrange: "py_fair n g \<Longrightarrow> py_fair n (snd (py_randrange k g))"
  by (simp add: py_randrange_def case_prod_beta py_fair_py_random)

lemma py_fair_py_uniform: "py_fair n g \<Longrightarrow> py_fair n (snd (py_uniform a b g))"
  by (simp add: py_uniform_def case_prod_beta py_fair_py_random)

text \<open>A fair stream holds, from every position on, a draw that \<open>randrange(n)\<close> turns into
  an index other than \<open>i\<close>.\<close>

lemma py_fair_other:
  assumes "py_fair n g" and "i < n"
  shows "\<exists>m. nat \<lfloor>py_stream g m * real n\<rfloor> \<noteq> i"
proof (cases "i = 0")
  case True
  from assms(1) obtain m where "1 / real n \<le> py_stream g m"
    unfolding py_fair_def by blast
  with assms(2) have "1 \<le> py_stream g m * real n"
    by (simp add: field_simps)
  then have "1 \<le> \<lfloor>py_stream g m * real n\<rfloor>"
    by simp
  with True show ?thesis
    by (intro exI [of _ m]) linarith
next
  case False
  from assms(1) obtain m where "\<forall>j<n. py_stream g (m + j) < 1 / real n"
    unfolding py_fair_def by blast
  with assms(2) have "py_stream g m < 1 / real n"
    by (metis add.right_neutral less_nat_zero_code neq0_conv)
  with assms(2) have "py_stream g m * real n < 1"
    by (simp add: field_simps)
  then have "\<lfloor>py_stream g m * real n\<rfloor> < 1"
    by (simp add: floor_less_iff)
  with False show ?thesis
    by (intro exI [of _ m]) linarith
qed

lemma abc_redraw_other_returns:
  "nat \<lfloor>py_stream g m * real n\<rfloor> \<noteq> index \<Longrightarrow> py_fair n g \<Longrightarrow>
     \<exists>other g'. abc_redraw_other n index other_index g = Some (other, g') \<and> py_fair n g'
                \<and> np_stream g' = np_stream g"
proof (induction m arbitrary: g other_index)
  case 0
  show ?case
  proof (cases "other_index = index")
    case False
    then show ?thesis
      using "0.prems"(2) by (subst abc_redraw_other.simps) simp
  next
    case True
    have "abc_redraw_other n index other_index g =
        abc_redraw_other n index (fst (py_randrange n g)) (snd (py_randrange n g))"
      using True by (subst abc_redraw_other.simps) (simp add: case_prod_beta)
    also have "\<dots> = Some (fst (py_randrange n g), snd (py_randrange n g))"
      using "0.prems"(1)
      by (subst abc_redraw_other.simps) (simp add: py_randrange_def py_random_def)
    finally show ?thesis
      using py_fair_py_randrange [OF "0.prems"(2)]
      by (simp add: py_randrange_def py_random_def)
  qed
next
  case (Suc m)
  show ?case
  proof (cases "other_index = index")
    case False
    then show ?thesis
      using Suc.prems(2) by (subst abc_redraw_other.simps) simp
  next
    case True
    have step: "abc_redraw_other n index other_index g =
        abc_redraw_other n index (fst (py_randrange n g)) (snd (py_randrange n g))"
      using True by (subst abc_redraw_other.simps) (simp add: case_prod_beta)
    have "nat \<lfloor>py_stream (snd (py_randrange n g)) m * real n\<rfloor> \<noteq> index"
      using Suc.prems(1) by (simp add: py_randrange_def py_random_def)
    from Suc.IH [OF this py_fair_py_randrange [OF Suc.prems(2)], of "fst (py_randrange n g)"]
    show ?thesis
      unfolding step by (simp add: py_randrange_def py_random_def)
  qed
qed

lemma py_randrange_np [simp]: "np_stream (snd (py_randrange k g)) = np_stream g"
  by (simp add: py_randrange_def py_random_def)

lemma py_uniform_np [simp]: "np_stream (snd (py_uniform a b g)) = np_stream g"
  by (simp add: py_uniform_def py_random_def)

lemma abc_produce_new_solution_returns:
  assumes "py_fair (length food_sources) g" and "index < length food_sources"
  shows "\<exists>s g'. abc_produce_new_solution food_sources index g = Some (s, g')
           \<and> py_fair (length food_sources) g' \<and> np_stream g' = np_stream g"
proof -
  let ?n = "length food_sources"
  let ?g1 = "snd (py_randrange ?n g)"
  have f1: "py_fair ?n ?g1"
    by (rule py_fair_py_randrange [OF assms(1)])
  from py_fair_other [OF f1 assms(2)] obtain m where
    "nat \<lfloor>py_stream ?g1 m * real ?n\<rfloor> \<noteq> index"
    by blast
  from abc_redraw_other_returns [OF this f1, of "fst (py_randrange ?n g)"]
  obtain other g2 where r: "abc_redraw_other ?n index (fst (py_randrange ?n g)) ?g1 = Some (other, g2)"
    and f2: "py_fair ?n g2" and np2: "np_stream g2 = np_stream g"
    by auto
  let ?g3 = "snd (py_randrange (array_len (food_sources ! index)) g2)"
  have f4: "py_fair ?n (snd (py_uniform (- 1) 1 ?g3))"
    by (intro py_fair_py_uniform py_fair_py_randrange f2)
  show ?thesis
    using r f4 np2 by (simp add: abc_produce_new_solution_def case_prod_beta Let_def)
qed

lemma abc_fitness_single_row:
  "length fv \<le> 1 \<Longrightarrow> abc_calculate_fitness s fv = Finite 0"
  by (simp add: abc_calculate_fitness_def)

lemma abc_visit_returns:
  assumes "py_fair (length (abc_food_sources st)) (abc_rng st)"
    and "i < length (abc_food_sources st)"
  shows "\<exists>st'. abc_visit fv i st = Some st'
           \<and> length (abc_food_sources st') = length (abc_food_sources st)
           \<and> py_fair (length (abc_food_sources st)) (abc_rng st')
           \<and> np_stream (abc_rng st') = np_stream (abc_rng st)
           \<and> abc_best_solution st' = abc_best_solution st
           \<and> abc_best_fitness st' = abc_best_fitness st
           \<and> (length fv \<le> 1 \<longrightarrow> abc_food_sources st' = abc_food_sources st)"
proof -
  from abc_produce_new_solution_returns [OF assms] obtain s g' where
    "abc_produce_new_solution (abc_food_sources st) i (abc_rng st) = Some (s, g')"
    and "py_fair (length (abc_food_sources st)) g'" and "np_stream g' = np_stream (abc_rng st)"
    by blast
  then show ?thesis
    by (cases "length fv \<le> 1") (simp_all add: abc_visit_def Let_def abc_fitness_single_row)
qed

lemma abc_employed_phase_returns:
  "py_fair (length (abc_food_sources st)) (abc_rng st) \<Longrightarrow>
   \<forall>i\<in>set idxs. i < length (abc_food_sources st) \<Longrightarrow>
     \<exists>st'. abc_employed_phase fv idxs st = Some st'
           \<and> length (abc_food_sources st') = length (abc_food_sources st)
           \<and> py_fair (length (abc_food_sources st)) (abc_rng st')
           \<and> np_stream (abc_rng st') = np_stream (abc_rng st)
           \<and> abc_best_solution st' = abc_best_solution st
           \<and> abc_best_fitness st' = abc_best_fitness st
           \<and> (length fv \<le> 1 \<longrightarrow> abc_food_sources st' = abc_food_sources st)"
proof (induction idxs arbitrary: st)
  case Nil
  then show ?case by simp
next
  case (Cons i idxs)
  from Cons.prems(2) have i: "i < length (abc_food_sources st)"
    by simp
  from abc_visit_returns [OF Cons.prems(1) i, of fv] obtain st1 where
    v: "abc_visit fv i st = Some st1"
    and l: "length (abc_food_sources st1) = length (abc_food_sources st)"
    and f: "py_fair (length (abc_food_sources st)) (abc_rng st1)"
    and rest: "np_stream (abc_rng st1) = np_stream (abc_rng st)"
      "abc_best_solution st1 = abc_best_solution st"
      "abc_best_fitness st1 = abc_best_fitness st"
      "length fv \<le> 1 \<longrightarrow> abc_food_sources st1 = abc_food_sources st"
    by blast
  from Cons.IH [of st1] Cons.prems(2) l f obtain st' where
    "abc_employed_phase fv idxs st1 = Some st'"
    "length (abc_food_sources st') = length (abc_food_sources st1)"
    "py_fair (length (abc_food_sources st1)) (abc_rng st')"
    "np_stream (abc_rng st') = np_stream (abc_rng st1)"
    "abc_best_solution st' = abc_best_solution st1"
    "abc_best_fitness st' = abc_best_fitness st1"
    "length fv \<le> 1 \<longrightarrow> abc_food_sources st' = abc_food_sources st1"
    by auto
  with v l rest show ?case
    by simp
qed

text \<open>Some position of every cycle of \<open>n\<close> is a given residue.\<close>

lemma mod_hit:
  assumes "i < (n::nat)"
  shows "\<exists>j<n. (a + j) mod n = i"
proof (induction a)
  case 0
  with assms show ?case by (intro exI [of _ i]) simp
next
  case (Suc a)
  then obtain j where j: "j < n" "(a + j) mod n = i"
    by blast
  show ?case
  proof (cases j)
    case 0
    with j assms have "n - 1 < n \<and> (Suc a + (n - 1)) mod n = i"
      by simp
    then show ?thesis by blast
  next
    case (Suc j')
    with j have "j' < n \<and> (Suc a + j') mod n = i"
      by simp
    then show ?thesis by blast
  qed
qed

text \<open>Probabilities that add up to 1 hold a value of at least 1/n.\<close>

lemma sum_list_less:
  "xs \<noteq> [] \<Longrightarrow> \<forall>x\<in>set xs. x < (c::real) \<Longrightarrow> sum_list xs < real (length xs) * c"
proof (induction xs rule: list_nonempty_induct)
  case (single x)
  then show ?case by simp
next
  case (cons x xs)
  then have "sum_list xs < real (length xs) * c" and "x < c"
    by simp_all
  then show ?case
    by (simp add: algebra_simps)
qed

lemma probability_at_least_average:
  assumes "sum_list probabilities = 1" and "probabilities \<noteq> []"
  shows "\<exists>i<length probabilities. 1 / real (length probabilities) \<le> probabilities ! i"
proof (rule ccontr)
  assume "\<not> ?thesis"
  then have "\<forall>x\<in>set probabilities. x < 1 / real (length probabilities)"
    by (auto simp: in_set_conv_nth not_le)
  from sum_list_less [OF assms(2) this] assms show False
    by simp
qed

lemma abc_onlooker_accepts:
  "length (abc_food_sources st) = n \<Longrightarrow> py_fair n (abc_rng st) \<Longrightarrow> count < n \<Longrightarrow> i < n \<Longrightarrow>
   py_stream (abc_rng st) t < probabilities ! ((i + t) mod n) \<Longrightarrow>
     \<exists>i' st'. abc_onlooker_phase fv probabilities i count st =
                abc_onlooker_phase fv probabilities i' (Suc count) st'
           \<and> i' < n \<and> length (abc_food_sources st') = n \<and> py_fair n (abc_rng st')
           \<and> np_stream (abc_rng st') = np_stream (abc_rng st)
           \<and> abc_best_solution st' = abc_best_solution st
           \<and> abc_best_fitness st' = abc_best_fitness st
           \<and> (length fv \<le> 1 \<longrightarrow> abc_food_sources st' = abc_food_sources st)"
proof (induction t arbitrary: st i)
  case (0 st i)
  define st1 where "st1 = st\<lparr>abc_rng := snd (py_random (abc_rng st))\<rparr>"
  have r: "fst (py_random (abc_rng st)) < probabilities ! i"
    using "0.prems"(4,5) by (simp add: py_random_def)
  have "py_fair (length (abc_food_sources st1)) (abc_rng st1)"
    and "i < length (abc_food_sources st1)"
    using "0.prems"(1,2,4) by (simp_all add: st1_def py_fair_py_random)
  from abc_visit_returns [OF this, of fv] obtain st' where
    v: "abc_visit fv i st1 = Some st'"
    and props: "length (abc_food_sources st') = length (abc_food_sources st1)"
      "py_fair (length (abc_food_sources st1)) (abc_rng st')"
      "np_stream (abc_rng st') = np_stream (abc_rng st1)"
      "abc_best_solution st' = abc_best_solution st1"
      "abc_best_fitness st' = abc_best_fitness st1"
      "length fv \<le> 1 \<longrightarrow> abc_food_sources st' = abc_food_sources st1"
    by blast
  have "abc_onlooker_phase fv probabilities i count st =
      abc_onlooker_phase fv probabilities ((i + 1) mod n) (Suc count) st'"
    using "0.prems"(1,3) r v props(1)
    by (subst abc_onlooker_phase.simps) (simp add: case_prod_beta st1_def)
  moreover have "(i + 1) mod n < n"
    using "0.prems"(4) by simp
  ultimately show ?case
    using props "0.prems"(1) by (auto simp: st1_def py_random_def)
next
  case (Suc t st i)
  define st1 where "st1 = st\<lparr>abc_rng := snd (py_random (abc_rng st))\<rparr>"
  have l1: "length (abc_food_sources st1) = n" and f1: "py_fair n (abc_rng st1)"
    using Suc.prems(1,2) by (simp_all add: st1_def py_fair_py_random)
  show ?case
  proof (cases "fst (py_random (abc_rng st)) < probabilities ! i")
    case True
    from abc_visit_returns [of st1 i fv] l1 f1 Suc.prems(4) obtain st' where
      v: "abc_visit fv i st1 = Some st'"
      and props: "length (abc_food_sources st') = length (abc_food_sources st1)"
        "py_fair (length (abc_food_sources st1)) (abc_rng st')"
        "np_stream (abc_rng st') = np_stream (abc_rng st1)"
        "abc_best_solution st' = abc_best_solution st1"
        "abc_best_fitness st' = abc_best_fitness st1"
        "length fv \<le> 1 \<longrightarrow> abc_food_sources st' = abc_food_sources st1"
      by auto
    have "abc_onlooker_phase fv probabilities i count st =
        abc_onlooker_phase fv probabilities ((i + 1) mod n) (Suc count) st'"
      using Suc.prems(1,3) True v props(1) l1
      by (subst abc_onlooker_phase.simps) (simp add: case_prod_beta st1_def)
    moreover have "(i + 1) mod n < n"
      using Suc.prems(4) by simp
    ultimately show ?thesis
      using props l1 f1 by (auto simp: st1_def py_random_def)
  next
    case False
    have step: "abc_onlooker_phase fv probabilities i count st =
        abc_onlooker_phase fv probabilities ((i + 1) mod n) count st1"
      using Suc.prems(1,3) False
      by (subst abc_onlooker_phase.simps) (simp add: case_prod_beta st1_def)
    have i1: "(i + 1) mod n < n"
      using Suc.prems(4) by simp
    have "((i + 1) mod n + t) mod n = (i + Suc t) mod n"
      by (simp add: mod_add_left_eq)
    with Suc.prems(5) have hit: "py_stream (abc_rng st1) t
        < probabilities ! (((i + 1) mod n + t) mod n)"
      by (simp add: st1_def py_random_def)
    from Suc.IH [OF l1 f1 Suc.prems(3) i1 hit] show ?thesis
      unfolding step by (auto simp: st1_def py_random_def)
  qed
qed

lemma abc_onlooker_phase_returns:
  assumes "\<exists>best<n. 1 / real n \<le> probabilities ! best"
  shows "length (abc_food_sources st) = n \<Longrightarrow> py_fair n (abc_rng st) \<Longrightarrow> i < n \<Longrightarrow>
     \<exists>st'. abc_onlooker_phase fv probabilities i count st = Some st'
           \<and> length (abc_food_sources st') = n \<and> py_fair n (abc_rng st')
           \<and> np_stream (abc_rng st') = np_stream (abc_rng st)
           \<and> abc_best_solution st' = abc_best_solution st
           \<and> abc_best_fitness st' = abc_best_fitness st
           \<and> (length fv \<le> 1 \<longrightarrow> abc_food_sources st' = abc_food_sources st)"
proof (induction "n - count" arbitrary: count i st)
  case 0
  then have "\<not> count < length (abc_food_sources st)"
    by simp
  then have "abc_onlooker_phase fv probabilities i count st = Some st"
    by (subst abc_onlooker_phase.simps) simp
  with "0.prems" show ?case
    by simp
next
  case (Suc d)
  from Suc.hyps(2) have c: "count < n"
    by simp
  from assms obtain best where best: "best < n" "1 / real n \<le> probabilities ! best"
    by blast
  from Suc.prems(2) obtain m where m: "\<forall>j<n. py_stream (abc_rng st) (m + j) < 1 / real n"
    unfolding py_fair_def by blast
  from mod_hit [OF best(1), of "i + m"] obtain j where j: "j < n" "(i + m + j) mod n = best"
    by blast
  from m j(1) best(2) have "py_stream (abc_rng st) (m + j) < probabilities ! best"
    by fastforce
  with j(2) have hit: "py_stream (abc_rng st) (m + j) < probabilities ! ((i + (m + j)) mod n)"
    by (simp add: add.assoc)
  from abc_onlooker_accepts [OF Suc.prems(1,2) c Suc.prems(3) hit, of fv]
  obtain i' st1 where
    step: "abc_onlooker_phase fv probabilities i count st =
        abc_onlooker_phase fv probabilities i' (Suc count) st1"
    and i': "i' < n" and l1: "length (abc_food_sources st1) = n"
    and f1: "py_fair n (abc_rng st1)"
    and rest: "np_stream (abc_rng st1) = np_stream (abc_rng st)"
      "abc_best_solution st1 = abc_best_solution st"
      "abc_best_fitness st1 = abc_best_fitness st"
      "length fv \<le> 1 \<longrightarrow> abc_food_sources st1 = abc_food_sources st"
    by blast
  from Suc.hyps(2) have "d = n - Suc count"
    by simp
  from Suc.hyps(1) [OF this l1 f1 i'] rest show ?case
    unfolding step by auto
qed

lemma np_rand_py [simp]: "py_stream (snd (np_rand k g)) = py_stream g"
  by (induction k arbitrary: g) (simp_all add: np_random_def case_prod_beta)

lemma abc_generate_py [simp]: "py_stream (snd (abc_generate_random_solution g)) = py_stream g"
  by (simp add: abc_generate_random_solution_def np_uniform_def case_prod_beta)

lemma abc_initialize_py [simp]:
  "py_stream (snd (abc_initialize_food_sources k g)) = py_stream g"
  by (induction k arbitrary: g) (simp_all add: case_prod_beta)

lemma abc_initialize_length [simp]:
  "length (fst (abc_initialize_food_sources k g)) = k"
  by (induction k arbitrary: g) (simp_all add: case_prod_beta)

lemma abc_scout_phase_keeps:
  "length (abc_food_sources (abc_scout_phase p idxs st)) = length (abc_food_sources st)
   \<and> py_stream (abc_rng (abc_scout_phase p idxs st)) = py_stream (abc_rng st)
   \<and> abc_best_solution (abc_scout_phase p idxs st) = abc_best_solution st
   \<and> abc_best_fitness (abc_scout_phase p idxs st) = abc_best_fitness st"
  by (induction idxs arbitrary: st) (simp_all add: case_prod_beta)

lemma finite_values_sum:
  "float_sum values = Finite s \<Longrightarrow> sum_list (map finite_value values) = s"
  by (simp add: float_sum_def split: if_splits)

lemma abc_probabilities_sum:
  assumes "values \<noteq> []"
  shows "sum_list (map (\<lambda>fitness. if float_gt (float_sum values) (Finite 0)
                          then finite_value fitness / finite_value (float_sum values)
                          else 1 / real (length values)) values) = 1"
proof (cases "float_gt (float_sum values) (Finite 0)")
  case True
  then obtain s where s: "float_sum values = Finite s" "s > 0"
    by (cases "float_sum values") simp_all
  have "sum_list (map (\<lambda>fitness. finite_value fitness / s) values) =
      sum_list (map finite_value values) / s"
    by (induction "values") (simp_all add: add_divide_distrib)
  with s finite_values_sum [OF s(1)] show ?thesis
    by simp
next
  case False
  with assms show ?thesis
    by (simp add: sum_list_triv)
qed

lemma np_argmax_less: "xs \<noteq> [] \<Longrightarrow> np_argmax xs < length xs"
  by (induction xs rule: np_argmax.induct) (simp_all add: Let_def)

lemma float_argmax_less: "values \<noteq> [] \<Longrightarrow> float_argmax values < length values"
proof (cases "NaN \<in> set values")
  case True
  then have "length (takeWhile (\<lambda>v. v \<noteq> NaN) values) < length values"
    by (induction "values") auto
  with True show ?thesis
    by (simp add: float_argmax_def)
next
  case False
  assume "values \<noteq> []"
  with False np_argmax_less [of "map finite_value values"] show ?thesis
    by (simp add: float_argmax_def)
qed

text \<open>
  One pass of the main loop returns when the stream of Python draws is fair.  For at most
  one log entry every fitness is 0.0, no neighbour is ever kept, and the food sources after
  the pass are those the scouts left.
\<close>

lemma abc_iteration_returns:
  assumes l: "length (abc_food_sources st) = n" and f: "py_fair n (abc_rng st)" and n: "0 < n"
  shows "\<exists>st' st2. abc_iteration p fv st = Some (Inr st')
           \<and> length (abc_food_sources st') = n \<and> py_fair n (abc_rng st')
           \<and> abc_food_sources st' = abc_food_sources (abc_scout_phase p [0..<length (abc_trials st2)] st2)
           \<and> abc_rng st' = abc_rng (abc_scout_phase p [0..<length (abc_trials st2)] st2)
           \<and> np_stream (abc_rng st2) = np_stream (abc_rng st)
           \<and> (length fv \<le> 1 \<longrightarrow> abc_food_sources st2 = abc_food_sources st)
           \<and> (abc_best_solution st' = abc_best_solution st \<and> abc_best_solution st \<noteq> None
              \<or> (\<exists>idx<n. abc_best_solution st' = Some (abc_food_sources st' ! idx)))"
proof -
  have idx: "\<forall>i\<in>set [0..<length (abc_food_sources st)]. i < length (abc_food_sources st)"
    by simp
  from abc_employed_phase_returns [OF _ idx, of fv] l f obtain st1 where
    e: "abc_employed_phase fv [0..<length (abc_food_sources st)] st = Some st1"
    and l1: "length (abc_food_sources st1) = n" and f1: "py_fair n (abc_rng st1)"
    and np1: "np_stream (abc_rng st1) = np_stream (abc_rng st)"
    and b1: "abc_best_solution st1 = abc_best_solution st"
    and s1: "length fv \<le> 1 \<longrightarrow> abc_food_sources st1 = abc_food_sources st"
    by auto
  define fitness_values where
    "fitness_values = map (\<lambda>source. abc_calculate_fitness source fv) (abc_food_sources st1)"
  define probabilities where
    "probabilities = map (\<lambda>fitness. if float_gt (float_sum fitness_values) (Finite 0)
                            then finite_value fitness / finite_value (float_sum fitness_values)
                            else 1 / real (length fitness_values)) fitness_values"
  have lf: "length fitness_values = n"
    by (simp add: fitness_values_def l1)
  with n have ne: "fitness_values \<noteq> []"
    by auto
  have "sum_list probabilities = 1"
    unfolding probabilities_def by (rule abc_probabilities_sum [OF ne])
  moreover have lp: "length probabilities = n"
    by (simp add: probabilities_def lf)
  ultimately have best: "\<exists>best<n. 1 / real n \<le> probabilities ! best"
    using probability_at_least_average [of probabilities] n by auto
  from abc_onlooker_phase_returns [OF best l1 f1 n, of fv 0] obtain st2 where
    o: "abc_onlooker_phase fv probabilities 0 0 st1 = Some st2"
    and l2: "length (abc_food_sources st2) = n" and f2: "py_fair n (abc_rng st2)"
    and np2: "np_stream (abc_rng st2) = np_stream (abc_rng st1)"
    and b2: "abc_best_solution st2 = abc_best_solution st1"
    and s2: "length fv \<le> 1 \<longrightarrow> abc_food_sources st2 = abc_food_sources st1"
    by blast
  define st3 where "st3 = abc_scout_phase p [0..<length (abc_trials st2)] st2"
  from abc_scout_phase_keeps [of p "[0..<length (abc_trials st2)]" st2]
  have l3: "length (abc_food_sources st3) = n"
    and py3: "py_stream (abc_rng st3) = py_stream (abc_rng st2)"
    and b3: "abc_best_solution st3 = abc_best_solution st2"
    by (simp_all add: st3_def l2)
  have f3: "py_fair n (abc_rng st3)"
    using py_fair_cong [OF py3] f2 by simp
  have am: "float_argmax fitness_values < n"
    using float_argmax_less [OF ne] lf by simp
  define st' where "st' =
     (if abc_best_solution st3 = None
         \<or> float_gt (fitness_values ! float_argmax fitness_values) (abc_best_fitness st3)
      then st3\<lparr>abc_best_solution := Some (abc_food_sources st3 ! float_argmax fitness_values),
               abc_best_fitness := fitness_values ! float_argmax fitness_values\<rparr>
      else st3)"
  have it: "abc_iteration p fv st = Some (Inr st')"
    using e o ne
    by (simp add: abc_iteration_def fitness_values_def [symmetric] probabilities_def [symmetric]
        st3_def [symmetric] st'_def Let_def)
  have fs': "abc_food_sources st' = abc_food_sources st3" and rng': "abc_rng st' = abc_rng st3"
    by (simp_all add: st'_def)
  have "abc_best_solution st' = abc_best_solution st \<and> abc_best_solution st \<noteq> None
              \<or> (\<exists>idx<n. abc_best_solution st' = Some (abc_food_sources st' ! idx))"
    using am b1 b2 b3 by (auto simp: st'_def)
  with it fs' rng' l3 f3 np1 np2 s1 s2 show ?thesis
    unfolding st3_def by (intro exI [of _ st'] exI [of _ st2]) auto
qed

lemma abc_iteration_no_bees:
  assumes "abc_food_sources st = []"
  shows "abc_iteration p fv st = Some (Inl ValueError)"
proof -
  have "abc_onlooker_phase fv [] 0 0 st = Some st"
    using assms by (subst abc_onlooker_phase.simps) simp
  with assms show ?thesis
    by (simp add: abc_iteration_def)
qed

lemma abc_main_loop_returns:
  assumes "length (abc_food_sources st) = n" and "py_fair n (abc_rng st)" and "0 < n"
  shows "\<exists>st'. abc_main_loop p fv k st = Some (Inr st')
           \<and> length (abc_food_sources st') = n \<and> py_fair n (abc_rng st')
           \<and> (0 < k \<longrightarrow> abc_best_solution st' \<noteq> None)"
proof (induction k)
  case 0
  with assms show ?case by simp
next
  case (Suc k)
  then obtain st1 where m: "abc_main_loop p fv k st = Some (Inr st1)"
    and l1: "length (abc_food_sources st1) = n" and f1: "py_fair n (abc_rng st1)"
    by blast
  from abc_iteration_returns [OF l1 f1 assms(3), of p fv] obtain st' where
    "abc_iteration p fv st1 = Some (Inr st')" "length (abc_food_sources st') = n"
    "py_fair n (abc_rng st')" "abc_best_solution st' \<noteq> None"
    by auto
  with m show ?case
    by (simp add: bindD_def)
qed

lemma abc_initial_state_fair:
  "py_fair n g \<Longrightarrow> py_fair n (abc_rng (abc_initial_state p g))"
  using py_fair_cong [of "snd (abc_initialize_food_sources (abc_colony_size p) g)" g n]
  by (simp add: abc_initial_state_def case_prod_beta)

lemma abc_initial_state_length:
  "length (abc_food_sources (abc_initial_state p g)) = abc_colony_size p"
  by (simp add: abc_initial_state_def case_prod_beta)

lemma abc_main_loop_no_bees:
  "abc_food_sources st = [] \<Longrightarrow> abc_main_loop p fv (Suc k) st = Some (Inl ValueError)"
  by (induction k) (simp_all add: bindD_def abc_iteration_no_bees)

text \<open>The search and the analysis return for every list of logs when the stream of Python
  draws is fair for the colony.\<close>

lemma abc_optimize_returns:
  assumes "py_fair (abc_colony_size p) g"
  shows "\<exists>r. abc_optimize p fv g = Some r
           \<and> (0 < abc_colony_size p \<longrightarrow>
                (\<exists>st. r = Inr st \<and> length (abc_food_sources st) = abc_colony_size p
                      \<and> (0 < abc_max_iterations p \<longrightarrow> abc_best_solution st \<noteq> None)))"
proof (cases "0 < abc_colony_size p")
  case True
  from abc_main_loop_returns [OF abc_initial_state_length [of p g]
      abc_initial_state_fair [OF assms, of p] True, where p = p and fv = fv
      and k = "abc_max_iterations p"]
  show ?thesis
    by (auto simp: abc_optimize_def)
next
  case False
  then have "abc_food_sources (abc_initial_state p g) = []"
    using abc_initial_state_length [of p g] by simp
  from abc_main_loop_no_bees [OF this] False show ?thesis
    by (cases "abc_max_iterations p") (simp_all add: abc_optimize_def)
qed

lemma abc_analyze_returns:
  assumes "py_fair (abc_colony_size p) g"
  shows "\<exists>r. abc_analyze p logs g = Some r
           \<and> (0 < abc_colony_size p \<and> 0 < abc_max_iterations p \<longrightarrow> (\<exists>res. r = Inr res))"
proof (cases "logs = []")
  case True
  then show ?thesis
    by (simp add: abc_analyze_def)
next
  case False
  from abc_optimize_returns [OF assms, of "abc_extract_features logs"] obtain r where
    both: "abc_optimize p (abc_extract_features logs) g = Some r
      \<and> (0 < abc_colony_size p \<longrightarrow>
                (\<exists>st. r = Inr st \<and> length (abc_food_sources st) = abc_colony_size p
                      \<and> (0 < abc_max_iterations p \<longrightarrow> abc_best_solution st \<noteq> None)))"
    by (rule exE)
  note r = both [THEN conjunct1] and ok = both [THEN conjunct2]
  show ?thesis
  proof (cases r)
    case (Inl e)
    with r ok False show ?thesis
      by (auto simp: abc_analyze_def bindD_def)
  next
    case (Inr st)
    with r ok False show ?thesis
      by (cases "abc_best_solution st") (auto simp: abc_analyze_def bindD_def)
  qed
qed

lemma fair_gens_fair: "py_fair 20 fair_gens"
  unfolding py_fair_def
proof (intro allI conjI)
  fix k :: nat
  have "21 * k \<ge> k \<and> (\<forall>j<20. py_stream fair_gens (21 * k + j) < 1 / real 20)"
    by (simp add: fair_gens_def)
  then show "\<exists>m\<ge>k. \<forall>j<20. py_stream fair_gens (m + j) < 1 / real 20"
    by blast
  have "21 * k + 20 \<ge> k \<and> 1 / real 20 \<le> py_stream fair_gens (21 * k + 20)"
    by (simp add: fair_gens_def)
  then show "\<exists>m\<ge>k. 1 / real 20 \<le> py_stream fair_gens m"
    by blast
qed

lemma fair_gens_ok: "gens_ok fair_gens"
  by (simp add: gens_ok_def fair_gens_def)

section \<open>Empty input\<close>

text \<open>
  C8.  For the empty log list every analyzer returns, without raising and whatever its
  parameters and generators are, the aggregate score 0 and an empty list of flagged entries
  (the ant colony: no clusters, no patterns, no suspicious logs).
\<close>

theorem empty_logs_give_zero_result:
  "abc_analyze pa [] g =
      Some (Inr \<lparr>abc_anomaly_score = 0, abc_detected_anomalies = [], abc_confidence = Finite 0\<rparr>)
   \<and> pso_analyze pp [] g = Inr \<lparr>pso_risk_score = 0, pso_findings = [], pso_result_path = []\<rparr>
   \<and> ff_analyze pf cal [] g =
      Inr \<lparr>ff_result_alert_score = 0, ff_critical_events = [], ff_suspicious_patterns = [],
           ff_optimization_convergence = []\<rparr>
   \<and> fss_analyze ps [] g =
      Inr \<lparr>fss_anomaly_score = 0, fss_priority_events = [], fss_feature_importance = []\<rparr>
   \<and> aco_analyze pc cal argsort [] g =
      Inr \<lparr>aco_threat_score = 0, aco_clusters = [], aco_attack_patterns = [],
           aco_most_suspicious_logs = []\<rparr>"
  by (simp add: abc_analyze_def pso_analyze_def ff_analyze_def fss_analyze_def aco_analyze_def
      pso_empty_result_def ff_empty_result_def fss_empty_result_def)

section \<open>No iterations\<close>

lemma fss_zero_iterations_raises:
  "fst (fss_extract_features logs) \<noteq> [] \<Longrightarrow> fss_iterations p = 0 \<Longrightarrow>
     fss_analyze p logs g = Inl UnboundLocalError"
  by (auto simp add: fss_analyze_def fss_optimize_def fss_initial_state_def Let_def fss_extract_features_def
      split: prod.splits)

lemma fss_keeps_addressed_entry:
  "fst (fss_extract_features [high_risk_log\<lparr>source_ip := ''10.0.0.5''\<rparr>]) \<noteq> []"
  by (simp add: fss_extract_features_def high_risk_log_def empty_log_def)

text \<open>
  C2.  With an iteration budget of 0 the bee colony and the fish school do not return a
  result.  The bee colony only ever binds \<open>best_solution\<close> inside the loop body and hands
  \<open>None\<close> to the final evaluation, which raises \<open>TypeError\<close>; the fish school falls back on
  \<open>fitness_values\<close>, which the loop body never bound, and raises \<open>UnboundLocalError\<close>.
  Evaluated on the high-risk entry (for the fish school with a source address, so that the
  entry is kept) and generators that always return 0.5.
\<close>

theorem zero_iterations_raise:
  "abc_analyze (abc_default\<lparr>abc_max_iterations := 0\<rparr>) [high_risk_log]
      (const_gens (1 / 2) (1 / 2)) = Some (Inl TypeError)
   \<and> fss_analyze (fss_default\<lparr>fss_iterations := 0\<rparr>)
        [high_risk_log\<lparr>source_ip := ''10.0.0.5''\<rparr>] (const_gens (1 / 2) (1 / 2))
      = Inl UnboundLocalError"
  by (simp add: abc_analyze_def abc_optimize_def abc_initial_state_def abc_initialize_const bindD_def abc_default_def
      fss_zero_iterations_raises fss_keeps_addressed_entry fss_default_def)

section \<open>Unguarded normalisation\<close>

text \<open>
  C3.  The bee colony divides a candidate by the sum of its components without a guard, in
  \<open>_generate_random_solution\<close> and in \<open>_produce_new_solution\<close>.  A candidate whose whole
  weight sits in one slot that the move clamps to 0 (other source 1, slot 0, factor -1),
  and eight initial draws of 0.0, both divide 0 by 0: the candidate returned holds NaN in
  every component.
\<close>

theorem abc_normalisation_divides_by_zero:
  "map_option fst
     (abc_produce_new_solution
        [Array [1, 0, 0, 0, 0, 0, 0, 0], Array [0, 1, 0, 0, 0, 0, 0, 0]] 0
        \<lparr>py_stream = (\<lambda>n. if n = 0 then 1 / 2 else 0), np_stream = (\<lambda>_. 0)\<rparr>)
     = Some NaN_array
   \<and> fst (abc_generate_random_solution (const_gens 0 0)) = NaN_array"
  by (simp add: abc_produce_new_solution_def py_randrange_def py_random_def py_uniform_def
      abc_redraw_other.simps abc_generate_random_solution_def sum_list_replicate)

section \<open>Reported positions\<close>

lemma aco_score_late: "aco_node_score (late_high_risk\<lparr>timestamp := ts\<rparr>) = 3.4"
  by (simp add: aco_node_score_def late_high_risk_def high_risk_log_def empty_log_def lower_def lower_char_def
      risk_of_def aco_risk_location_def aco_risk_protocol_def aco_risk_port_def
      aco_risk_event_type_def aco_risk_process_def)

lemma aco_score_early: "aco_node_score (early_benign\<lparr>timestamp := ts\<rparr>) = 0"
  by (simp add: aco_node_score_def early_benign_def empty_log_def lower_def lower_char_def
      risk_of_def aco_risk_location_def aco_risk_protocol_def aco_risk_port_def
      aco_risk_event_type_def aco_risk_process_def)

lemma iso_fix_days [simp]: "iso_fix ''2024-01-02T00:00:00'' = ''2024-01-02T00:00:00''"
   "iso_fix ''2024-01-01T00:00:00'' = ''2024-01-01T00:00:00''"
  by (simp_all add: iso_fix_def endswith_def)

lemma aco_preprocess_two_days:
  "aco_preprocess_logs two_day_calendar [late_high_risk, early_benign] =
     Inr [\<lparr>original_index = 1, pl_fields = early_benign,
           pl_datetime = \<lparr>dt_seconds = 0, dt_hour = 0, dt_aware = False\<rparr>\<rparr>,
          \<lparr>original_index = 0, pl_fields = late_high_risk,
           pl_datetime = \<lparr>dt_seconds = 86400, dt_hour = 0, dt_aware = False\<rparr>\<rparr>]"
  by (simp add: aco_preprocess_logs_def aco_preprocess_one_def two_day_calendar_def
       late_high_risk_def early_benign_def high_risk_log_def empty_log_def)

lemma aco_attractiveness_two_days: "aco_calculate_node_attractiveness
   [\<lparr>original_index = 1, pl_fields = early_benign, pl_datetime = d1\<rparr>,
    \<lparr>original_index = 0, pl_fields = late_high_risk, pl_datetime = d2\<rparr>] = [0, 17/25]"
  using aco_score_late[of "timestamp late_high_risk"] aco_score_early[of "timestamp early_benign"]
  by (simp add: aco_calculate_node_attractiveness_def)

lemma aco_suspicious_two_days: "aco_extract_suspicious_logs stable_argsort [0, 17/25]
   [\<lparr>original_index = 1, pl_fields = early_benign, pl_datetime = d1\<rparr>,
    \<lparr>original_index = 0, pl_fields = late_high_risk, pl_datetime = d2\<rparr>] =
   [\<lparr>sl_index = 1, sl_attractiveness = 17/25, sl_source_ip = [], sl_location = ''North Korea''\<rparr>]"
  by (simp add: aco_extract_suspicious_logs_def stable_argsort_def late_high_risk_def
      high_risk_log_def empty_log_def)

text \<open>
  C9.  The ant colony stores \<open>original_index\<close> in every preprocessed entry, sorts the
  entries by time, and then reports positions in the sorted list.  For two entries listed
  out of chronological order, the high-risk one first, the suspicious log is reported at
  index 1, which in the input is the benign entry; the high-risk entry is at input
  position 0.  (The two attractiveness values differ, so every \<open>np.argsort\<close> orders them
  alike.)
\<close>

theorem aco_reports_sorted_position:
  "\<exists>r. aco_analyze aco_default two_day_calendar stable_argsort [late_high_risk, early_benign]
          (const_gens (1/2) (1/2)) = Inr r
   \<and> map sl_index (aco_most_suspicious_logs r) = [1]
   \<and> map sl_location (aco_most_suspicious_logs r) = [''North Korea'']
   \<and> location ([late_high_risk, early_benign] ! 1) = []
   \<and> location ([late_high_risk, early_benign] ! 0) = ''North Korea''"
proof -
  define processed where "processed =
     [\<lparr>original_index = 1, pl_fields = early_benign,
       pl_datetime = \<lparr>dt_seconds = 0, dt_hour = 0, dt_aware = False\<rparr>\<rparr>,
      \<lparr>original_index = 0, pl_fields = late_high_risk,
       pl_datetime = \<lparr>dt_seconds = 86400, dt_hour = 0, dt_aware = False\<rparr>\<rparr>]"
  have pre: "aco_preprocess_logs two_day_calendar [late_high_risk, early_benign] = Inr processed"
    unfolding processed_def by (rule aco_preprocess_two_days)
  have attr: "aco_calculate_node_attractiveness processed = [0, 17/25]"
    unfolding processed_def by (rule aco_attractiveness_two_days)
  have sus: "aco_extract_suspicious_logs stable_argsort [0, 17/25] processed =
      [\<lparr>sl_index = 1, sl_attractiveness = 17/25, sl_source_ip = [],
        sl_location = ''North Korea''\<rparr>]"
    unfolding processed_def by (rule aco_suspicious_two_days)
  have l: "location ([late_high_risk, early_benign] ! 1) = []"
     "location ([late_high_risk, early_benign] ! 0) = ''North Korea''"
    by (simp_all add: late_high_risk_def early_benign_def high_risk_log_def empty_log_def)
  have "aco_num_ants aco_default > 0" by (simp add: aco_default_def)
  from aco_main_loop_returns [OF this] obtain st where
    "aco_main_loop aco_default processed [0, 17/25] (aco_iterations aco_default)
       (aco_initial_state (const_gens (1/2) (1/2))) = Inr st"
    by blast
  then have "\<exists>r. aco_analyze aco_default two_day_calendar stable_argsort
                    [late_high_risk, early_benign] (const_gens (1/2) (1/2)) = Inr r
               \<and> aco_most_suspicious_logs r =
                   [\<lparr>sl_index = 1, sl_attractiveness = 17/25, sl_source_ip = [],
                     sl_location = ''North Korea''\<rparr>]"
    by (simp add: aco_analyze_def pre attr sus Let_def)
  then show ?thesis using l by auto
qed

section \<open>Brute force in the firefly report\<close>

lemma set_first_occurrences [simp]: "set (first_occurrences xs) = set xs"
  by (simp add: first_occurrences_def)

lemma find_exists: "x \<in> set xs \<Longrightarrow> P x \<Longrightarrow> \<exists>y. find P xs = Some y"
  by (cases "find P xs") (auto simp: find_None_iff)

lemma ff_brute_force_detected:
  assumes ip: "ip \<noteq> []"
    and n: "3 \<le> length (filter (\<lambda>i. event_type (logs ! i) = ''login''
                 \<and> lower (status (logs ! i)) = ''failed'' \<and> source_ip (logs ! i) = ip) idxs)"
  shows "\<exists>pat. ff_detect_brute_force logs idxs = Some pat
            \<and> pattern_type pat = ''brute_force'' \<and> severity pat = 0.8"
proof -
  let ?grouped = "filter (\<lambda>i. source_ip (logs ! i) \<noteq> [])
      (filter (\<lambda>i. event_type (logs ! i) = ''login'' \<and> lower (status (logs ! i)) = ''failed'') idxs)"
  let ?events = "\<lambda>a. filter (\<lambda>i. source_ip (logs ! i) = a) ?grouped"
  have eq: "?events ip = filter (\<lambda>i. event_type (logs ! i) = ''login''
                 \<and> lower (status (logs ! i)) = ''failed'' \<and> source_ip (logs ! i) = ip) idxs"
    using ip by (auto intro: filter_cong)
  with n have n3: "3 \<le> length (?events ip)" by simp
  then have "?events ip \<noteq> []" by auto
  then have "hd (?events ip) \<in> set (?events ip)" by (rule hd_in_set)
  then obtain x where x: "x \<in> set (?events ip)" by blast
  then have "x \<in> set ?grouped" and "source_ip (logs ! x) = ip" by auto
  then have "ip \<in> (\<lambda>i. source_ip (logs ! i)) ` set ?grouped" by blast
  then have "ip \<in> set (map (\<lambda>i. source_ip (logs ! i)) ?grouped)" by (simp only: set_map)
  then have "ip \<in> set (first_occurrences (map (\<lambda>i. source_ip (logs ! i)) ?grouped))" by simp
  from find_exists [OF this, of "\<lambda>a. 3 \<le> length (?events a)"] n3
  obtain y where "find (\<lambda>a. 3 \<le> length (?events a))
       (first_occurrences (map (\<lambda>i. source_ip (logs ! i)) ?grouped)) = Some y" by blast
  then show ?thesis
    by (simp add: ff_detect_brute_force_def Let_def)
qed

lemma ff_report_patterns:
  assumes "ff_report logs features log_mapping w conv = Inr r"
  shows "ff_suspicious_patterns r = ff_identify_suspicious_patterns logs (ff_critical_events r)"
  using assms by (auto simp: ff_report_def Let_def split: sum.splits)

lemma ff_identify_none [simp]: "ff_identify_suspicious_patterns logs [] = []"
  by (simp add: ff_identify_suspicious_patterns_def)

lemma ff_patterns_of_result:
  assumes "ff_analyze p cal logs g = Inr r"
  shows "ff_suspicious_patterns r = ff_identify_suspicious_patterns logs (ff_critical_events r)"
proof (cases "logs = [] \<or> length (fst (ff_extract_features cal logs)) = 0")
  case True
  with assms have "r = ff_empty_result" by (auto simp: ff_analyze_def split: if_splits)
  then show ?thesis by (simp add: ff_empty_result_def)
next
  case False
  with assms have "(case ff_optimize p (fst (ff_extract_features cal logs)) g of
           Inl e \<Rightarrow> Inl e
         | Inr st \<Rightarrow>
             ff_report logs (fst (ff_extract_features cal logs)) (snd (ff_extract_features cal logs))
               (ff_best_position st) (ff_convergence st)) = Inr r"
    by (simp add: ff_analyze_def)
  then show ?thesis
    by (cases "ff_optimize p (fst (ff_extract_features cal logs)) g")
       (auto intro: ff_report_patterns)
qed

text \<open>
  C4, amended.  Whenever the firefly strategy returns a result among whose critical events
  (alert score above 0.65) at least three are failed logins (event type login, status failed)
  from one and the same non-empty source address, the result holds a pattern of type
  \<open>brute_force\<close> with severity 0.8.
\<close>

theorem ff_brute_force_among_critical:
  assumes "ff_analyze p cal logs g = Inr r" and "ip \<noteq> []"
    and "3 \<le> length (filter (\<lambda>e. event_type (logs ! ff_log_index e) = ''login''
                 \<and> lower (status (logs ! ff_log_index e)) = ''failed''
                 \<and> source_ip (logs ! ff_log_index e) = ip) (ff_critical_events r))"
  shows "list_ex (\<lambda>pat. pattern_type pat = ''brute_force'' \<and> severity pat = 0.8)
           (ff_suspicious_patterns r)"
proof -
  let ?P = "\<lambda>i. event_type (logs ! i) = ''login''
                 \<and> lower (status (logs ! i)) = ''failed'' \<and> source_ip (logs ! i) = ip"
  have "length (filter ?P (map ff_log_index (ff_critical_events r)))
        = length (filter (?P \<circ> ff_log_index) (ff_critical_events r))"
    by (simp add: filter_map)
  with assms(3) have n: "3 \<le> length (filter ?P (map ff_log_index (ff_critical_events r)))"
    by (simp add: comp_def)
  from ff_brute_force_detected [OF assms(2) n] obtain pat where
    pat: "ff_detect_brute_force logs (map ff_log_index (ff_critical_events r)) = Some pat"
      "pattern_type pat = ''brute_force''" "severity pat = 0.8" by blast
  have "3 \<le> length (ff_critical_events r)"
    by (rule le_trans [OF assms(3) length_filter_le])
  then have len: "\<not> length (ff_critical_events r) < 2" by simp
  have "pat \<in> set (ff_identify_suspicious_patterns logs (ff_critical_events r))"
    using len pat(1) by (simp add: ff_identify_suspicious_patterns_def Let_def)
  then show ?thesis
    using pat(2,3) ff_patterns_of_result [OF assms(1)] by (auto simp: list_ex_iff)
qed

lemma ff_row_failed_login:
  "ff_feature_vector no_calendar failed_login = [0,0,0,0,0,0,0,0,0,0,1,1,0,0,0,1]"
  by (simp add: ff_feature_vector_def failed_login_def empty_log_def lower_def lower_char_def
      ff_high_risk_locations_def ff_ports_critical_def ff_ports_high_def ff_ports_medium_def ff_suspicious_protocols_def
      ff_malicious_processes_def ff_suspicious_files_def ff_events_critical_def
      ff_events_high_def ff_events_medium_def ff_private_def Let_def)

lemma ff_row_exfiltration:
  "ff_feature_vector no_calendar exfiltration_entry = [1,0,1,1,0,0,1,0,1,0,0,1,0,0,0,0]"
  by (simp add: ff_feature_vector_def exfiltration_entry_def high_risk_log_def empty_log_def lower_def lower_char_def
      ff_high_risk_locations_def ff_ports_critical_def ff_suspicious_protocols_def
      ff_malicious_processes_def ff_suspicious_files_def ff_events_critical_def
      ff_events_high_def ff_events_medium_def Let_def)

lemma ff_extract_cex:
  "ff_extract_features no_calendar [failed_login, failed_login, failed_login, exfiltration_entry]
   = ([[0,0,0,0,0,0,0,0,0,0,1,1,0,0,0,1],[0,0,0,0,0,0,0,0,0,0,1,1,0,0,0,1],[0,0,0,0,0,0,0,0,0,0,1,1,0,0,0,1],
       [1,0,1,1,0,0,1,0,1,0,0,1,0,0,0,0]], [0,1,2,3])"
  by (simp add: ff_extract_features_def ff_row_failed_login ff_row_exfiltration Let_def upt_rec nth_Cons')

lemma one_firefly_optimize:
  "ff_optimize one_firefly features witness_gens
   = Inr \<lparr>ff_fireflies = [replicate 16 (1 / 2)],
          ff_brightness = [ff_evaluate_fitness (replicate 16 (1 / 2)) features],
          ff_best_position = replicate 16 (1 / 2),
          ff_best_fitness = ff_evaluate_fitness (replicate 16 (1 / 2)) features,
          ff_convergence = [ff_evaluate_fitness (replicate 16 (1 / 2)) features],
          ff_cur_alpha = 1 / 2, ff_rng = witness_gens\<rparr>"
  unfolding one_firefly_def by (rule ff_one_firefly_run)

text \<open>
  C4, as stated, fails: brute force is only looked for among the critical events.  With the
  single initial firefly at weight 0.5 in every slot, three failed logins from 10.0.0.5 score
  1.5 against 3.0 for a fourth entry, that is 0.5 after normalisation; only the fourth entry
  is critical and no pattern is reported.
\<close>

theorem ff_brute_force_counterexample:
  "map_sum id ff_suspicious_patterns
     (ff_analyze one_firefly no_calendar
        [failed_login, failed_login, failed_login, exfiltration_entry] witness_gens) = Inr []"
  apply (simp add: ff_analyze_def ff_extract_cex one_firefly_optimize)
  apply (simp add: ff_report_def ff_calculate_alert_scores_def normalize_by_max_def np_max_def dot_def
      eval_nat_numeral np_where_gt_def Let_def upt_rec ff_identify_suspicious_patterns_def)
  done

lemma ff_extract_three_logins:
  "ff_extract_features no_calendar [failed_login, failed_login, failed_login]
   = ([[0,0,0,0,0,0,0,0,0,0,1,1,0,0,0,1],[0,0,0,0,0,0,0,0,0,0,1,1,0,0,0,1],
       [0,0,0,0,0,0,0,0,0,0,1,1,0,0,0,1]], [0,1,2])"
  by (simp add: ff_extract_features_def ff_row_failed_login Let_def upt_rec nth_Cons')

lemma ff_three_logins_run:
  "\<exists>r. ff_analyze one_firefly no_calendar [failed_login, failed_login, failed_login] witness_gens
          = Inr r
       \<and> map ff_log_index (ff_critical_events r) = [0, 1, 2]"
  apply (simp add: ff_analyze_def ff_extract_three_logins one_firefly_optimize)
  apply (simp add: ff_report_def ff_calculate_alert_scores_def normalize_by_max_def np_max_def dot_def
      eval_nat_numeral np_where_gt_def Let_def upt_rec sort_desc_def)
  done

theorem ff_brute_force_among_critical_witness:
  "\<exists>r. ff_analyze one_firefly no_calendar [failed_login, failed_login, failed_login] witness_gens
          = Inr r
       \<and> list_ex (\<lambda>pat. pattern_type pat = ''brute_force'' \<and> severity pat = 0.8)
            (ff_suspicious_patterns r)"
proof -
  from ff_three_logins_run obtain r where r: "ff_analyze one_firefly no_calendar [failed_login, failed_login, failed_login]
      witness_gens = Inr r"
    and ce: "map ff_log_index (ff_critical_events r) = [0, 1, 2]"
    by (elim exE conjE)
  let ?P = "\<lambda>i. event_type ([failed_login, failed_login, failed_login] ! i) = ''login''
       \<and> lower (status ([failed_login, failed_login, failed_login] ! i)) = ''failed''
       \<and> source_ip ([failed_login, failed_login, failed_login] ! i) = ''10.0.0.5''"
  have "length (filter (?P \<circ> ff_log_index) (ff_critical_events r))
        = length (filter ?P (map ff_log_index (ff_critical_events r)))"
    by (simp add: filter_map)
  also have "\<dots> = 3"
    unfolding ce by (simp add: failed_login_def empty_log_def lower_def lower_char_def)
  finally have "3 \<le> length (filter (\<lambda>e. ?P (ff_log_index e)) (ff_critical_events r))"
    by (simp add: comp_def)
  from ff_brute_force_among_critical [OF r _ this] r show ?thesis by auto
qed

section \<open>Normalised scores\<close>

lemma dot_nonneg:
  assumes "\<forall>x \<in> set row. 0 \<le> x" and "\<forall>x \<in> set w. 0 \<le> x"
  shows "0 \<le> dot row w"
  unfolding dot_def
proof (rule sum_list_nonneg)
  fix y assume "y \<in> set (map2 (*) row w)"
  then obtain a b where "(a, b) \<in> set (zip row w)" and y: "y = a * b" by auto
  then have "a \<in> set row" and "b \<in> set w" by (auto dest: set_zip_leftD set_zip_rightD)
  with assms y show "0 \<le> y" by simp
qed

lemma dot_update_mono:
  assumes "\<forall>x \<in> set w. 0 \<le> x" and "row ! k \<le> v" and "k < length row"
  shows "dot row w \<le> dot (row[k := v]) w"
  using assms
proof (induction row arbitrary: k w)
  case Nil then show ?case by simp
next
  case (Cons a row)
  show ?case
  proof (cases w)
    case Nil then show ?thesis by (simp add: dot_def)
  next
    case (Cons b w')
    show ?thesis
    proof (cases k)
      case 0
      with Cons.prems Cons show ?thesis by (simp add: dot_def mult_right_mono)
    next
      case (Suc j)
      with Cons.prems Cons have "dot row w' \<le> dot (row[j := v]) w'"
        by (intro Cons.IH) auto
      with Suc Cons show ?thesis by (simp add: dot_def)
    qed
  qed
qed

lemma normalize_bounds:
  assumes ne: "raw \<noteq> []" and nn: "\<forall>x \<in> set raw. 0 \<le> x"
  shows "\<forall>s \<in> set (normalize_by_max raw). 0 \<le> s \<and> s \<le> 1"
proof (cases "Max (set raw) > 0")
  case True
  have "x \<le> Max (set raw)" if "x \<in> set raw" for x using that by simp
  with True nn show ?thesis
    by (auto simp: normalize_by_max_def np_max_def Let_def)
next
  case False
  have "x \<le> 0" if "x \<in> set raw" for x
  proof -
    have "x \<le> Max (set raw)" using that by simp
    with False show ?thesis by simp
  qed
  with False nn show ?thesis
    by (auto simp: normalize_by_max_def np_max_def Let_def intro: order_trans [of _ 0 1])
qed

lemma normalize_nth:
  "i < length raw \<Longrightarrow> normalize_by_max raw ! i =
     (if Max (set raw) > 0 then raw ! i / Max (set raw) else raw ! i)"
  by (simp add: normalize_by_max_def np_max_def Let_def)

lemma normalize_update_mono:
  assumes i: "i < length raw" and nn: "\<forall>x \<in> set raw. 0 \<le> x" and d: "raw ! i \<le> d'"
  shows "normalize_by_max raw ! i \<le> normalize_by_max (raw[i := d']) ! i"
proof -
  let ?raw' = "raw[i := d']"
  let ?M = "Max (set raw)" and ?M' = "Max (set ?raw')"
  have d0: "0 \<le> raw ! i" using i nn by simp
  have dM: "raw ! i \<le> ?M" using i by simp
  have d'in: "d' \<in> set ?raw'" using i by (simp add: set_update_memI)
  then have d'M': "d' \<le> ?M'" by simp
  have ne': "set ?raw' \<noteq> {}" using d'in by auto
  have nn': "\<forall>x \<in> set ?raw'. 0 \<le> x"
    using nn d d0 set_update_subset_insert [of raw i d'] by auto
  have i': "i < length ?raw'" using i by simp
  have nth': "?raw' ! i = d'" using i by simp
  have res': "0 \<le> normalize_by_max ?raw' ! i"
  proof -
    have "?raw' \<noteq> []" using ne' by auto
    from normalize_bounds [OF this nn'] have "\<forall>s \<in> set (normalize_by_max ?raw'). 0 \<le> s" by blast
    moreover have "length (normalize_by_max ?raw') = length ?raw'"
      by (simp add: normalize_by_max_def Let_def)
    ultimately show ?thesis using i' by (metis nth_mem)
  qed
  show ?thesis
  proof (cases "?M > 0")
    case False
    with d0 dM have "raw ! i = 0" by simp
    with False res' i show ?thesis by (simp add: normalize_nth)
  next
    case True
    have M'le: "?M' \<le> max ?M d'"
    proof (rule Max.boundedI)
      show "finite (set ?raw')" by simp
      show "set ?raw' \<noteq> {}" by (rule ne')
      fix x assume "x \<in> set ?raw'"
      then have "x = d' \<or> x \<in> set raw" using set_update_subset_insert [of raw i d'] by auto
      then show "x \<le> max ?M d'" by (auto simp: max_def intro: order_trans [OF Max_ge])
    qed
    show ?thesis
    proof (cases "?M' > 0")
      case False
      with d'M' d d0 have "raw ! i = 0" by simp
      with res' i True show ?thesis by (simp add: normalize_nth)
    next
      case M'pos: True
      have lhs: "normalize_by_max raw ! i = raw ! i / ?M" using True i by (simp add: normalize_nth)
      have rhs: "normalize_by_max ?raw' ! i = d' / ?M'" using M'pos i' nth' by (simp add: normalize_nth)
      show ?thesis
      proof (cases "d' \<ge> ?M")
        case True
        with M'le d'M' have "?M' = d'" by (simp add: max_def split: if_splits)
        with M'pos have "d' / ?M' = 1" by simp
        moreover have "raw ! i / ?M \<le> 1" using dM \<open>?M > 0\<close> by simp
        ultimately show ?thesis unfolding lhs rhs by simp
      next
        case False
        with M'le have "?M' \<le> ?M" by (simp add: max_def split: if_splits)
        have "raw ! i / ?M \<le> d' / ?M" using d \<open>?M > 0\<close> by (simp add: divide_right_mono)
        also have "\<dots> \<le> d' / ?M'"
          using \<open>?M' \<le> ?M\<close> M'pos d d0 by (intro divide_left_mono) (auto intro: mult_pos_pos)
        finally show ?thesis unfolding lhs rhs .
      qed
    qed
  qed
qed


lemma scores_agree:
  "features \<noteq> [] \<Longrightarrow>
     pso_calculate_risk_scores w features = Inr (normalize_by_max (map (\<lambda>row. dot row w) features))
   \<and> ff_calculate_alert_scores w features = Inr (normalize_by_max (map (\<lambda>row. dot row w) features))
   \<and> fss_calculate_anomaly_scores w features = Inr (normalize_by_max (map (\<lambda>row. dot row w) features))"
  by (simp add: pso_calculate_risk_scores_def ff_calculate_alert_scores_def
      fss_calculate_anomaly_scores_def)

text \<open>
  C7, as stated, fails for a feature value of another entry: the score of an entry is its
  raw score divided by the largest raw score, and raising a feature of the entry that holds
  the maximum lowers every other score.  With all weights 1 and two entries that only have
  the port signal, both score 1; giving the first entry the location signal as well (slot 0
  from 0 to 1) lowers the score of the second entry to 1/2.
\<close>

theorem normalized_score_counterexample:
  "pso_calculate_risk_scores (replicate 15 1)
      [[0, 0, 0, 1, 0, 0, 0, 0, 0, 0, 0, 0, 0, 0, 0], [0, 0, 0, 1, 0, 0, 0, 0, 0, 0, 0, 0, 0, 0, 0]]
     = Inr [1, 1]
   \<and> pso_calculate_risk_scores (replicate 15 1)
      [[1, 0, 0, 1, 0, 0, 0, 0, 0, 0, 0, 0, 0, 0, 0], [0, 0, 0, 1, 0, 0, 0, 0, 0, 0, 0, 0, 0, 0, 0]]
     = Inr [1, 1 / 2]"
  by (simp add: pso_calculate_risk_scores_def normalize_by_max_def np_max_def dot_def
      eval_nat_numeral)

text \<open>
  C7, amended.  For every non-empty feature matrix with entries in [0,1] and every weight
  vector with positive components, the three score functions agree, every normalised score
  lies in [0,1], and the score of an entry does not decrease when one feature value of that
  same entry is raised while the weights and all other feature values stay fixed.
\<close>

theorem normalized_score_bounded_monotone:
  assumes ne: "features \<noteq> []"
    and range: "\<forall>row \<in> set features. \<forall>x \<in> set row. 0 \<le> x \<and> x \<le> 1"
    and pos: "\<forall>x \<in> set w. 0 < x"
    and i: "i < length features" and k: "k < length (features ! i)"
    and v: "features ! i ! k \<le> v"
  shows "\<exists>scores scores'.
      pso_calculate_risk_scores w features = Inr scores
    \<and> ff_calculate_alert_scores w features = Inr scores
    \<and> fss_calculate_anomaly_scores w features = Inr scores
    \<and> pso_calculate_risk_scores w (features[i := (features ! i)[k := v]]) = Inr scores'
    \<and> ff_calculate_alert_scores w (features[i := (features ! i)[k := v]]) = Inr scores'
    \<and> fss_calculate_anomaly_scores w (features[i := (features ! i)[k := v]]) = Inr scores'
    \<and> (\<forall>s \<in> set scores. 0 \<le> s \<and> s \<le> 1)
    \<and> scores ! i \<le> scores' ! i"
proof -
  let ?raw = "map (\<lambda>row. dot row w) features"
  let ?features' = "features[i := (features ! i)[k := v]]"
  have w0: "\<forall>x \<in> set w. 0 \<le> x" using pos by (auto intro: less_imp_le)
  have nn: "\<forall>x \<in> set ?raw. 0 \<le> x"
  proof
    fix x assume "x \<in> set ?raw"
    then obtain row where "row \<in> set features" and "x = dot row w" by auto
    with range w0 show "0 \<le> x" by (auto intro: dot_nonneg)
  qed
  have raw_ne: "?raw \<noteq> []" using ne by simp
  have ne': "?features' \<noteq> []" using ne by simp
  have upd: "map (\<lambda>row. dot row w) ?features' = ?raw[i := dot ((features ! i)[k := v]) w]"
    by (simp add: map_update)
  have iraw: "i < length ?raw" using i by simp
  have "?raw ! i \<le> dot ((features ! i)[k := v]) w"
    using i dot_update_mono [OF w0 v k] by simp
  from normalize_update_mono [OF iraw nn this]
  have mono: "normalize_by_max ?raw ! i \<le> normalize_by_max (map (\<lambda>row. dot row w) ?features') ! i"
    by (simp only: upd)
  from scores_agree [OF ne, of w] scores_agree [OF ne', of w] normalize_bounds [OF raw_ne nn] mono
  show ?thesis by blast
qed

theorem normalized_score_bounded_monotone_witness:
  "\<exists>scores scores'.
      pso_calculate_risk_scores (replicate 15 1)
        [[0, 0, 0, 1, 0, 0, 0, 0, 0, 0, 0, 0, 0, 0, 0], [1, 0, 0, 1, 0, 0, 0, 0, 0, 0, 0, 0, 0, 0, 0]]
        = Inr scores
    \<and> pso_calculate_risk_scores (replicate 15 1)
        [[1, 0, 0, 1, 0, 0, 0, 0, 0, 0, 0, 0, 0, 0, 0], [1, 0, 0, 1, 0, 0, 0, 0, 0, 0, 0, 0, 0, 0, 0]]
        = Inr scores'
    \<and> (\<forall>s \<in> set scores. 0 \<le> s \<and> s \<le> 1)
    \<and> scores ! 0 \<le> scores' ! 0"
proof -
  let ?F = "[[0, 0, 0, 1, 0, 0, 0, 0, 0, 0, 0, 0, 0, 0, 0], [1, 0, 0, 1, 0, 0, 0, 0, 0, 0, 0, 0, 0, 0, 0 :: real]]"
  have a: "?F \<noteq> []" by simp
  have b: "\<forall>row \<in> set ?F. \<forall>x \<in> set row. 0 \<le> x \<and> x \<le> 1" by simp
  have c: "\<forall>x \<in> set (replicate 15 (1 :: real)). 0 < x" by simp
  have d: "0 < length ?F" by simp
  have e: "0 < length (?F ! 0)" by simp
  have f: "?F ! 0 ! 0 \<le> 1" by simp
  from normalized_score_bounded_monotone [OF a b c d e f] show ?thesis
    by simp blast
qed

section \<open>Stopping rules of the main loops\<close>
lemma for_range_break_trace:
  fixes tr :: "'s \<Rightarrow> 'a list"
  assumes step: "\<And>it s. length (tr (body it s)) = Suc (length (tr s))
                        \<and> take (length (tr s)) (tr (body it s)) = tr s"
    and stop: "\<And>it s. stop it s = C it (tr s)"
  shows "take (length (tr s)) (tr (for_range_break n body stop it s)) = tr s
       \<and> length (tr s) \<le> length (tr (for_range_break n body stop it s))
       \<and> length (tr (for_range_break n body stop it s)) - length (tr s) \<le> n - it
       \<and> (length (tr (for_range_break n body stop it s)) - length (tr s) < n - it \<longrightarrow>
            length (tr s) < length (tr (for_range_break n body stop it s))
          \<and> C (it + (length (tr (for_range_break n body stop it s)) - length (tr s)) - 1)
                (tr (for_range_break n body stop it s)))
       \<and> (\<forall>j. j + 1 < length (tr (for_range_break n body stop it s)) - length (tr s) \<longrightarrow>
             \<not> C (it + j) (take (length (tr s) + j + 1) (tr (for_range_break n body stop it s))))"
  using assms
proof (induction n body stop it s rule: for_range_break.induct)
  case (1 n body stop it s)
  note step = "1.prems"(1) and stop = "1.prems"(2)
  let ?s1 = "body it s"
  let ?L = "length (tr s)"
  have len1: "length (tr ?s1) = Suc ?L"
    using step [of it s] by (rule conjunct1)
  have pre1: "take ?L (tr ?s1) = tr s"
    using step [of it s] by (rule conjunct2)
  show ?case
  proof (cases "it < n")
    case False
    then show ?thesis by (simp add: for_range_break.simps [of n body stop it s])
  next
    case lt: True
    show ?thesis
    proof (cases "stop it ?s1")
      case True
      then have eq: "for_range_break n body stop it s = ?s1"
        using lt by (simp add: for_range_break.simps [of n body stop it s])
      from True have "C it (tr ?s1)" by (simp add: stop)
      then show ?thesis using lt len1 pre1 by (simp add: eq)
    next
      case False
      then have eq: "for_range_break n body stop it s = for_range_break n body stop (it + 1) ?s1"
        using lt by (simp add: for_range_break.simps [of n body stop it s])
      let ?P = "tr (for_range_break n body stop (it + 1) ?s1)"
      note ih = "1.IH" [OF lt False "1.prems", unfolded len1]
      from ih have ih1: "take (Suc ?L) ?P = tr ?s1" by blast
      from ih have ih2: "Suc ?L \<le> length ?P" by blast
      from ih have ih3: "length ?P - Suc ?L \<le> n - (it + 1)" by blast
      from ih have ih4: "length ?P - Suc ?L < n - (it + 1) \<longrightarrow>
                    Suc ?L < length ?P \<and> C (it + 1 + (length ?P - Suc ?L) - 1) ?P" by blast
      from ih have ih5: "\<forall>j. j + 1 < length ?P - Suc ?L \<longrightarrow>
                    \<not> C (it + 1 + j) (take (Suc ?L + j + 1) ?P)" by blast
      have a: "take ?L ?P = tr s"
      proof -
        have "take ?L ?P = take ?L (take (Suc ?L) ?P)" by (simp add: min_def)
        also have "\<dots> = tr s" by (simp only: ih1 pre1)
        finally show ?thesis .
      qed
      have b: "?L \<le> length ?P" using ih2 by simp
      have c: "length ?P - ?L \<le> n - it" using ih2 ih3 lt by arith
      have d: "length ?P - ?L < n - it \<longrightarrow>
                 ?L < length ?P \<and> C (it + (length ?P - ?L) - 1) ?P"
      proof
        assume h: "length ?P - ?L < n - it"
        with ih2 lt have "length ?P - Suc ?L < n - (it + 1)" by arith
        with ih4 have g: "Suc ?L < length ?P" and cc: "C (it + 1 + (length ?P - Suc ?L) - 1) ?P"
          by blast+
        have "it + 1 + (length ?P - Suc ?L) - 1 = it + (length ?P - ?L) - 1" using g by arith
        with cc g show "?L < length ?P \<and> C (it + (length ?P - ?L) - 1) ?P" by simp
      qed
      have e: "\<forall>j. j + 1 < length ?P - ?L \<longrightarrow> \<not> C (it + j) (take (?L + j + 1) ?P)"
      proof (intro allI impI)
        fix j assume h: "j + 1 < length ?P - ?L"
        show "\<not> C (it + j) (take (?L + j + 1) ?P)"
        proof (cases j)
          case 0
          from False have "\<not> C it (tr ?s1)" by (simp add: stop)
          with 0 ih1 show ?thesis by simp
        next
          case (Suc j')
          with h have "j' + 1 < length ?P - Suc ?L" by arith
          with ih5 have "\<not> C (it + 1 + j') (take (Suc ?L + j' + 1) ?P)" by blast
          with Suc show ?thesis by simp
        qed
      qed
      from a b c d e show ?thesis unfolding eq by blast
    qed
  qed
qed

lemma converged_take:
  assumes "j + 2 \<le> length P"
  shows "converged j (take (j + 2) P) = (j > 10 \<and> \<bar>P ! (j + 1) - P ! (j - 8)\<bar> < 0.001)"
proof (cases "j > 10")
  case False then show ?thesis by (simp add: converged_def)
next
  case True
  have l: "length (take (j + 2) P) = j + 2" using assms by simp
  have "take (j + 2) P \<noteq> []" using l by auto
  then have "last (take (j + 2) P) = take (j + 2) P ! (length (take (j + 2) P) - 1)"
    by (rule last_conv_nth)
  then have "last (take (j + 2) P) = P ! (j + 1)"
    unfolding l by simp
  moreover have "take (j + 2) P ! (j + 2 - 10) = P ! (j - 8)"
    using True by simp
  ultimately show ?thesis using True l by (simp add: converged_def)
qed


lemma pso_update_particle_path [simp]:
  "pso_optimization_path (pso_update_particle p features w i st) = pso_optimization_path st"
  by (simp add: pso_update_particle_def Let_def split: prod.splits)

lemma pso_fold_path [simp]:
  "pso_optimization_path (fold (pso_update_particle p features w) xs st) = pso_optimization_path st"
  by (induction xs arbitrary: st) simp_all

lemma pso_iteration_path:
  "pso_optimization_path (pso_iteration p features it st) =
     pso_optimization_path st
       @ [pso_global_best_score (fold (pso_update_particle p features
             (pso_w_init p - (pso_w_init p - pso_w_final p) * (real it / real (pso_max_iterations p))))
             [0..<pso_n_particles p] st)]"
  by (simp add: pso_iteration_def Let_def)

lemma ff_iteration_trace:
  "\<exists>x. ff_convergence (ff_iteration p features st) = ff_convergence st @ [x]"
  by (simp add: ff_iteration_def Let_def split: prod.splits)

lemma pso_path_of_optimize:
  assumes "pso_optimize p features g = Inr st"
  shows "\<exists>st0. length (pso_optimization_path st0) = 1 \<and> st = pso_main_loop p features 0 st0"
  using assms
  apply (auto simp: pso_optimize_def Let_def split: prod.splits if_splits)
  apply (rule exI)
  apply (rule conjI)
   prefer 2
   apply (rule refl)
  apply simp
  done

lemma ff_trace_of_optimize:
  assumes "ff_optimize p features g = Inr st"
  shows "\<exists>st0. length (ff_convergence st0) = 1 \<and> st = ff_main_loop p features 0 st0"
  using assms
  apply (auto simp: ff_optimize_def Let_def split: prod.splits if_splits)
  apply (rule exI)
  apply (rule conjI)
   prefer 2
   apply (rule refl)
  apply simp
  done

lemma stopping_rule_from_trace:
  fixes tr :: "'s \<Rightarrow> real list"
  assumes step: "\<And>it s. length (tr (body it s)) = Suc (length (tr s))
                        \<and> take (length (tr s)) (tr (body it s)) = tr s"
    and l0: "length (tr s0) = 1"
    and P: "P = tr (for_range_break n body (\<lambda>it s. converged it (tr s)) 0 s0)"
  shows "length P - 1 \<le> n
       \<and> (length P - 1 < n \<longrightarrow> converged (length P - 2) P)
       \<and> (\<forall>j. j + 2 < length P \<longrightarrow> \<not> converged j (take (j + 2) P))"
proof -
  note t = for_range_break_trace [of tr body "\<lambda>it s. converged it (tr s)" converged s0 n 0,
      OF step refl, unfolded l0, folded P]
  from t have a: "length P - 1 \<le> n - 0" by blast
  from t have b: "length P - 1 < n - 0 \<longrightarrow> 1 < length P \<and> converged (0 + (length P - 1) - 1) P"
    by blast
  from t have c: "\<forall>j. j + 1 < length P - 1 \<longrightarrow> \<not> converged (0 + j) (take (1 + j + 1) P)"
    by blast
  have c': "\<not> converged j (take (j + 2) P)" if "j + 2 < length P" for j
  proof -
    from that have "j + 1 < length P - 1" by arith
    with c have "\<not> converged (0 + j) (take (1 + j + 1) P)" by blast
    then show ?thesis by (simp add: add.commute)
  qed
  have b': "converged (length P - 2) P" if "length P - 1 < n"
  proof -
    from that b have "converged (0 + (length P - 1) - 1) P" by simp
    moreover have "0 + (length P - 1) - 1 = length P - 2" by arith
    ultimately show ?thesis by simp
  qed
  from a b' c' show ?thesis by simp
qed

lemma pso_stopping_rule:
  assumes "pso_optimize p features g = Inr st"
  shows "length (pso_optimization_path st) - 1 \<le> pso_max_iterations p
       \<and> (length (pso_optimization_path st) - 1 < pso_max_iterations p \<longrightarrow>
            converged (length (pso_optimization_path st) - 2) (pso_optimization_path st))
       \<and> (\<forall>j. j + 2 < length (pso_optimization_path st) \<longrightarrow>
             \<not> converged j (take (j + 2) (pso_optimization_path st)))"
proof -
  from pso_path_of_optimize [OF assms] obtain st0 where
    l0: "length (pso_optimization_path st0) = 1" and st: "st = pso_main_loop p features 0 st0"
    by blast
  have step: "\<And>it s. length (pso_optimization_path (pso_iteration p features it s))
                 = Suc (length (pso_optimization_path s))
               \<and> take (length (pso_optimization_path s))
                    (pso_optimization_path (pso_iteration p features it s))
                 = pso_optimization_path s"
    by (simp add: pso_iteration_path)
  show ?thesis
    by (rule stopping_rule_from_trace [of pso_optimization_path "pso_iteration p features" st0,
          OF step l0])
       (simp add: st pso_main_loop_def)
qed

lemma ff_stopping_rule:
  assumes "ff_optimize p features g = Inr st"
  shows "length (ff_convergence st) - 1 \<le> ff_max_iterations p
       \<and> (length (ff_convergence st) - 1 < ff_max_iterations p \<longrightarrow>
            converged (length (ff_convergence st) - 2) (ff_convergence st))
       \<and> (\<forall>j. j + 2 < length (ff_convergence st) \<longrightarrow>
             \<not> converged j (take (j + 2) (ff_convergence st)))"
proof -
  from ff_trace_of_optimize [OF assms] obtain st0 where
    l0: "length (ff_convergence st0) = 1" and st: "st = ff_main_loop p features 0 st0"
    by blast
  have step: "\<And>it s. length (ff_convergence (ff_iteration p features s))
                 = Suc (length (ff_convergence s))
               \<and> take (length (ff_convergence s)) (ff_convergence (ff_iteration p features s))
                 = ff_convergence s"
  proof -
    fix it :: nat and s
    from ff_iteration_trace [of p features s] obtain x where
      "ff_convergence (ff_iteration p features s) = ff_convergence s @ [x]" by blast
    then show "length (ff_convergence (ff_iteration p features s))
                 = Suc (length (ff_convergence s))
               \<and> take (length (ff_convergence s)) (ff_convergence (ff_iteration p features s))
                 = ff_convergence s" by simp
  qed
  show ?thesis
    by (rule stopping_rule_from_trace [of ff_convergence "\<lambda>it. ff_iteration p features" st0,
          OF step l0])
       (simp add: st ff_main_loop_def)
qed

text \<open>The main loops of the bee colony, the ant colony and the fish school: a run that returns
  has gone through one state per pass, each the result of the loop body on the one before.\<close>

lemma abc_main_loop_trace:
  "abc_main_loop p fv n s0 = Some (Inr st) \<Longrightarrow>
     \<exists>ss. length ss = Suc n \<and> ss ! 0 = s0 \<and> ss ! n = st
        \<and> (\<forall>i<n. abc_iteration p fv (ss ! i) = Some (Inr (ss ! Suc i)))"
proof (induction n arbitrary: st)
  case 0
  then show ?case
    by (intro exI [of _ "[s0]"]) simp
next
  case (Suc n)
  from Suc.prems obtain s1 where m: "abc_main_loop p fv n s0 = Some (Inr s1)"
    and it: "abc_iteration p fv s1 = Some (Inr st)"
    by (auto simp: bindD_def split: option.splits sum.splits)
  from Suc.IH [OF m] obtain ss where ss: "length ss = Suc n" "ss ! 0 = s0" "ss ! n = s1"
    "\<forall>i<n. abc_iteration p fv (ss ! i) = Some (Inr (ss ! Suc i))"
    by blast
  have "\<forall>i<Suc n. abc_iteration p fv ((ss @ [st]) ! i) = Some (Inr ((ss @ [st]) ! Suc i))"
  proof (intro allI impI)
    fix i assume "i < Suc n"
    then show "abc_iteration p fv ((ss @ [st]) ! i) = Some (Inr ((ss @ [st]) ! Suc i))"
      using ss it by (cases "i = n") (simp_all add: nth_append)
  qed
  with ss show ?case
    by (intro exI [of _ "ss @ [st]"]) (simp add: nth_append)
qed

lemma aco_main_loop_trace:
  "aco_main_loop p logs attr n s0 = Inr st \<Longrightarrow>
     \<exists>ss. length ss = Suc n \<and> ss ! 0 = s0 \<and> ss ! n = st
        \<and> (\<forall>i<n. aco_iteration p logs attr (ss ! i) = Inr (ss ! Suc i))"
proof (induction n arbitrary: st)
  case 0
  then show ?case
    by (intro exI [of _ "[s0]"]) simp
next
  case (Suc n)
  from Suc.prems obtain s1 where m: "aco_main_loop p logs attr n s0 = Inr s1"
    and it: "aco_iteration p logs attr s1 = Inr st"
    by (auto split: sum.splits)
  from Suc.IH [OF m] obtain ss where ss: "length ss = Suc n" "ss ! 0 = s0" "ss ! n = s1"
    "\<forall>i<n. aco_iteration p logs attr (ss ! i) = Inr (ss ! Suc i)"
    by blast
  have "\<forall>i<Suc n. aco_iteration p logs attr ((ss @ [st]) ! i) = Inr ((ss @ [st]) ! Suc i)"
  proof (intro allI impI)
    fix i assume "i < Suc n"
    then show "aco_iteration p logs attr ((ss @ [st]) ! i) = Inr ((ss @ [st]) ! Suc i)"
      using ss it by (cases "i = n") (simp_all add: nth_append)
  qed
  with ss show ?case
    by (intro exI [of _ "ss @ [st]"]) (simp add: nth_append)
qed

lemma fss_main_loop_trace:
  "\<exists>ss. length ss = Suc n \<and> ss ! 0 = s0 \<and> ss ! n = fss_main_loop p features n s0
      \<and> (\<forall>i<n. ss ! Suc i = fss_iteration p features i (ss ! i))"
proof (induction n)
  case 0
  show ?case
    by (intro exI [of _ "[s0]"]) simp
next
  case (Suc n)
  then obtain ss where ss: "length ss = Suc n" "ss ! 0 = s0"
    "ss ! n = fss_main_loop p features n s0"
    "\<forall>i<n. ss ! Suc i = fss_iteration p features i (ss ! i)"
    by blast
  let ?st = "fss_main_loop p features (Suc n) s0"
  have "\<forall>i<Suc n. (ss @ [?st]) ! Suc i = fss_iteration p features i ((ss @ [?st]) ! i)"
  proof (intro allI impI)
    fix i assume "i < Suc n"
    then show "(ss @ [?st]) ! Suc i = fss_iteration p features i ((ss @ [?st]) ! i)"
      using ss by (cases "i = n") (simp_all add: nth_append)
  qed
  with ss show ?case
    by (intro exI [of _ "ss @ [?st]"]) (simp add: nth_append)
qed

lemma pso_stationary_pass:
  assumes p: "pso_n_particles p = 1"
    and f: "f = pso_evaluate_fitness (replicate 15 (1 / 2)) features"
  shows "pso_iteration p features it
      \<lparr>pso_positions = [replicate 15 (1 / 2)], pso_velocities = [replicate 15 0],
       pso_personal_best_positions = [replicate 15 (1 / 2)],
       pso_personal_best_scores = [f], pso_global_best_position = replicate 15 (1 / 2),
       pso_global_best_score = f, pso_optimization_path = path, pso_rng = witness_gens\<rparr>
    = \<lparr>pso_positions = [replicate 15 (1 / 2)], pso_velocities = [replicate 15 0],
       pso_personal_best_positions = [replicate 15 (1 / 2)],
       pso_personal_best_scores = [f], pso_global_best_position = replicate 15 (1 / 2),
       pso_global_best_score = f, pso_optimization_path = path @ [f], pso_rng = witness_gens\<rparr>"
  using p f
  by (simp add: pso_iteration_def pso_update_particle_def np_rand_np_const [where b = "1 / 2"]
      np_clip_def Let_def)

lemma pso_stationary_run:
  "pso_optimize (pso_default\<lparr>pso_n_particles := 1\<rparr>) features witness_gens =
     Inr \<lparr>pso_positions = [replicate 15 (1 / 2)], pso_velocities = [replicate 15 0],
       pso_personal_best_positions = [replicate 15 (1 / 2)],
       pso_personal_best_scores = [pso_evaluate_fitness (replicate 15 (1 / 2)) features],
       pso_global_best_position = replicate 15 (1 / 2),
       pso_global_best_score = pso_evaluate_fitness (replicate 15 (1 / 2)) features,
       pso_optimization_path = replicate 13 (pso_evaluate_fitness (replicate 15 (1 / 2)) features),
       pso_rng = witness_gens\<rparr>"
  apply (simp add: pso_optimize_def np_uniform_matrix_np_const [where b = "1 / 2"]
      pso_dimensions_def Let_def pso_main_loop_def del: np_uniform_matrix.simps)
  apply (subst for_range_break.simps,
         simp add: pso_stationary_pass pso_default_def converged_def)+
  apply (simp add: eval_nat_numeral)
  done

lemma ff_stationary_pass:
  assumes p: "ff_n_fireflies p = 1"
    and f: "f = ff_evaluate_fitness (replicate 16 (1 / 2)) features"
  shows "ff_iteration p features
      \<lparr>ff_fireflies = [replicate 16 (1 / 2)], ff_brightness = [f],
       ff_best_position = replicate 16 (1 / 2), ff_best_fitness = f,
       ff_convergence = trace, ff_cur_alpha = a, ff_rng = witness_gens\<rparr>
    = \<lparr>ff_fireflies = [replicate 16 (1 / 2)], ff_brightness = [f],
       ff_best_position = replicate 16 (1 / 2), ff_best_fitness = f,
       ff_convergence = trace @ [f], ff_cur_alpha = a * ff_alpha_decay p, ff_rng = witness_gens\<rparr>"
  using p f
  by (simp add: ff_iteration_def ff_pairs_def np_clip_def Let_def)

lemma ff_stationary_run:
  "\<exists>a. ff_optimize (firefly_default\<lparr>ff_n_fireflies := 1\<rparr>) features witness_gens =
     Inr \<lparr>ff_fireflies = [replicate 16 (1 / 2)],
       ff_brightness = [ff_evaluate_fitness (replicate 16 (1 / 2)) features],
       ff_best_position = replicate 16 (1 / 2),
       ff_best_fitness = ff_evaluate_fitness (replicate 16 (1 / 2)) features,
       ff_convergence = replicate 13 (ff_evaluate_fitness (replicate 16 (1 / 2)) features),
       ff_cur_alpha = a, ff_rng = witness_gens\<rparr>"
  apply (simp add: ff_optimize_def np_uniform_matrix_np_const [where b = "1 / 2"]
      ff_dimensions_def Let_def ff_main_loop_def del: np_uniform_matrix.simps)
  apply (subst for_range_break.simps,
         simp add: ff_stationary_pass firefly_default_def converged_def)+
  apply (simp add: eval_nat_numeral)
  apply (rule exI [of _ "693842360995438000295041 / 2000000000000000000000000"])
  apply simp
  done

lemma aco_single_ant:
  assumes "length logs = 1" and "0 < a" and "np_stream g = (\<lambda>_. 1 / 2)"
  shows "aco_ant p logs ph [a] ant (finished, g) = (finished @ [([0], a)], g)"
  using assms
  by (simp add: aco_ant_def aco_select_starting_node_def np_choice_def
      np_random_np_const [where b = "1 / 2"] Let_def)

lemma aco_single_ants:
  assumes "length logs = 1" and "0 < a" and "np_stream g = (\<lambda>_. 1 / 2)"
  shows "fold (aco_ant p logs ph [a]) [0..<n] (finished, g) = (finished @ replicate n ([0], a), g)"
  by (induction n) (simp_all add: aco_single_ant [OF assms] replicate_append_same)

lemma np_argmax_replicate: "np_argmax (replicate n a) = 0"
proof (induction n)
  case 0 show ?case by simp
next
  case (Suc n)
  then show ?case by (cases n) simp_all
qed

lemma aco_deposit_single: "fold (\<lambda>(path, score). aco_deposit score path) (replicate n ([0], a)) ph = ph"
  by (induction n) simp_all

lemma aco_single_iteration:
  assumes "length logs = 1" and "0 < a" and "np_stream (aco_rng st) = (\<lambda>_. 1 / 2)"
    and "0 < aco_num_ants p"
  shows "aco_iteration p logs [a] st =
     Inr \<lparr>aco_pheromones = (\<lambda>i j. aco_pheromones st i j * (1 - aco_evaporation p)),
          aco_best_path = (if a > aco_best_score st then [0] else aco_best_path st),
          aco_best_score = (if a > aco_best_score st then a else aco_best_score st),
          aco_rng = aco_rng st\<rparr>"
proof -
  have ants: "fold (aco_ant p logs (aco_pheromones st) [a]) [0..<aco_num_ants p] ([], aco_rng st)
      = (replicate (aco_num_ants p) ([0], a), aco_rng st)"
    using aco_single_ants [OF assms(1-3), of p "aco_pheromones st" "aco_num_ants p" "[]"] by simp
  show ?thesis
    unfolding aco_iteration_def ants
    using assms(4) by (simp add: Let_def np_argmax_replicate aco_deposit_single del: fold_replicate)
qed

lemma aco_single_run:
  assumes "length logs = 1" and "0 < a" and "np_stream g = (\<lambda>_. 1 / 2)"
    and "0 < aco_num_ants p"
  shows "aco_main_loop p logs [a] (Suc k) (aco_initial_state g) =
     Inr \<lparr>aco_pheromones = (\<lambda>i j. 0.1 * (1 - aco_evaporation p) ^ Suc k),
          aco_best_path = [0], aco_best_score = a, aco_rng = g\<rparr>"
proof (induction k)
  case 0
  show ?case
    using assms by (simp add: aco_single_iteration aco_initial_state_def)
next
  case (Suc k)
  have "aco_main_loop p logs [a] (Suc (Suc k)) (aco_initial_state g) =
      aco_iteration p logs [a]
        \<lparr>aco_pheromones = (\<lambda>i j. 0.1 * (1 - aco_evaporation p) ^ Suc k),
         aco_best_path = [0], aco_best_score = a, aco_rng = g\<rparr>"
    by (subst aco_main_loop.simps(2)) (simp add: Suc del: aco_main_loop.simps)
  then show ?case
    using assms by (simp add: aco_single_iteration mult_ac del: aco_main_loop.simps)
qed

text \<open>
  C5 as stated fails twice.  The particle swarm with one particle, on the high-risk entry
  and with numpy draws of 0.5, records the same best fitness thirteen times: the fitness is
  unchanged from the start, yet the loop only stops after its twelfth pass (pass number
  11), not after the tenth.  The ant colony has no stopping rule at all: on the same entry
  its best score is 17/25 after the second pass and still 17/25 after the twelfth, and the
  loop goes on to its fiftieth pass all the same, as the pheromone value, which every pass
  multiplies by 0.9, shows.
\<close>

theorem loops_run_past_convergence:
  "map_sum id pso_optimization_path
     (pso_optimize (pso_default\<lparr>pso_n_particles := 1\<rparr>)
        (fst (pso_extract_features [high_risk_log])) witness_gens)
     = Inr (replicate 13 (pso_evaluate_fitness (replicate 15 (1 / 2))
                            (fst (pso_extract_features [high_risk_log]))))
   \<and> 12 < pso_max_iterations (pso_default\<lparr>pso_n_particles := 1\<rparr>)
   \<and> map_sum id aco_best_score
     (aco_main_loop aco_default high_risk_processed
        (aco_calculate_node_attractiveness high_risk_processed)
        2 (aco_initial_state witness_gens)) = Inr (17 / 25)
   \<and> map_sum id aco_best_score
     (aco_main_loop aco_default high_risk_processed
        (aco_calculate_node_attractiveness high_risk_processed)
        12 (aco_initial_state witness_gens)) = Inr (17 / 25)
   \<and> 12 < aco_iterations aco_default
   \<and> map_sum id (\<lambda>st. aco_pheromones st 0 0)
     (aco_main_loop aco_default high_risk_processed
        (aco_calculate_node_attractiveness high_risk_processed)
        12 (aco_initial_state witness_gens)) = Inr (0.1 * 0.9 ^ 12)
   \<and> map_sum id (\<lambda>st. aco_pheromones st 0 0)
     (aco_main_loop aco_default high_risk_processed
        (aco_calculate_node_attractiveness high_risk_processed)
        (aco_iterations aco_default) (aco_initial_state witness_gens)) = Inr (0.1 * 0.9 ^ 50)"
proof -
  have len: "length high_risk_processed = 1"
    by (simp add: high_risk_processed_def)
  have ants: "0 < aco_num_ants aco_default" and ev: "1 - aco_evaporation aco_default = 0.9"
    and its: "aco_iterations aco_default = Suc 49"
    by (simp_all add: aco_default_def)
  have pos: "(0::real) < 17 / 25" by simp
  note run = aco_single_run [OF len pos witness_gens_np ants, unfolded ev]
  have two: "(2::nat) = Suc 1" and twelve: "(12::nat) = Suc 11" by simp_all
  have aco: "map_sum id aco_best_score
     (aco_main_loop aco_default high_risk_processed
        (aco_calculate_node_attractiveness high_risk_processed)
        2 (aco_initial_state witness_gens)) = Inr (17 / 25)
   \<and> map_sum id aco_best_score
     (aco_main_loop aco_default high_risk_processed
        (aco_calculate_node_attractiveness high_risk_processed)
        12 (aco_initial_state witness_gens)) = Inr (17 / 25)
   \<and> 12 < aco_iterations aco_default
   \<and> map_sum id (\<lambda>st. aco_pheromones st 0 0)
     (aco_main_loop aco_default high_risk_processed
        (aco_calculate_node_attractiveness high_risk_processed)
        12 (aco_initial_state witness_gens)) = Inr (0.1 * 0.9 ^ 12)
   \<and> map_sum id (\<lambda>st. aco_pheromones st 0 0)
     (aco_main_loop aco_default high_risk_processed
        (aco_calculate_node_attractiveness high_risk_processed)
        (aco_iterations aco_default) (aco_initial_state witness_gens)) = Inr (0.1 * 0.9 ^ 50)"
    unfolding aco_high_risk_attractiveness its
    unfolding two twelve run
    by simp
  have pso: "map_sum id pso_optimization_path
     (pso_optimize (pso_default\<lparr>pso_n_particles := 1\<rparr>)
        (fst (pso_extract_features [high_risk_log])) witness_gens)
     = Inr (replicate 13 (pso_evaluate_fitness (replicate 15 (1 / 2))
                            (fst (pso_extract_features [high_risk_log]))))"
    unfolding pso_stationary_run by simp
  have "12 < pso_max_iterations (pso_default\<lparr>pso_n_particles := 1\<rparr>)"
    by (simp add: pso_default_def)
  with pso aco show ?thesis
    by (intro conjI) simp_all
qed

text \<open>
  C5, amended.  Number the passes of a main loop from 0.  The particle swarm and the
  firefly strategy record the best fitness once before the loop and once per pass.  Their
  loops run at most \<open>max_iterations\<close> passes, and they stop earlier exactly when, after a pass
  numbered above 10, the best fitness has changed by less than 0.001 over the trailing ten
  recorded values: if a run made fewer passes, that test held after its last pass, and it
  held after no earlier pass.  The loops of the bee colony, the ant colony and the fish
  school do not have this rule: a run that returns has made every one of its
  \<open>max_iterations\<close> (\<open>iterations\<close>) passes, each pass starting from the state the pass before
  it returned.
\<close>

theorem main_loops_stopping_rule:
  "(pso_optimize pp fp gp = Inr sp \<longrightarrow>
      length (pso_optimization_path sp) - 1 \<le> pso_max_iterations pp
    \<and> (length (pso_optimization_path sp) - 1 < pso_max_iterations pp \<longrightarrow>
         converged (length (pso_optimization_path sp) - 2) (pso_optimization_path sp))
    \<and> (\<forall>j. j + 2 < length (pso_optimization_path sp) \<longrightarrow>
          \<not> converged j (take (j + 2) (pso_optimization_path sp))))
   \<and> (ff_optimize pq fq gq = Inr sq \<longrightarrow>
      length (ff_convergence sq) - 1 \<le> ff_max_iterations pq
    \<and> (length (ff_convergence sq) - 1 < ff_max_iterations pq \<longrightarrow>
         converged (length (ff_convergence sq) - 2) (ff_convergence sq))
    \<and> (\<forall>j. j + 2 < length (ff_convergence sq) \<longrightarrow>
          \<not> converged j (take (j + 2) (ff_convergence sq))))
   \<and> (abc_optimize pb fb gb = Some (Inr sb) \<longrightarrow>
        (\<exists>ss. length ss = Suc (abc_max_iterations pb) \<and> ss ! 0 = abc_initial_state pb gb
            \<and> ss ! abc_max_iterations pb = sb
            \<and> (\<forall>i<abc_max_iterations pb.
                  abc_iteration pb fb (ss ! i) = Some (Inr (ss ! Suc i)))))
   \<and> (aco_main_loop pa logs attr (aco_iterations pa) (aco_initial_state ga) = Inr sa \<longrightarrow>
        (\<exists>ss. length ss = Suc (aco_iterations pa) \<and> ss ! 0 = aco_initial_state ga
            \<and> ss ! aco_iterations pa = sa
            \<and> (\<forall>i<aco_iterations pa. aco_iteration pa logs attr (ss ! i) = Inr (ss ! Suc i))))
   \<and> (\<exists>ss. length ss = Suc (fss_iterations ps) \<and> ss ! 0 = fss_initial_state ps gs
          \<and> ss ! fss_iterations ps = fss_optimize ps fs gs
          \<and> (\<forall>i<fss_iterations ps. ss ! Suc i = fss_iteration ps fs i (ss ! i)))"
proof -
  have pso: "pso_optimize pp fp gp = Inr sp \<longrightarrow>
      length (pso_optimization_path sp) - 1 \<le> pso_max_iterations pp
    \<and> (length (pso_optimization_path sp) - 1 < pso_max_iterations pp \<longrightarrow>
         converged (length (pso_optimization_path sp) - 2) (pso_optimization_path sp))
    \<and> (\<forall>j. j + 2 < length (pso_optimization_path sp) \<longrightarrow>
          \<not> converged j (take (j + 2) (pso_optimization_path sp)))"
    by (rule impI) (rule pso_stopping_rule)
  have ff: "ff_optimize pq fq gq = Inr sq \<longrightarrow>
      length (ff_convergence sq) - 1 \<le> ff_max_iterations pq
    \<and> (length (ff_convergence sq) - 1 < ff_max_iterations pq \<longrightarrow>
         converged (length (ff_convergence sq) - 2) (ff_convergence sq))
    \<and> (\<forall>j. j + 2 < length (ff_convergence sq) \<longrightarrow>
          \<not> converged j (take (j + 2) (ff_convergence sq)))"
    by (rule impI) (rule ff_stopping_rule)
  have abc: "abc_optimize pb fb gb = Some (Inr sb) \<longrightarrow>
        (\<exists>ss. length ss = Suc (abc_max_iterations pb) \<and> ss ! 0 = abc_initial_state pb gb
            \<and> ss ! abc_max_iterations pb = sb
            \<and> (\<forall>i<abc_max_iterations pb.
                  abc_iteration pb fb (ss ! i) = Some (Inr (ss ! Suc i))))"
    unfolding abc_optimize_def by (rule impI) (rule abc_main_loop_trace)
  have aco: "aco_main_loop pa logs attr (aco_iterations pa) (aco_initial_state ga) = Inr sa \<longrightarrow>
        (\<exists>ss. length ss = Suc (aco_iterations pa) \<and> ss ! 0 = aco_initial_state ga
            \<and> ss ! aco_iterations pa = sa
            \<and> (\<forall>i<aco_iterations pa. aco_iteration pa logs attr (ss ! i) = Inr (ss ! Suc i)))"
    by (rule impI) (rule aco_main_loop_trace)
  have fss: "\<exists>ss. length ss = Suc (fss_iterations ps) \<and> ss ! 0 = fss_initial_state ps gs
          \<and> ss ! fss_iterations ps = fss_optimize ps fs gs
          \<and> (\<forall>i<fss_iterations ps. ss ! Suc i = fss_iteration ps fs i (ss ! i))"
    unfolding fss_optimize_def by (rule fss_main_loop_trace)
  show ?thesis
    by (rule conjI [OF pso conjI [OF ff conjI [OF abc conjI [OF aco fss]]]])
qed

lemma fss_keeps_failed_login: "fst (fss_extract_features [failed_login]) \<noteq> []"
  by (simp add: fss_extract_features_def failed_login_def empty_log_def)

theorem main_loops_stopping_rule_witness:
  "(\<exists>sp. pso_optimize (pso_default\<lparr>pso_n_particles := 1\<rparr>)
            (fst (pso_extract_features [high_risk_log])) witness_gens = Inr sp
       \<and> length (pso_optimization_path sp) - 1 = 12
       \<and> 12 < pso_max_iterations (pso_default\<lparr>pso_n_particles := 1\<rparr>)
       \<and> converged 11 (pso_optimization_path sp)
       \<and> \<not> converged 10 (take 12 (pso_optimization_path sp)))
   \<and> (\<exists>sq. ff_optimize (firefly_default\<lparr>ff_n_fireflies := 1\<rparr>)
            (fst (ff_extract_features no_calendar [high_risk_log])) witness_gens = Inr sq
       \<and> length (ff_convergence sq) - 1 = 12
       \<and> 12 < ff_max_iterations (firefly_default\<lparr>ff_n_fireflies := 1\<rparr>)
       \<and> converged 11 (ff_convergence sq)
       \<and> \<not> converged 10 (take 12 (ff_convergence sq)))
   \<and> (\<exists>sb ss. abc_optimize abc_default (abc_extract_features [high_risk_log]) fair_gens
                 = Some (Inr sb)
       \<and> length ss = 51 \<and> ss ! 0 = abc_initial_state abc_default fair_gens \<and> ss ! 50 = sb
       \<and> abc_iteration abc_default (abc_extract_features [high_risk_log]) (ss ! 0)
            = Some (Inr (ss ! 1))
       \<and> abc_iteration abc_default (abc_extract_features [high_risk_log]) (ss ! 49)
            = Some (Inr (ss ! 50)))
   \<and> (\<exists>sa ss. aco_main_loop aco_default high_risk_processed
                 (aco_calculate_node_attractiveness high_risk_processed)
                 (aco_iterations aco_default) (aco_initial_state witness_gens) = Inr sa
       \<and> length ss = 51 \<and> ss ! 0 = aco_initial_state witness_gens \<and> ss ! 50 = sa
       \<and> aco_iteration aco_default high_risk_processed
            (aco_calculate_node_attractiveness high_risk_processed) (ss ! 0) = Inr (ss ! 1)
       \<and> aco_iteration aco_default high_risk_processed
            (aco_calculate_node_attractiveness high_risk_processed) (ss ! 49) = Inr (ss ! 50))
   \<and> (\<exists>ss. fst (fss_extract_features [failed_login]) \<noteq> []
       \<and> length ss = 51 \<and> ss ! 0 = fss_initial_state fss_default witness_gens
       \<and> ss ! 50 = fss_optimize fss_default (fst (fss_extract_features [failed_login]))
                      witness_gens
       \<and> ss ! 1 = fss_iteration fss_default (fst (fss_extract_features [failed_login])) 0 (ss ! 0)
       \<and> ss ! 50 = fss_iteration fss_default (fst (fss_extract_features [failed_login])) 49
                      (ss ! 49))"
proof -
  define sp where "sp = projr (pso_optimize (pso_default\<lparr>pso_n_particles := 1\<rparr>)
      (fst (pso_extract_features [high_risk_log])) witness_gens)"
  define sq where "sq = projr (ff_optimize (firefly_default\<lparr>ff_n_fireflies := 1\<rparr>)
      (fst (ff_extract_features no_calendar [high_risk_log])) witness_gens)"
  have hp: "pso_optimize (pso_default\<lparr>pso_n_particles := 1\<rparr>)
      (fst (pso_extract_features [high_risk_log])) witness_gens = Inr sp"
    unfolding sp_def pso_stationary_run by simp
  have lp: "length (pso_optimization_path sp) = 13"
    unfolding sp_def pso_stationary_run by simp
  obtain a where run: "ff_optimize (firefly_default\<lparr>ff_n_fireflies := 1\<rparr>)
      (fst (ff_extract_features no_calendar [high_risk_log])) witness_gens =
      Inr \<lparr>ff_fireflies = [replicate 16 (1 / 2)],
        ff_brightness = [ff_evaluate_fitness (replicate 16 (1 / 2))
                           (fst (ff_extract_features no_calendar [high_risk_log]))],
        ff_best_position = replicate 16 (1 / 2),
        ff_best_fitness = ff_evaluate_fitness (replicate 16 (1 / 2))
                            (fst (ff_extract_features no_calendar [high_risk_log])),
        ff_convergence = replicate 13 (ff_evaluate_fitness (replicate 16 (1 / 2))
                                          (fst (ff_extract_features no_calendar [high_risk_log]))),
        ff_cur_alpha = a, ff_rng = witness_gens\<rparr>"
    using ff_stationary_run [of "fst (ff_extract_features no_calendar [high_risk_log])"]
    by (elim exE)
  have hq: "ff_optimize (firefly_default\<lparr>ff_n_fireflies := 1\<rparr>)
      (fst (ff_extract_features no_calendar [high_risk_log])) witness_gens = Inr sq"
    unfolding sq_def run by simp
  have lq: "length (ff_convergence sq) = 13"
    unfolding sq_def run by simp
  have size: "abc_colony_size abc_default = 20" and bits: "abc_max_iterations abc_default = 50"
    and aits: "aco_iterations aco_default = 50" and fits: "fss_iterations fss_default = 50"
    and ants: "0 < aco_num_ants aco_default"
    by (simp_all add: abc_default_def aco_default_def fss_default_def)
  have fair: "py_fair (abc_colony_size abc_default) fair_gens"
    unfolding size by (rule fair_gens_fair)
  from abc_optimize_returns [OF fair, of "abc_extract_features [high_risk_log]"] size
  obtain sb where hb: "abc_optimize abc_default (abc_extract_features [high_risk_log]) fair_gens
      = Some (Inr sb)"
    by auto
  from aco_main_loop_returns [OF ants, of high_risk_processed
      "aco_calculate_node_attractiveness high_risk_processed" "aco_iterations aco_default"
      "aco_initial_state witness_gens"]
  obtain sa where ha: "aco_main_loop aco_default high_risk_processed
      (aco_calculate_node_attractiveness high_risk_processed)
      (aco_iterations aco_default) (aco_initial_state witness_gens) = Inr sa"
    by blast
  note main = main_loops_stopping_rule [of "pso_default\<lparr>pso_n_particles := 1\<rparr>"
      "fst (pso_extract_features [high_risk_log])" witness_gens sp
      "firefly_default\<lparr>ff_n_fireflies := 1\<rparr>"
      "fst (ff_extract_features no_calendar [high_risk_log])" witness_gens sq
      abc_default "abc_extract_features [high_risk_log]" fair_gens sb
      aco_default high_risk_processed "aco_calculate_node_attractiveness high_risk_processed"
      witness_gens sa
      fss_default witness_gens "fst (fss_extract_features [failed_login])"]
  note cp = main [THEN conjunct1, THEN mp, OF hp]
  note cq = main [THEN conjunct2, THEN conjunct1, THEN mp, OF hq]
  note cb = main [THEN conjunct2, THEN conjunct2, THEN conjunct1, THEN mp, OF hb]
  note ca = main [THEN conjunct2, THEN conjunct2, THEN conjunct2, THEN conjunct1, THEN mp, OF ha]
  note cf = main [THEN conjunct2, THEN conjunct2, THEN conjunct2, THEN conjunct2]
  have p1: "converged 11 (pso_optimization_path sp)"
    using cp [THEN conjunct2, THEN conjunct1] by (simp add: lp pso_default_def)
  have p2: "\<not> converged 10 (take 12 (pso_optimization_path sp))"
    using cp [THEN conjunct2, THEN conjunct2, THEN spec, of 10] by (simp add: lp)
  have q1: "converged 11 (ff_convergence sq)"
    using cq [THEN conjunct2, THEN conjunct1] by (simp add: lq firefly_default_def)
  have q2: "\<not> converged 10 (take 12 (ff_convergence sq))"
    using cq [THEN conjunct2, THEN conjunct2, THEN spec, of 10] by (simp add: lq)
  have ep: "\<exists>sp. pso_optimize (pso_default\<lparr>pso_n_particles := 1\<rparr>)
            (fst (pso_extract_features [high_risk_log])) witness_gens = Inr sp
       \<and> length (pso_optimization_path sp) - 1 = 12
       \<and> 12 < pso_max_iterations (pso_default\<lparr>pso_n_particles := 1\<rparr>)
       \<and> converged 11 (pso_optimization_path sp)
       \<and> \<not> converged 10 (take 12 (pso_optimization_path sp))"
    using hp p1 p2 by (intro exI [of _ sp]) (simp add: lp pso_default_def)
  have eq: "\<exists>sq. ff_optimize (firefly_default\<lparr>ff_n_fireflies := 1\<rparr>)
            (fst (ff_extract_features no_calendar [high_risk_log])) witness_gens = Inr sq
       \<and> length (ff_convergence sq) - 1 = 12
       \<and> 12 < ff_max_iterations (firefly_default\<lparr>ff_n_fireflies := 1\<rparr>)
       \<and> converged 11 (ff_convergence sq)
       \<and> \<not> converged 10 (take 12 (ff_convergence sq))"
    using hq q1 q2 by (intro exI [of _ sq]) (simp add: lq firefly_default_def)
  from cb obtain ssb where ssb: "length ssb = Suc (abc_max_iterations abc_default)"
    "ssb ! 0 = abc_initial_state abc_default fair_gens"
    "ssb ! abc_max_iterations abc_default = sb"
    "\<forall>i<abc_max_iterations abc_default.
        abc_iteration abc_default (abc_extract_features [high_risk_log]) (ssb ! i)
          = Some (Inr (ssb ! Suc i))"
    by blast
  have eb: "\<exists>sb ss. abc_optimize abc_default (abc_extract_features [high_risk_log]) fair_gens
                 = Some (Inr sb)
       \<and> length ss = 51 \<and> ss ! 0 = abc_initial_state abc_default fair_gens \<and> ss ! 50 = sb
       \<and> abc_iteration abc_default (abc_extract_features [high_risk_log]) (ss ! 0)
            = Some (Inr (ss ! 1))
       \<and> abc_iteration abc_default (abc_extract_features [high_risk_log]) (ss ! 49)
            = Some (Inr (ss ! 50))"
    using hb ssb(1,2,3) ssb(4) [THEN spec, of 0] ssb(4) [THEN spec, of 49]
    by (intro exI [of _ sb] exI [of _ ssb]) (simp add: bits)
  from ca obtain ssa where ssa: "length ssa = Suc (aco_iterations aco_default)"
    "ssa ! 0 = aco_initial_state witness_gens"
    "ssa ! aco_iterations aco_default = sa"
    "\<forall>i<aco_iterations aco_default.
        aco_iteration aco_default high_risk_processed
          (aco_calculate_node_attractiveness high_risk_processed) (ssa ! i) = Inr (ssa ! Suc i)"
    by blast
  have ea: "\<exists>sa ss. aco_main_loop aco_default high_risk_processed
                 (aco_calculate_node_attractiveness high_risk_processed)
                 (aco_iterations aco_default) (aco_initial_state witness_gens) = Inr sa
       \<and> length ss = 51 \<and> ss ! 0 = aco_initial_state witness_gens \<and> ss ! 50 = sa
       \<and> aco_iteration aco_default high_risk_processed
            (aco_calculate_node_attractiveness high_risk_processed) (ss ! 0) = Inr (ss ! 1)
       \<and> aco_iteration aco_default high_risk_processed
            (aco_calculate_node_attractiveness high_risk_processed) (ss ! 49) = Inr (ss ! 50)"
    using ha ssa(1,2,3) ssa(4) [THEN spec, of 0] ssa(4) [THEN spec, of 49]
    by (intro exI [of _ sa] exI [of _ ssa]) (simp add: aits)
  from cf obtain ssf where ssf: "length ssf = Suc (fss_iterations fss_default)"
    "ssf ! 0 = fss_initial_state fss_default witness_gens"
    "ssf ! fss_iterations fss_default
       = fss_optimize fss_default (fst (fss_extract_features [failed_login])) witness_gens"
    "\<forall>i<fss_iterations fss_default.
        ssf ! Suc i = fss_iteration fss_default (fst (fss_extract_features [failed_login])) i
                        (ssf ! i)"
    by blast
  have ef: "\<exists>ss. fst (fss_extract_features [failed_login]) \<noteq> []
       \<and> length ss = 51 \<and> ss ! 0 = fss_initial_state fss_default witness_gens
       \<and> ss ! 50 = fss_optimize fss_default (fst (fss_extract_features [failed_login]))
                      witness_gens
       \<and> ss ! 1 = fss_iteration fss_default (fst (fss_extract_features [failed_login])) 0 (ss ! 0)
       \<and> ss ! 50 = fss_iteration fss_default (fst (fss_extract_features [failed_login])) 49
                      (ss ! 49)"
    using fss_keeps_failed_login ssf(1,2,3) ssf(4) [THEN spec, of 0] ssf(4) [THEN spec, of 49]
    by (intro exI [of _ ssf]) (simp add: fits)
  show ?thesis
    by (rule conjI [OF ep conjI [OF eq conjI [OF eb conjI [OF ea ef]]]])
qed

section \<open>The pheromone matrix\<close>




























section \<open>Termination of the bee-colony analysis\<close>

lemma abc_main_loop_diverges:
  "abc_iteration p fv st = None \<Longrightarrow> abc_main_loop p fv (Suc k) st = None"
  by (induction k) (simp_all add: bindD_def)

lemma abc_redraw_other_stuck:
  assumes "abc_redraw_other n index other g = Some y"
  shows "\<not> (other = index \<and> (\<forall>k. nat \<lfloor>py_stream g k * real n\<rfloor> = index))"
proof (rule abc_redraw_other.raw_induct
    [where P = "\<lambda>n index other g y.
       \<not> (other = index \<and> (\<forall>k. nat \<lfloor>py_stream g k * real n\<rfloor> = index))", OF _ assms])
  fix redraw :: "nat \<Rightarrow> nat \<Rightarrow> nat \<Rightarrow> gens \<Rightarrow> (nat \<times> gens) option"
    and n index other :: nat and g :: gens and y :: "nat \<times> gens"
  assume IH: "\<And>n index other g y. redraw n index other g = Some y \<Longrightarrow>
      \<not> (other = index \<and> (\<forall>k. nat \<lfloor>py_stream g k * real n\<rfloor> = index))"
    and eq: "(if other = index
              then let (other', g') = py_randrange n g in redraw n index other' g'
              else Some (other, g)) = Some y"
  show "\<not> (other = index \<and> (\<forall>k. nat \<lfloor>py_stream g k * real n\<rfloor> = index))"
  proof
    assume a: "other = index \<and> (\<forall>k. nat \<lfloor>py_stream g k * real n\<rfloor> = index)"
    then have "redraw n index (fst (py_randrange n g)) (snd (py_randrange n g)) = Some y"
      using eq by (simp add: case_prod_beta)
    from IH [OF this] a show False
      by (simp add: py_randrange_def py_random_def)
  qed
qed

lemma abc_redraw_other_diverges:
  assumes "\<forall>k. nat \<lfloor>py_stream g k * real n\<rfloor> = index"
  shows "abc_redraw_other n index index g = None"
  using abc_redraw_other_stuck [of n index index g] assms
  by (cases "abc_redraw_other n index index g") auto

lemma abc_onlooker_phase_stuck:
  assumes "abc_onlooker_phase fv probabilities i count st = Some y"
  shows "\<not> (count < length (abc_food_sources st) \<and> i < length probabilities
            \<and> length probabilities = length (abc_food_sources st)
            \<and> (\<forall>k. \<forall>x\<in>set probabilities. x \<le> py_stream (abc_rng st) k))"
proof (rule abc_onlooker_phase.raw_induct
    [where P = "\<lambda>fv probabilities i count st y.
       \<not> (count < length (abc_food_sources st) \<and> i < length probabilities
            \<and> length probabilities = length (abc_food_sources st)
            \<and> (\<forall>k. \<forall>x\<in>set probabilities. x \<le> py_stream (abc_rng st) k))", OF _ assms])
  fix onlooker :: "real list list \<Rightarrow> real list \<Rightarrow> nat \<Rightarrow> nat \<Rightarrow> abc_state \<Rightarrow> abc_state option"
    and fv :: "real list list" and probabilities :: "real list" and i count :: nat
    and st y :: abc_state
  assume IH: "\<And>fv probabilities i count st y. onlooker fv probabilities i count st = Some y \<Longrightarrow>
      \<not> (count < length (abc_food_sources st) \<and> i < length probabilities
            \<and> length probabilities = length (abc_food_sources st)
            \<and> (\<forall>k. \<forall>x\<in>set probabilities. x \<le> py_stream (abc_rng st) k))"
    and eq: "(if count < length (abc_food_sources st) then
        (let (r, g) = py_random (abc_rng st) in
         if r < probabilities ! i then
           (case abc_visit fv i (st\<lparr>abc_rng := g\<rparr>) of
              None \<Rightarrow> None
            | Some st' \<Rightarrow>
                onlooker fv probabilities
                  ((i + 1) mod length (abc_food_sources st')) (count + 1) st')
         else onlooker fv probabilities
                ((i + 1) mod length (abc_food_sources st)) count (st\<lparr>abc_rng := g\<rparr>))
      else Some st) = Some y"
  show "\<not> (count < length (abc_food_sources st) \<and> i < length probabilities
            \<and> length probabilities = length (abc_food_sources st)
            \<and> (\<forall>k. \<forall>x\<in>set probabilities. x \<le> py_stream (abc_rng st) k))"
  proof
    assume a: "count < length (abc_food_sources st) \<and> i < length probabilities
            \<and> length probabilities = length (abc_food_sources st)
            \<and> (\<forall>k. \<forall>x\<in>set probabilities. x \<le> py_stream (abc_rng st) k)"
    then have "probabilities ! i \<le> py_stream (abc_rng st) 0"
      by (simp add: nth_mem)
    then have "\<not> fst (py_random (abc_rng st)) < probabilities ! i"
      by (simp add: py_random_def)
    with a eq have step: "onlooker fv probabilities ((i + 1) mod length (abc_food_sources st)) count
        (st\<lparr>abc_rng := snd (py_random (abc_rng st))\<rparr>) = Some y"
      by (simp add: case_prod_beta)
    from a have "(i + 1) mod length (abc_food_sources st) < length (abc_food_sources st)"
      by (intro mod_less_divisor) auto
    with a have "count < length (abc_food_sources (st\<lparr>abc_rng := snd (py_random (abc_rng st))\<rparr>))
        \<and> (i + 1) mod length (abc_food_sources st) < length probabilities
        \<and> length probabilities
            = length (abc_food_sources (st\<lparr>abc_rng := snd (py_random (abc_rng st))\<rparr>))
        \<and> (\<forall>k. \<forall>x\<in>set probabilities.
              x \<le> py_stream (abc_rng (st\<lparr>abc_rng := snd (py_random (abc_rng st))\<rparr>)) k)"
      by (simp add: py_random_def)
    with IH [OF step] show False
      by (rule notE)
  qed
qed

lemma abc_onlooker_phase_diverges:
  assumes "count < length (abc_food_sources st)" and "i < length probabilities"
    and "length probabilities = length (abc_food_sources st)"
    and "\<forall>k. \<forall>x\<in>set probabilities. x \<le> py_stream (abc_rng st) k"
  shows "abc_onlooker_phase fv probabilities i count st = None"
  using abc_onlooker_phase_stuck [of fv probabilities i count st] assms
  by (cases "abc_onlooker_phase fv probabilities i count st") auto

lemma abc_generate_np_half:
  "np_stream g = (\<lambda>_. 1 / 2) \<Longrightarrow>
     abc_generate_random_solution g = (Array (replicate 8 (1 / 8)), g)"
  by (simp add: abc_generate_random_solution_def np_uniform_def np_rand_np_const [where b = "1 / 2"]
      sum_list_replicate)

lemma abc_initialize_np_half:
  "np_stream g = (\<lambda>_. 1 / 2) \<Longrightarrow>
     abc_initialize_food_sources k g = (replicate k (Array (replicate 8 (1 / 8))), g)"
  by (induction k) (simp_all add: abc_generate_np_half)

lemma abc_no_other_bee:
  "abc_analyze abc_default [high_risk_log] (const_gens 0 (1 / 2)) = None"
proof -
  define st where "st = abc_initial_state abc_default (const_gens 0 (1 / 2))"
  have fs: "length (abc_food_sources st) = 20" and rng: "abc_rng st = const_gens 0 (1 / 2)"
    by (simp_all add: st_def abc_initial_state_def abc_initialize_const abc_default_def)
  have "abc_redraw_other 20 0 0 (const_gens 0 (1 / 2)) = None"
    by (rule abc_redraw_other_diverges) (simp add: const_gens_def)
  then have "abc_visit (abc_extract_features [high_risk_log]) 0 st = None"
    by (simp add: abc_visit_def abc_produce_new_solution_def fs rng py_randrange_def)
  then have "abc_employed_phase (abc_extract_features [high_risk_log])
      [0..<length (abc_food_sources st)] st = None"
    by (simp add: fs upt_conv_Cons)
  then have "abc_iteration abc_default (abc_extract_features [high_risk_log]) st = None"
    by (simp add: abc_iteration_def)
  from abc_main_loop_diverges [OF this, of 49]
  have "abc_optimize abc_default (abc_extract_features [high_risk_log]) (const_gens 0 (1 / 2))
      = None"
    by (simp add: abc_optimize_def st_def abc_default_def)
  then show ?thesis
    by (simp add: abc_analyze_def bindD_def)
qed

lemma abc_two_bees_employed:
  "\<exists>st1. abc_employed_phase (abc_extract_features [high_risk_log]) [0..<2]
            (abc_initial_state two_bees stubborn_gens) = Some st1
         \<and> length (abc_food_sources st1) = 2
         \<and> py_stream (abc_rng st1) = (\<lambda>_. 99 / 100)"
  apply (simp add: abc_initial_state_def two_bees_def abc_default_def stubborn_gens_def
      abc_initialize_np_half upt_conv_Cons)
  apply (simp add: abc_visit_def abc_produce_new_solution_def abc_redraw_other.simps
      py_randrange_def py_random_def py_uniform_def abc_calculate_fitness_def
      abc_extract_features_def Let_def)
  done

text \<open>
  C10 as stated fails.  With the default colony of twenty bees and a generator whose Python
  draws are all 0, the first bee redraws its partner forever (\<open>randrange(20)\<close> is always
  its own index 0).  With two bees and Python draws that are 0.99 from the seventh on, the
  employed phase of the first pass returns, and the onlooker loop then never accepts a
  draw (both selection probabilities are 0.5), so the pass never returns.  All these
  draws lie in [0, 1).
\<close>

theorem abc_analysis_may_run_forever:
  "gens_ok (const_gens 0 (1 / 2))
   \<and> abc_analyze abc_default [high_risk_log] (const_gens 0 (1 / 2)) = None
   \<and> gens_ok stubborn_gens
   \<and> abc_employed_phase (abc_extract_features [high_risk_log]) [0..<2]
        (abc_initial_state two_bees stubborn_gens) \<noteq> None
   \<and> abc_iteration two_bees (abc_extract_features [high_risk_log])
        (abc_initial_state two_bees stubborn_gens) = None
   \<and> abc_analyze two_bees [high_risk_log] stubborn_gens = None"
proof -
  let ?fv = "abc_extract_features [high_risk_log]"
  let ?s0 = "abc_initial_state two_bees stubborn_gens"
  have l0: "length (abc_food_sources ?s0) = 2"
    by (simp add: abc_initial_state_length two_bees_def)
  from abc_two_bees_employed obtain st1 where
    e: "abc_employed_phase ?fv [0..<2] ?s0 = Some st1"
    and l1: "length (abc_food_sources st1) = 2"
    and py1: "py_stream (abc_rng st1) = (\<lambda>_. 99 / 100)"
    by blast
  have single: "length ?fv \<le> 1"
    by (simp add: abc_extract_features_def)
  have fit: "map (\<lambda>source. abc_calculate_fitness source ?fv) (abc_food_sources st1)
      = replicate 2 (Finite 0)"
    using l1 by (intro replicate_eqI) (auto simp: abc_fitness_single_row [OF single])
  have "abc_onlooker_phase ?fv [1 / 2, 1 / 2] 0 0 st1 = None"
    by (rule abc_onlooker_phase_diverges) (simp_all add: l1 py1)
  then have it: "abc_iteration two_bees ?fv ?s0 = None"
    using e by (simp add: abc_iteration_def l0 fit float_sum_def eval_nat_numeral)
  from abc_main_loop_diverges [OF it, of 49]
  have "abc_optimize two_bees ?fv stubborn_gens = None"
    by (simp add: abc_optimize_def two_bees_def abc_default_def)
  then have "abc_analyze two_bees [high_risk_log] stubborn_gens = None"
    by (simp add: abc_analyze_def bindD_def)
  moreover have "gens_ok (const_gens 0 (1 / 2))" and "gens_ok stubborn_gens"
    by (simp_all add: gens_ok_def const_gens_def stubborn_gens_def)
  ultimately show ?thesis
    using abc_no_other_bee e it by simp
qed

text \<open>
  C10, amended.  The bee-colony analysis returns for every list of logs when the generators
  draw from [0, 1) and the stream of Python draws is fair for the colony: from every position
  on it holds \<open>colony_size\<close> values in a row below 1/\<open>colony_size\<close>, and a value of at least
  1/\<open>colony_size\<close>.  It then returns a result, not an error, as soon as there is a bee and an
  iteration.  On a fair stream the onlooker loop reaches its count from every state of the
  colony and for every list of selection probabilities that add up to 1.
\<close>

theorem abc_analyze_returns_on_fair_streams:
  assumes "gens_ok g" and "py_fair (abc_colony_size p) g"
  shows "(\<exists>r. abc_analyze p logs g = Some r
            \<and> (0 < abc_colony_size p \<and> 0 < abc_max_iterations p \<longrightarrow> (\<exists>res. r = Inr res)))
       \<and> (\<forall>fv probabilities st.
             length (abc_food_sources st) = abc_colony_size p \<and> 0 < abc_colony_size p
             \<and> py_fair (abc_colony_size p) (abc_rng st)
             \<and> length probabilities = abc_colony_size p \<and> sum_list probabilities = 1 \<longrightarrow>
             (\<exists>st'. abc_onlooker_phase fv probabilities 0 0 st = Some st'))"
proof (intro conjI allI impI)
  show "\<exists>r. abc_analyze p logs g = Some r
            \<and> (0 < abc_colony_size p \<and> 0 < abc_max_iterations p \<longrightarrow> (\<exists>res. r = Inr res))"
    by (rule abc_analyze_returns [OF assms(2)])
next
  fix fv :: "real list list" and probabilities :: "real list" and st :: abc_state
  assume a: "length (abc_food_sources st) = abc_colony_size p \<and> 0 < abc_colony_size p
             \<and> py_fair (abc_colony_size p) (abc_rng st)
             \<and> length probabilities = abc_colony_size p \<and> sum_list probabilities = 1"
  then have "probabilities \<noteq> []"
    by auto
  with a probability_at_least_average [of probabilities]
  have best: "\<exists>best<abc_colony_size p. 1 / real (abc_colony_size p) \<le> probabilities ! best"
    by auto
  from a have l: "length (abc_food_sources st) = abc_colony_size p"
    and f: "py_fair (abc_colony_size p) (abc_rng st)" and n: "0 < abc_colony_size p"
    by simp_all
  from abc_onlooker_phase_returns [OF best l f n, of fv 0] obtain st' where
    "abc_onlooker_phase fv probabilities 0 0 st = Some st'"
    by blast
  then show "\<exists>st'. abc_onlooker_phase fv probabilities 0 0 st = Some st'"
    by (rule exI)
qed

theorem abc_analyze_returns_on_fair_streams_witness:
  "(\<exists>res. abc_analyze abc_default [high_risk_log] fair_gens = Some (Inr res))
   \<and> (\<exists>st'. abc_onlooker_phase (abc_extract_features [high_risk_log]) (replicate 20 (1 / 20)) 0 0
              (abc_initial_state abc_default fair_gens) = Some st')"
proof -
  have size: "abc_colony_size abc_default = 20" and its: "0 < abc_max_iterations abc_default"
    by (simp_all add: abc_default_def)
  have fair: "py_fair (abc_colony_size abc_default) fair_gens"
    unfolding size by (rule fair_gens_fair)
  note main = abc_analyze_returns_on_fair_streams [OF fair_gens_ok fair, of "[high_risk_log]"]
  from main [THEN conjunct1] size its
  have first: "\<exists>res. abc_analyze abc_default [high_risk_log] fair_gens = Some (Inr res)"
    by auto
  have "length (abc_food_sources (abc_initial_state abc_default fair_gens))
          = abc_colony_size abc_default \<and> 0 < abc_colony_size abc_default
        \<and> py_fair (abc_colony_size abc_default) (abc_rng (abc_initial_state abc_default fair_gens))
        \<and> length (replicate 20 (1 / 20 :: real)) = abc_colony_size abc_default
        \<and> sum_list (replicate 20 (1 / 20 :: real)) = 1"
    using abc_initial_state_fair [OF fair, of abc_default]
    by (simp add: abc_initial_state_length size sum_list_replicate)
  with main [THEN conjunct2, THEN spec [of _ "abc_extract_features [high_risk_log]"],
      THEN spec [of _ "replicate 20 (1 / 20)"],
      THEN spec [of _ "abc_initial_state abc_default fair_gens"], THEN mp]
  have "\<exists>st'. abc_onlooker_phase (abc_extract_features [high_risk_log]) (replicate 20 (1 / 20)) 0 0
              (abc_initial_state abc_default fair_gens) = Some st'"
    by blast
  with first show ?thesis
    by (rule conjI)
qed

end
